theory Spec2Isabelle
  imports Main "HOL-Library.Word" "HOL-Library.AList"
begin

unbundle bit_operations_syntax

section \<open>Errors\<close>

text \<open>
  Go errors as values.  \<open>Errorf\<close> is \<^verbatim>\<open>fmt.Errorf\<close> without \<^verbatim>\<open>%w\<close>; \<open>Wrap p e\<close> is
  \<^verbatim>\<open>fmt.Errorf("p: %w", e)\<close>.  \<open>AWSErr\<close> is an error returned by the AWS SDK (exception
  kind and message), \<open>SQLErr\<close> one returned by the SQL driver, \<open>K8sErr\<close> one returned by
  the cluster API (the flag says whether \<^verbatim>\<open>apierrors.IsNotFound\<close> holds).  The two typed
  errors of \<^verbatim>\<open>internal/secrets\<close> keep the secret name and the wrapped cause.
\<close>

datatype aws_kind = ResourceNotFoundException | InvalidRequestException
  | ResourceExistsException | AccessDeniedException | OtherAWSException

datatype err =
    Errorf string
  | Wrap string err
  | AWSErr aws_kind string
  | SQLErr string
  | K8sErr bool string
  | SecretNotFoundError string err
  | SecretMarkedForDeletionError string err

fun Error :: "err \<Rightarrow> string" where
  "Error (Errorf m) = m"
| "Error (Wrap p e) = p @ '': '' @ Error e"
| "Error (AWSErr k m) = m"
| "Error (SQLErr m) = m"
| "Error (K8sErr nf m) = m"
| "Error (SecretNotFoundError n e) = ''secret '' @ n @ '' does not exist''"
| "Error (SecretMarkedForDeletionError n e) = ''secret '' @ n @ '' is marked for deletion''"

section \<open>Password generation (internal/database/postgres.go)\<close>

type_synonym byte = "8 word"

text \<open>The alphabet of \<^verbatim>\<open>base64.URLEncoding\<close>; the padding character is \<^verbatim>\<open>=\<close>.\<close>

definition encodeURL :: string where
  "encodeURL = ''ABCDEFGHIJKLMNOPQRSTUVWXYZabcdefghijklmnopqrstuvwxyz0123456789-_''"

definition b64char :: "nat \<Rightarrow> char" where
  "b64char n = encodeURL ! (n mod 64)"

fun EncodeToString :: "byte list \<Rightarrow> string" where
  "EncodeToString [] = []"
| "EncodeToString [a] =
     [b64char (unat (drop_bit 2 a)),
      b64char (unat (push_bit 4 (a AND 3))),
      CHR ''='', CHR ''='']"
| "EncodeToString [a, b] =
     [b64char (unat (drop_bit 2 a)),
      b64char (unat (push_bit 4 (a AND 3) OR drop_bit 4 b)),
      b64char (unat (push_bit 2 (b AND 15))),
      CHR ''='']"
| "EncodeToString (a # b # c # rest) =
     [b64char (unat (drop_bit 2 a)),
      b64char (unat (push_bit 4 (a AND 3) OR drop_bit 4 b)),
      b64char (unat (push_bit 2 (b AND 15) OR drop_bit 6 c)),
      b64char (unat (c AND 63))] @ EncodeToString rest"

text \<open>
  \<^verbatim>\<open>crypto/rand.Read\<close> either fails or fills the whole slice.  The source of randomness
  is \<open>None\<close> when the read fails, and otherwise the stream the bytes are taken from.
\<close>

type_synonym rand_source = "(nat \<Rightarrow> byte) option"

definition rand_Read :: "rand_source \<Rightarrow> nat \<Rightarrow> byte list option" where
  "rand_Read rnd n = (case rnd of None \<Rightarrow> None | Some f \<Rightarrow> Some (map f [0..<n]))"

definition GeneratePassword :: "rand_source \<Rightarrow> int \<Rightarrow> err + string" where
  "GeneratePassword rnd length0 =
     (let len = (if length0 < 16 then 32 else length0) in
      case rand_Read rnd (nat len) of
        None \<Rightarrow> Inl (Wrap ''failed to generate random password'' (Errorf ''rand.Read''))
      | Some bytes \<Rightarrow>
          (let password = EncodeToString bytes in
           Inr (if int (length password) > len then take (nat len) password else password)))"

section \<open>Quoting (internal/database/postgres.go, internal/database/mysql.go)\<close>

text \<open>
  \<^verbatim>\<open>strings.ReplaceAll(s, old, new)\<close> at the call sites of the two clients: the pattern
  is always one byte long.  The delimiters are written by code: \<open>0x22\<close> is the double
  quote, \<open>0x27\<close> the single quote, \<open>0x60\<close> the backtick and \<open>0x5C\<close> the backslash.
\<close>

definition ReplaceAll :: "string \<Rightarrow> char \<Rightarrow> string \<Rightarrow> string" where
  "ReplaceAll s old new = concat (map (\<lambda>c. if c = old then new else [c]) s)"

definition quoteIdentifier :: "string \<Rightarrow> string" where
  "quoteIdentifier name = [CHR 0x22] @ ReplaceAll name (CHR 0x22) [CHR 0x22, CHR 0x22] @ [CHR 0x22]"

definition quoteLiteral :: "string \<Rightarrow> string" where
  "quoteLiteral v = [CHR 0x27] @ ReplaceAll v (CHR 0x27) [CHR 0x27, CHR 0x27] @ [CHR 0x27]"

definition quoteMySQLIdentifier :: "string \<Rightarrow> string" where
  "quoteMySQLIdentifier name = [CHR 0x60] @ ReplaceAll name (CHR 0x60) [CHR 0x60, CHR 0x60] @ [CHR 0x60]"

definition quoteMySQLLiteral :: "string \<Rightarrow> string" where
  "quoteMySQLLiteral v =
     (let escaped = ReplaceAll v (CHR 0x5C) [CHR 0x5C, CHR 0x5C];
          escaped = ReplaceAll escaped (CHR 0x27) [CHR 0x27, CHR 0x27]
      in [CHR 0x27] @ escaped @ [CHR 0x27])"


text \<open>
  Reading a quoted token back, as the engines' lexers do: the token starts with the
  delimiter \<open>q\<close>, a doubled delimiter stands for one delimiter, a single delimiter ends
  the token, and (MySQL string literals only, flag \<open>bs\<close>) a backslash escapes the next
  byte.  PostgreSQL string literals are read with \<^verbatim>\<open>standard_conforming_strings\<close> on, the
  server's default, where a backslash is an ordinary byte.  The result is the token's
  value and the rest of the statement.
\<close>

definition mysql_unescape :: "char \<Rightarrow> string" where
  "mysql_unescape c =
     (if c = CHR ''0'' then [CHR 0x00]
      else if c = CHR ''b'' then [CHR 0x08]
      else if c = CHR ''n'' then [CHR 0x0A]
      else if c = CHR ''r'' then [CHR 0x0D]
      else if c = CHR ''t'' then [CHR 0x09]
      else if c = CHR ''Z'' then [CHR 0x1A]
      else if c = CHR ''%'' \<or> c = CHR ''_'' then [CHR 0x5C, c]
      else [c])"

fun scan_body :: "char \<Rightarrow> bool \<Rightarrow> string \<Rightarrow> (string \<times> string) option" where
  "scan_body q bs [] = None"
| "scan_body q bs [c] = (if c = q then Some ([], []) else None)"
| "scan_body q bs (c # d # rest) =
     (if c = q then
        (if d = q then map_option (\<lambda>(t, r). (q # t, r)) (scan_body q bs rest)
         else Some ([], d # rest))
      else if bs \<and> c = CHR 0x5C then
        map_option (\<lambda>(t, r). (mysql_unescape d @ t, r)) (scan_body q bs rest)
      else map_option (\<lambda>(t, r). (c # t, r)) (scan_body q bs (d # rest)))"

definition scan_token :: "char \<Rightarrow> bool \<Rightarrow> string \<Rightarrow> (string \<times> string) option" where
  "scan_token q bs s =
     (case s of [] \<Rightarrow> None | c # cs \<Rightarrow> if c = q then scan_body q bs cs else None)"

definition follows :: "char \<Rightarrow> string \<Rightarrow> bool" where
  "follows q rest = (case rest of [] \<Rightarrow> True | c # cs \<Rightarrow> c \<noteq> q)"

section \<open>Strings and numbers (Go standard library)\<close>

definition HasPrefix :: "string \<Rightarrow> string \<Rightarrow> bool" where
  "HasPrefix s p = (take (length p) s = p)"

definition TrimPrefix :: "string \<Rightarrow> string \<Rightarrow> string" where
  "TrimPrefix s p = (if HasPrefix s p then drop (length p) s else s)"

fun Contains :: "string \<Rightarrow> string \<Rightarrow> bool" where
  "Contains [] sub = (sub = [])"
| "Contains (c # cs) sub = (HasPrefix (c # cs) sub \<or> Contains cs sub)"

text \<open>\<^verbatim>\<open>strings.Index\<close>: the first position of \<open>sub\<close> in \<open>s\<close>, or \<open>-1\<close>.\<close>

fun Index :: "string \<Rightarrow> string \<Rightarrow> int" where
  "Index [] sub = (if sub = [] then 0 else -1)"
| "Index (c # cs) sub =
     (if HasPrefix (c # cs) sub then 0
      else (let i = Index cs sub in if i < 0 then -1 else i + 1))"

text \<open>\<^verbatim>\<open>strings.ToLower\<close> and \<^verbatim>\<open>strings.ToUpper\<close> on the ASCII letters.\<close>

definition upper_letters :: string where
  "upper_letters = ''ABCDEFGHIJKLMNOPQRSTUVWXYZ''"

definition lower_letters :: string where
  "lower_letters = ''abcdefghijklmnopqrstuvwxyz''"

definition lower_char :: "char \<Rightarrow> char" where
  "lower_char c = (case map_of (zip upper_letters lower_letters) c of Some l \<Rightarrow> l | None \<Rightarrow> c)"

definition upper_char :: "char \<Rightarrow> char" where
  "upper_char c = (case map_of (zip lower_letters upper_letters) c of Some u \<Rightarrow> u | None \<Rightarrow> c)"

definition ToLower :: "string \<Rightarrow> string" where
  "ToLower s = map lower_char s"

definition ToUpper :: "string \<Rightarrow> string" where
  "ToUpper s = map upper_char s"

text \<open>\<^verbatim>\<open>strings.TrimRight(s, cutset)\<close>.\<close>

definition TrimRight :: "string \<Rightarrow> string \<Rightarrow> string" where
  "TrimRight s cutset = rev (dropWhile (\<lambda>c. c \<in> set cutset) (rev s))"

text \<open>The verb \<^verbatim>\<open>%d\<close> of \<^verbatim>\<open>fmt.Sprintf\<close> and the verb \<^verbatim>\<open>%v\<close> on a \<^verbatim>\<open>bool\<close>.\<close>

definition decimal_digits :: string where
  "decimal_digits = ''0123456789''"

fun digits :: "nat \<Rightarrow> string" where
  "digits n =
     (if n < 10 then [decimal_digits ! n]
      else digits (n div 10) @ [decimal_digits ! (n mod 10)])"

definition Itoa :: "int \<Rightarrow> string" where
  "Itoa i = (if i < 0 then CHR ''-'' # digits (nat (- i)) else digits (nat i))"

definition fmt_bool :: "bool \<Rightarrow> string" where
  "fmt_bool b = (if b then ''true'' else ''false'')"

text \<open>
  \<^verbatim>\<open>strconv.Atoi\<close> on a 64-bit platform: an optional sign and decimal digits; the
  value on a syntax error is \<open>0\<close>, on a range error the nearest bound.  The controller
  drops the error and keeps the value.
\<close>

definition is_digit :: "char \<Rightarrow> bool" where
  "is_digit c = (c \<in> set decimal_digits)"

definition digit_value :: "char \<Rightarrow> int" where
  "digit_value c = (case map_of (zip decimal_digits [0, 1, 2, 3, 4, 5, 6, 7, 8, 9]) c of
                      Some v \<Rightarrow> v | None \<Rightarrow> 0)"

definition digits_value :: "string \<Rightarrow> int" where
  "digits_value s = foldl (\<lambda>acc c. 10 * acc + digit_value c) 0 s"

definition Atoi :: "string \<Rightarrow> int" where
  "Atoi s =
     (let neg = (s \<noteq> [] \<and> hd s = CHR ''-'');
          body = (if s \<noteq> [] \<and> (hd s = CHR ''-'' \<or> hd s = CHR ''+'') then tl s else s)
      in if body = [] \<or> \<not> list_all is_digit body then 0
         else (let v = (if neg then - digits_value body else digits_value body)
               in max (- (2 ^ 63)) (min (2 ^ 63 - 1) v)))"

section \<open>The Database resource (api/v1alpha1/database_types.go)\<close>

text \<open>
  A Go \<^verbatim>\<open>map[string]string\<close> of tags is an association list with distinct keys; a
  pointer that may be \<^verbatim>\<open>nil\<close> is an \<open>option\<close>.  Field names that two structs share
  carry a prefix.
\<close>

type_synonym tags = "(string \<times> string) list"

record SecretKeyReference =
  RefName :: string
  RefKey :: string

record AWSSecretReference =
  AWSRefSecretName :: string
  AWSRefKey :: string
  AWSRefRegion :: string

record AWSSecretsManagerConfig =
  Region :: string
  Description :: string
  Tags :: tags

record DatabaseSpec =
  Engine :: string
  DatabaseName :: string
  ConnectionStringSecretRef :: "SecretKeyReference option"
  ConnectionStringAWSSecretRef :: "AWSSecretReference option"
  Username :: string
  SecretName :: string
  Privileges :: "string list"
  RetainOnDelete :: "bool option"
  AWSSecretsManager :: "AWSSecretsManagerConfig option"
  SecretTemplate :: string

record StatusConnectionInfo =
  StHost :: string
  StPort :: int
  StDatabase :: string
  StUsername :: string
  StEngine :: string

record DatabaseStatus =
  Phase :: string
  ObservedGeneration :: int
  Message :: string
  DatabaseCreated :: bool
  UserCreated :: bool
  SecretCreated :: bool
  SecretARN :: string
  SecretVersion :: string
  SecretFormatVersion :: string
  ActualUsername :: string
  ActualSecretName :: string
  SecretRegion :: string
  ConnectionInfo :: StatusConnectionInfo

record Database =
  Namespace :: string
  Generation :: int
  Deleting :: bool
  Finalizers :: "string list"
  Spec :: DatabaseSpec
  Status :: DatabaseStatus

section \<open>Library functions the code calls\<close>

text \<open>
  \<^verbatim>\<open>DatabaseSecret\<close> of \<^verbatim>\<open>internal/secrets\<close> and \<^verbatim>\<open>ConnectionInfo\<close> of
  \<^verbatim>\<open>internal/database\<close>.
\<close>

record DatabaseSecret =
  DBHost :: string
  DBPort :: int
  DBName :: string
  DBUsername :: string
  DBPassword :: string
  DatabaseURL :: string
  SecretEngine :: string

record ConnInfo =
  Host :: string
  Port :: string
  Database :: string
  ConnUsername :: string
  ConnPassword :: string
  SSLMode :: string

text \<open>A JSON value; numbers are the integers (the payloads here carry a port number).\<close>

datatype json = JNull | JBool bool | JNumber int | JString string
  | JArray "json list" | JObject "(string \<times> json) list"

text \<open>What \<^verbatim>\<open>url.Parse\<close> returns, as far as the clients read it.\<close>

record URL =
  Hostname :: string
  UPort :: string
  Path :: string
  User :: "(string \<times> string) option"
  QuerySSLMode :: string

text \<open>
  \<^verbatim>\<open>template.New("secret").Parse(t)\<close> followed by \<^verbatim>\<open>Execute\<close> on the secret: the
  template does not parse, or its execution fails (a field the struct does not have, for
  one), or it renders a text.
\<close>

datatype tmpl_result = ParseFailed string | ExecFailed string | Rendered string

text \<open>
  The functions of the Go standard library that the code calls and that are not part of
  the repository: \<^verbatim>\<open>net/url\<close>, \<^verbatim>\<open>encoding/json\<close> (\<open>json_Unmarshal\<close> is \<open>None\<close> on text
  that is not JSON) and \<^verbatim>\<open>text/template\<close>.  Every definition that needs one takes the
  record as its first argument.
\<close>

record golib =
  url_Parse :: "string \<Rightarrow> URL option"
  url_QueryEscape :: "string \<Rightarrow> string"
  json_Marshal :: "json \<Rightarrow> string"
  json_Unmarshal :: "string \<Rightarrow> json option"
  template_Execute :: "string \<Rightarrow> DatabaseSecret \<Rightarrow> tmpl_result"

section \<open>The world outside the controller\<close>

text \<open>
  The SQL statements the two clients execute, as data; \<open>sql_text\<close> below gives the text
  the code sends.
\<close>

datatype stmt =
    PgCreateDatabase string string
  | PgCommentOnDatabase string
  | PgAlterUserPassword string string
  | PgCreateUser string string
  | PgCommentOnRole string
  | PgGrantOnDatabase "string list" string string
  | PgGrantSchema string
  | PgGrantTables string
  | PgAlterDefaultPrivileges string
  | MyCreateUser string string
  | MyCreateDatabase string
  | MyGrantAll string string
  | MyFlushPrivileges
  | PgTerminateBackends string
  | PgDropDatabase string
  | PgRevokeAll string
  | PgDropUser string
  | PgSetPassword string string
  | MyDropUser string
  | MyDropDatabase string
  | MyAlterUser string string

datatype query =
    PgDatabaseExists string
  | PgRoleExists string
  | MyUserCount string
  | MySchemaCount string

text \<open>Every call that leaves the controller's own code, in the order it is made.\<close>

datatype call =
    K8sGet
  | K8sUpdate
  | K8sStatusUpdate
  | K8sGetSecret string string
  | SQLOpen string
  | SQLQueryRow query
  | SQLExec stmt
  | RandRead nat
  | LoadDefaultConfig string
  | SMDescribeSecret string string
  | SMGetSecretValue string string
  | SMCreateSecret string string string string tags
  | SMUpdateSecret string string string
  | SMUpdateDescription string string string
  | SMDeleteSecret string string bool
  | SMRestoreSecret string string
  | SMTagResource string string tags
  | SMUntagResource string string "string list"

type_synonym event = "call \<times> bool"

record secret_entry =
  SecretString :: string
  EntryDescription :: string
  EntryTags :: tags
  ARN :: string
  VersionId :: string
  DeletedDate :: bool

text \<open>
  The state of the three backends and of the in-memory \<^verbatim>\<open>*Database\<close> the pass works
  on.  \<open>roles\<close> maps a user of the database engine to its password, \<open>databases\<close> a
  database to its owner; \<open>secretsmanager\<close> maps a region and a secret name to the secret;
  \<open>k8s_secrets\<close> maps namespace and name to the data of a cluster secret; \<open>sdk_region\<close>
  is the region the AWS SDK resolves when none is given.  \<open>faults\<close> says which calls fail
  for reasons of their own (the n-th call made fails with the given error), \<open>version_ids\<close>
  supplies the version identifiers the secret store hands out, \<open>entropy\<close> is the random
  source, and \<open>trace\<close> records every call with its outcome.  \<open>apiserver\<close> is the
  Database object as the cluster stores it, \<open>recorded\<close> the events sent to the
  recorder (type, reason, message).
\<close>

record world =
  roles :: "string \<rightharpoonup> string"
  databases :: "string \<rightharpoonup> string"
  secretsmanager :: "string \<Rightarrow> string \<rightharpoonup> secret_entry"
  k8s_secrets :: "string \<times> string \<rightharpoonup> (string \<rightharpoonup> string)"
  sdk_region :: string
  entropy :: rand_source
  faults :: "nat \<Rightarrow> err option"
  version_ids :: "nat \<Rightarrow> string"
  trace :: "event list"
  apiserver :: "Database option"
  recorded :: "(string \<times> string \<times> string) list"
  db :: Database

text \<open>
  A Go function that returns \<^verbatim>\<open>(T, error)\<close> and has effects is a function from the
  world to a result and the new world.  \<open>bindIO\<close> is sequencing with the early
  \<^verbatim>\<open>return err\<close>; \<open>wrapErr p\<close> is \<^verbatim>\<open>fmt.Errorf("p: %w", err)\<close> on the error path.
\<close>

type_synonym 'a io = "world \<Rightarrow> (err + 'a) \<times> world"

definition ret :: "'a \<Rightarrow> 'a io" where
  "ret x w = (Inr x, w)"

definition fail :: "err \<Rightarrow> 'a io" where
  "fail e w = (Inl e, w)"

definition bindIO :: "'a io \<Rightarrow> ('a \<Rightarrow> 'b io) \<Rightarrow> 'b io" where
  "bindIO f g w = (case f w of (Inl e, w') \<Rightarrow> (Inl e, w') | (Inr x, w') \<Rightarrow> g x w')"

definition wrapErr :: "string \<Rightarrow> 'a io \<Rightarrow> 'a io" where
  "wrapErr p f w = (case f w of (Inl e, w') \<Rightarrow> (Inl (Wrap p e), w') | (Inr x, w') \<Rightarrow> (Inr x, w'))"

definition modify :: "(world \<Rightarrow> world) \<Rightarrow> unit io" where
  "modify u w = (Inr (), u w)"

definition setStatus :: "(DatabaseStatus \<Rightarrow> DatabaseStatus) \<Rightarrow> unit io" where
  "setStatus u = modify (\<lambda>w. w\<lparr>db := (db w)\<lparr>Status := u (Status (db w))\<rparr>\<rparr>)"

definition isOK :: "err + 'a \<Rightarrow> bool" where
  "isOK r = (case r of Inl e \<Rightarrow> False | Inr x \<Rightarrow> True)"

text \<open>
  One call: it is recorded in the trace with its outcome; when \<open>faults\<close> makes it fail
  it has no effect, otherwise \<open>body\<close> gives its result and its effect on the backends.
\<close>

definition perform :: "call \<Rightarrow> (world \<Rightarrow> (err + 'a) \<times> world) \<Rightarrow> 'a io" where
  "perform c body w =
     (case faults w (length (trace w)) of
        Some e \<Rightarrow> (Inl e, w\<lparr>trace := trace w @ [(c, False)]\<rparr>)
      | None \<Rightarrow>
          (case body w of (r, w') \<Rightarrow> (r, w'\<lparr>trace := trace w @ [(c, isOK r)]\<rparr>)))"

text \<open>\<^verbatim>\<open>errors.As\<close> for an SDK exception type and for the two typed errors.\<close>

fun as_aws :: "aws_kind \<Rightarrow> err \<Rightarrow> bool" where
  "as_aws k (AWSErr k' m) = (k = k')"
| "as_aws k (Wrap p e) = as_aws k e"
| "as_aws k (SecretNotFoundError n e) = as_aws k e"
| "as_aws k (SecretMarkedForDeletionError n e) = as_aws k e"
| "as_aws k (Errorf m) = False"
| "as_aws k (SQLErr m) = False"
| "as_aws k (K8sErr nf m) = False"

fun as_SecretNotFoundError :: "err \<Rightarrow> bool" where
  "as_SecretNotFoundError (SecretNotFoundError n e) = True"
| "as_SecretNotFoundError (Wrap p e) = as_SecretNotFoundError e"
| "as_SecretNotFoundError (SecretMarkedForDeletionError n e) = as_SecretNotFoundError e"
| "as_SecretNotFoundError (AWSErr k m) = False"
| "as_SecretNotFoundError (Errorf m) = False"
| "as_SecretNotFoundError (SQLErr m) = False"
| "as_SecretNotFoundError (K8sErr nf m) = False"

fun as_SecretMarkedForDeletionError :: "err \<Rightarrow> bool" where
  "as_SecretMarkedForDeletionError (SecretMarkedForDeletionError n e) = True"
| "as_SecretMarkedForDeletionError (Wrap p e) = as_SecretMarkedForDeletionError e"
| "as_SecretMarkedForDeletionError (SecretNotFoundError n e) = as_SecretMarkedForDeletionError e"
| "as_SecretMarkedForDeletionError (AWSErr k m) = False"
| "as_SecretMarkedForDeletionError (Errorf m) = False"
| "as_SecretMarkedForDeletionError (SQLErr m) = False"
| "as_SecretMarkedForDeletionError (K8sErr nf m) = False"

section \<open>The credential store client (internal/secrets/aws_secrets_manager.go)\<close>

definition ValidAWSRegions :: "string list" where
  "ValidAWSRegions =
     [''us-east-1'', ''us-east-2'', ''us-west-1'', ''us-west-2'', ''us-gov-west-1'',
      ''us-gov-east-1'', ''af-south-1'', ''ap-east-1'', ''ap-south-1'', ''ap-south-2'',
      ''ap-northeast-1'', ''ap-northeast-2'', ''ap-northeast-3'', ''ap-southeast-1'',
      ''ap-southeast-2'', ''ap-southeast-3'', ''ap-southeast-4'', ''ca-central-1'',
      ''ca-west-1'', ''eu-central-1'', ''eu-central-2'', ''eu-west-1'', ''eu-west-2'',
      ''eu-west-3'', ''eu-south-1'', ''eu-south-2'', ''eu-north-1'', ''me-south-1'',
      ''me-central-1'', ''sa-east-1'', ''cn-north-1'', ''cn-northwest-1'', ''il-central-1'']"

definition ValidateRegion :: "string \<Rightarrow> err option" where
  "ValidateRegion region =
     (if region = [] then None
      else if region \<notin> set ValidAWSRegions then Some (Errorf (''invalid AWS region: '' @ region))
      else None)"

definition toJSONDefault :: "golib \<Rightarrow> DatabaseSecret \<Rightarrow> string" where
  "toJSONDefault L s =
     (let secretMap =
            [(''DB_HOST'', JString (DBHost s)),
             (''DB_PORT'', JNumber (DBPort s)),
             (''DB_NAME'', JString (DBName s)),
             (''DB_USERNAME'', JString (DBUsername s)),
             (''DB_PASSWORD'', JString (DBPassword s))];
          secretMap =
            (if DatabaseURL s \<noteq> [] \<and> SecretEngine s \<noteq> [] then
               (let urlFieldName =
                      (if HasPrefix (ToLower (SecretEngine s)) ''postgres'' then ''POSTGRES_URL''
                       else ToUpper (SecretEngine s) @ ''_URL'')
                in AList.update urlFieldName (JString (DatabaseURL s)) secretMap)
             else secretMap)
      in json_Marshal L (JObject secretMap))"

definition ToJSONWithTemplate :: "golib \<Rightarrow> DatabaseSecret \<Rightarrow> string \<Rightarrow> err + string" where
  "ToJSONWithTemplate L s tmplStr =
     (if tmplStr = [] then Inr (toJSONDefault L s)
      else case template_Execute L tmplStr s of
             ParseFailed m \<Rightarrow> Inl (Wrap ''failed to parse secret template'' (Errorf m))
           | ExecFailed m \<Rightarrow> Inl (Wrap ''failed to execute secret template'' (Errorf m))
           | Rendered buf \<Rightarrow>
               (case json_Unmarshal L buf of
                  None \<Rightarrow> Inl (Wrap ''template output is not valid JSON'' (Errorf ''invalid character''))
                | Some jsonCheck \<Rightarrow> Inr buf))"

text \<open>
  The client is its resolved region.  \<^verbatim>\<open>config.LoadDefaultConfig\<close> keeps the region
  it is given and resolves the ambient one otherwise.
\<close>

definition NewAWSSecretsManagerClient :: "string \<Rightarrow> string io" where
  "NewAWSSecretsManagerClient region =
     wrapErr ''failed to load AWS config''
       (perform (LoadDefaultConfig region)
          (\<lambda>w. (Inr (if region \<noteq> [] then region else sdk_region w), w)))"

text \<open>
  The operations of the secret store itself, as the service documents them: a secret
  that is scheduled for deletion is still described, but it is neither read, written nor
  tagged, and its name cannot be created again until it is restored or purged.
\<close>

definition not_found :: err where
  "not_found = AWSErr ResourceNotFoundException
     (''ResourceNotFoundException: Secrets Manager can'' @ [CHR 0x27] @ ''t find the specified secret.'')"

definition marked_for_deletion :: err where
  "marked_for_deletion = AWSErr InvalidRequestException
     (''InvalidRequestException: You can'' @ [CHR 0x27] @ ''t perform this operation on the secret because it was marked for deletion.'')"

definition scheduled_for_deletion :: err where
  "scheduled_for_deletion = AWSErr InvalidRequestException
     (''InvalidRequestException: You can'' @ [CHR 0x27] @ ''t create this secret because a secret with this name is already scheduled for deletion.'')"

definition already_exists :: err where
  "already_exists = AWSErr ResourceExistsException
     ''ResourceExistsException: The operation failed because the secret already exists.''"

definition put_entry :: "string \<Rightarrow> string \<Rightarrow> secret_entry option \<Rightarrow> world \<Rightarrow> world" where
  "put_entry region name e w =
     w\<lparr>secretsmanager := (secretsmanager w)(region := (secretsmanager w region)(name := e))\<rparr>"

definition arn_of :: "string \<Rightarrow> string \<Rightarrow> string" where
  "arn_of region name = ''arn:aws:secretsmanager:'' @ region @ '':secret:'' @ name"

text \<open>Assigning each pair of \<open>new\<close> into the map \<open>base\<close>, as \<^verbatim>\<open>m[k] = v\<close> in a loop.\<close>

definition putTags :: "tags \<Rightarrow> tags \<Rightarrow> tags" where
  "putTags new base = fold (\<lambda>kv. AList.update (fst kv) (snd kv)) new base"

definition sm_DescribeSecret :: "string \<Rightarrow> string \<Rightarrow> secret_entry io" where
  "sm_DescribeSecret region name =
     perform (SMDescribeSecret region name)
       (\<lambda>w. case secretsmanager w region name of
               None \<Rightarrow> (Inl not_found, w)
             | Some e \<Rightarrow> (Inr e, w))"

definition sm_GetSecretValue :: "string \<Rightarrow> string \<Rightarrow> string io" where
  "sm_GetSecretValue region name =
     perform (SMGetSecretValue region name)
       (\<lambda>w. case secretsmanager w region name of
               None \<Rightarrow> (Inl not_found, w)
             | Some e \<Rightarrow> if DeletedDate e then (Inl marked_for_deletion, w)
                         else (Inr (SecretString e), w))"

definition sm_CreateSecret ::
  "string \<Rightarrow> string \<Rightarrow> string \<Rightarrow> string \<Rightarrow> tags \<Rightarrow> (string \<times> string) io" where
  "sm_CreateSecret region name description secretString awsTags =
     perform (SMCreateSecret region name description secretString awsTags)
       (\<lambda>w. case secretsmanager w region name of
               Some e \<Rightarrow> (Inl (if DeletedDate e then scheduled_for_deletion else already_exists), w)
             | None \<Rightarrow>
                 (let v = version_ids w (length (trace w));
                      e = \<lparr>SecretString = secretString, EntryDescription = description,
                           EntryTags = awsTags, ARN = arn_of region name, VersionId = v,
                           DeletedDate = False\<rparr>
                  in (Inr (arn_of region name, v), put_entry region name (Some e) w)))"

definition sm_UpdateSecret :: "string \<Rightarrow> string \<Rightarrow> string \<Rightarrow> string io" where
  "sm_UpdateSecret region name secretString =
     perform (SMUpdateSecret region name secretString)
       (\<lambda>w. case secretsmanager w region name of
               None \<Rightarrow> (Inl not_found, w)
             | Some e \<Rightarrow>
                 if DeletedDate e then (Inl marked_for_deletion, w)
                 else (let v = version_ids w (length (trace w))
                       in (Inr v, put_entry region name
                                    (Some (e\<lparr>SecretString := secretString, VersionId := v\<rparr>)) w)))"

definition sm_UpdateDescription :: "string \<Rightarrow> string \<Rightarrow> string \<Rightarrow> unit io" where
  "sm_UpdateDescription region name description =
     perform (SMUpdateDescription region name description)
       (\<lambda>w. case secretsmanager w region name of
               None \<Rightarrow> (Inl not_found, w)
             | Some e \<Rightarrow>
                 if DeletedDate e then (Inl marked_for_deletion, w)
                 else (Inr (), put_entry region name (Some (e\<lparr>EntryDescription := description\<rparr>)) w))"

definition sm_DeleteSecret :: "string \<Rightarrow> string \<Rightarrow> bool \<Rightarrow> unit io" where
  "sm_DeleteSecret region name force =
     perform (SMDeleteSecret region name force)
       (\<lambda>w. if force then (Inr (), put_entry region name None w)
             else case secretsmanager w region name of
                    None \<Rightarrow> (Inl not_found, w)
                  | Some e \<Rightarrow> (Inr (), put_entry region name (Some (e\<lparr>DeletedDate := True\<rparr>)) w))"

definition sm_RestoreSecret :: "string \<Rightarrow> string \<Rightarrow> unit io" where
  "sm_RestoreSecret region name =
     perform (SMRestoreSecret region name)
       (\<lambda>w. case secretsmanager w region name of
               None \<Rightarrow> (Inl not_found, w)
             | Some e \<Rightarrow> (Inr (), put_entry region name (Some (e\<lparr>DeletedDate := False\<rparr>)) w))"

definition sm_TagResource :: "string \<Rightarrow> string \<Rightarrow> tags \<Rightarrow> unit io" where
  "sm_TagResource region name awsTags =
     perform (SMTagResource region name awsTags)
       (\<lambda>w. case secretsmanager w region name of
               None \<Rightarrow> (Inl not_found, w)
             | Some e \<Rightarrow>
                 if DeletedDate e then (Inl marked_for_deletion, w)
                 else (Inr (), put_entry region name
                         (Some (e\<lparr>EntryTags := putTags awsTags (EntryTags e)\<rparr>)) w))"

definition sm_UntagResource :: "string \<Rightarrow> string \<Rightarrow> string list \<Rightarrow> unit io" where
  "sm_UntagResource region name tagKeys =
     perform (SMUntagResource region name tagKeys)
       (\<lambda>w. case secretsmanager w region name of
               None \<Rightarrow> (Inl not_found, w)
             | Some e \<Rightarrow>
                 if DeletedDate e then (Inl marked_for_deletion, w)
                 else (Inr (), put_entry region name
                         (Some (e\<lparr>EntryTags := filter (\<lambda>kv. fst kv \<notin> set tagKeys) (EntryTags e)\<rparr>)) w))"

definition catchIO :: "'a io \<Rightarrow> (err \<Rightarrow> 'a io) \<Rightarrow> 'a io" where
  "catchIO f h w = (case f w of (Inl e, w') \<Rightarrow> h e w' | (Inr x, w') \<Rightarrow> (Inr x, w'))"

definition SecretExists :: "string \<Rightarrow> string \<Rightarrow> bool io" where
  "SecretExists c secretName =
     catchIO (bindIO (sm_DescribeSecret c secretName) (\<lambda>out. ret True))
       (\<lambda>e. if as_aws ResourceNotFoundException e then ret False
            else fail (Wrap ''failed to describe secret'' e))"

definition UpdateSecretWithTemplate ::
  "golib \<Rightarrow> string \<Rightarrow> string \<Rightarrow> DatabaseSecret \<Rightarrow> string \<Rightarrow> string io" where
  "UpdateSecretWithTemplate L c secretName secretValue tmpl =
     (case ToJSONWithTemplate L secretValue tmpl of
        Inl e \<Rightarrow> fail (Wrap ''failed to marshal secret value'' e)
      | Inr secretJSON \<Rightarrow>
          catchIO (sm_UpdateSecret c secretName secretJSON)
            (\<lambda>e. if as_aws ResourceNotFoundException e then fail (SecretNotFoundError secretName e)
                 else if as_aws InvalidRequestException e
                         \<and> Contains (Error e) ''marked for deletion''
                   then fail (SecretMarkedForDeletionError secretName e)
                 else fail (Wrap ''failed to update secret'' e)))"

definition RestoreSecret :: "string \<Rightarrow> string \<Rightarrow> unit io" where
  "RestoreSecret c secretName = wrapErr ''failed to restore secret'' (sm_RestoreSecret c secretName)"

definition UpdateSecretMetadata :: "string \<Rightarrow> string \<Rightarrow> string \<Rightarrow> unit io" where
  "UpdateSecretMetadata c secretName description =
     wrapErr ''failed to update secret metadata'' (sm_UpdateDescription c secretName description)"

definition TagSecret :: "string \<Rightarrow> string \<Rightarrow> tags \<Rightarrow> unit io" where
  "TagSecret c secretName tgs = wrapErr ''failed to tag secret'' (sm_TagResource c secretName tgs)"

definition UntagSecret :: "string \<Rightarrow> string \<Rightarrow> string list \<Rightarrow> unit io" where
  "UntagSecret c secretName tagKeys =
     (if length tagKeys = 0 then ret ()
      else wrapErr ''failed to untag secret'' (sm_UntagResource c secretName tagKeys))"

definition GetSecretTags :: "string \<Rightarrow> string \<Rightarrow> tags io" where
  "GetSecretTags c secretName =
     bindIO (wrapErr ''failed to describe secret'' (sm_DescribeSecret c secretName))
       (\<lambda>out. ret (EntryTags out))"

definition GetSecretARN :: "string \<Rightarrow> string \<Rightarrow> string io" where
  "GetSecretARN c secretName =
     bindIO (wrapErr ''failed to describe secret'' (sm_DescribeSecret c secretName))
       (\<lambda>out. ret (ARN out))"

definition CreateSecretWithTemplate ::
  "golib \<Rightarrow> string \<Rightarrow> string \<Rightarrow> string \<Rightarrow> DatabaseSecret \<Rightarrow> tags \<Rightarrow> string
     \<Rightarrow> (string \<times> string) io" where
  "CreateSecretWithTemplate L c secretName description secretValue tgs tmpl =
     (case ToJSONWithTemplate L secretValue tmpl of
        Inl e \<Rightarrow> fail (Wrap ''failed to marshal secret value'' e)
      | Inr secretJSON \<Rightarrow>
          catchIO (sm_CreateSecret c secretName description secretJSON tgs)
            (\<lambda>e. if as_aws InvalidRequestException e
                    \<and> Contains (Error e) ''scheduled for deletion''
                 then
                   bindIO (wrapErr ''failed to restore secret scheduled for deletion''
                             (RestoreSecret c secretName)) (\<lambda>u1.
                   bindIO (wrapErr ''failed to update restored secret''
                             (UpdateSecretWithTemplate L c secretName secretValue tmpl)) (\<lambda>versionId.
                   bindIO (wrapErr ''failed to update secret description''
                             (UpdateSecretMetadata c secretName description)) (\<lambda>u2.
                   bindIO (wrapErr ''failed to update secret tags''
                             (TagSecret c secretName tgs)) (\<lambda>u3.
                   bindIO (wrapErr ''failed to get secret ARN after restore''
                             (GetSecretARN c secretName)) (\<lambda>arn.
                   ret (arn, versionId))))))
                 else fail (Wrap ''failed to create secret'' e)))"

definition DeleteSecret :: "string \<Rightarrow> string \<Rightarrow> bool \<Rightarrow> unit io" where
  "DeleteSecret c secretName forceDelete =
     catchIO (sm_DeleteSecret c secretName forceDelete)
       (\<lambda>e. if as_aws ResourceNotFoundException e then ret ()
            else fail (Wrap ''failed to delete secret'' e))"

text \<open>
  \<^verbatim>\<open>json.Unmarshal\<close> into a \<^verbatim>\<open>DatabaseSecret\<close>: the members of an object are taken in
  order, a key selects the field whose tag it equals up to the case of ASCII letters,
  \<^verbatim>\<open>null\<close> leaves a field as it is, and a value of the wrong type is an error.
\<close>

definition zeroSecret :: DatabaseSecret where
  "zeroSecret = \<lparr>DBHost = [], DBPort = 0, DBName = [], DBUsername = [], DBPassword = [],
                 DatabaseURL = [], SecretEngine = []\<rparr>"

definition set_field :: "string \<Rightarrow> json \<Rightarrow> DatabaseSecret \<Rightarrow> DatabaseSecret option" where
  "set_field k v s =
     (let f = ToLower k in
      if f = ''db_port'' then
        (case v of JNumber n \<Rightarrow> Some (s\<lparr>DBPort := n\<rparr>) | JNull \<Rightarrow> Some s | _ \<Rightarrow> None)
      else if f \<in> set [''db_host'', ''db_name'', ''db_username'', ''db_password''] then
        (case v of
           JString x \<Rightarrow>
             Some (if f = ''db_host'' then s\<lparr>DBHost := x\<rparr>
                   else if f = ''db_name'' then s\<lparr>DBName := x\<rparr>
                   else if f = ''db_username'' then s\<lparr>DBUsername := x\<rparr>
                   else s\<lparr>DBPassword := x\<rparr>)
         | JNull \<Rightarrow> Some s
         | _ \<Rightarrow> None)
      else Some s)"

fun set_fields :: "(string \<times> json) list \<Rightarrow> DatabaseSecret \<Rightarrow> DatabaseSecret option" where
  "set_fields [] s = Some s"
| "set_fields ((k, v) # kvs) s =
     (case set_field k v s of
        None \<Rightarrow> None
      | Some s' \<Rightarrow> set_fields kvs s')"

definition unmarshal_DatabaseSecret :: "json \<Rightarrow> DatabaseSecret option" where
  "unmarshal_DatabaseSecret j =
     (case j of JNull \<Rightarrow> Some zeroSecret | JObject kvs \<Rightarrow> set_fields kvs zeroSecret | _ \<Rightarrow> None)"

text \<open>The legacy flat keys, read from a \<^verbatim>\<open>map[string]interface{}\<close> (the last of equal keys wins).\<close>

definition old_format :: "(string \<times> json) list \<Rightarrow> DatabaseSecret \<Rightarrow> DatabaseSecret" where
  "old_format kvs secret =
     (let oldFormat = map_of (rev kvs);
          secret = (case oldFormat ''password'' of
                      Some (JString pwd) \<Rightarrow> secret\<lparr>DBPassword := pwd\<rparr> | _ \<Rightarrow> secret);
          secret = (case oldFormat ''host'' of
                      Some (JString h) \<Rightarrow> if DBHost secret = [] then secret\<lparr>DBHost := h\<rparr> else secret
                    | _ \<Rightarrow> secret);
          secret = (case oldFormat ''port'' of
                      Some (JNumber p) \<Rightarrow> if DBPort secret = 0 then secret\<lparr>DBPort := p\<rparr> else secret
                    | _ \<Rightarrow> secret);
          secret = (case oldFormat ''dbname'' of
                      Some (JString n) \<Rightarrow> if DBName secret = [] then secret\<lparr>DBName := n\<rparr> else secret
                    | _ \<Rightarrow> secret);
          secret = (case oldFormat ''username'' of
                      Some (JString u) \<Rightarrow>
                        if DBUsername secret = [] then secret\<lparr>DBUsername := u\<rparr> else secret
                    | _ \<Rightarrow> secret)
      in secret)"

definition parse_secret :: "golib \<Rightarrow> string \<Rightarrow> err + DatabaseSecret" where
  "parse_secret L secretString =
     (case json_Unmarshal L secretString of
        None \<Rightarrow> Inl (Wrap ''failed to unmarshal secret value'' (Errorf ''invalid character''))
      | Some j \<Rightarrow>
          (case unmarshal_DatabaseSecret j of
             None \<Rightarrow> Inl (Wrap ''failed to unmarshal secret value'' (Errorf ''cannot unmarshal''))
           | Some secret \<Rightarrow>
               Inr (if DBPassword secret = [] then
                      (case j of JObject kvs \<Rightarrow> old_format kvs secret | _ \<Rightarrow> secret)
                    else secret)))"

definition GetSecret :: "golib \<Rightarrow> string \<Rightarrow> string \<Rightarrow> DatabaseSecret io" where
  "GetSecret L c secretName =
     bindIO (wrapErr ''failed to get secret value'' (sm_GetSecretValue c secretName))
       (\<lambda>secretString. case parse_secret L secretString of Inl e \<Rightarrow> fail e | Inr s \<Rightarrow> ret s)"

definition GetSecretString :: "string \<Rightarrow> string \<Rightarrow> string io" where
  "GetSecretString c secretName =
     wrapErr ''failed to get secret value'' (sm_GetSecretValue c secretName)"

section \<open>The engine clients (internal/database)\<close>

datatype Client = PostgresClient ConnInfo | MySQLClient ConnInfo

definition GetConnectionInfo :: "Client \<Rightarrow> ConnInfo" where
  "GetConnectionInfo c = (case c of PostgresClient ci \<Rightarrow> ci | MySQLClient ci \<Rightarrow> ci)"

definition zeroConnInfo :: ConnInfo where
  "zeroConnInfo = \<lparr>Host = [], Port = [], Database = [], ConnUsername = [], ConnPassword = [],
                   SSLMode = []\<rparr>"

definition ParseConnectionString :: "golib \<Rightarrow> string \<Rightarrow> err + ConnInfo" where
  "ParseConnectionString L connectionString =
     (if HasPrefix connectionString ''postgres://'' \<or> HasPrefix connectionString ''postgresql://''
      then
        (case url_Parse L connectionString of
           None \<Rightarrow> Inl (Wrap ''failed to parse connection URL'' (Errorf ''parse''))
         | Some u \<Rightarrow>
             (let info = \<lparr>Host = Hostname u, Port = UPort u, Database = TrimPrefix (Path u) ''/'',
                          ConnUsername = [], ConnPassword = [], SSLMode = QuerySSLMode u\<rparr>;
                  info = (case User u of
                            None \<Rightarrow> info
                          | Some (name, pw) \<Rightarrow> info\<lparr>ConnUsername := name, ConnPassword := pw\<rparr>);
                  info = (if Port info = [] then info\<lparr>Port := ''5432''\<rparr> else info);
                  info = (if SSLMode info = [] then info\<lparr>SSLMode := ''require''\<rparr> else info)
              in Inr info))
      else Inl (Errorf ''unsupported connection string format, expected postgres:// or postgresql:// URL''))"

text \<open>Go's \<^verbatim>\<open>s[:i]\<close> and \<^verbatim>\<open>s[i:]\<close> at an index that \<^verbatim>\<open>strings.Index\<close> returned.\<close>

definition sliceTo :: "string \<Rightarrow> int \<Rightarrow> string" where
  "sliceTo s i = take (nat i) s"

definition sliceFrom :: "string \<Rightarrow> int \<Rightarrow> string" where
  "sliceFrom s i = drop (nat i) s"

definition parseMySQLDSN :: "string \<Rightarrow> ConnInfo" where
  "parseMySQLDSN dsn =
     (let info = zeroConnInfo;
          atIndex = Index dsn ''@'';
          info =
            (if atIndex > 0 then
               (let userPass = sliceTo dsn atIndex; colonIndex = Index userPass '':'' in
                if colonIndex > 0
                then info\<lparr>ConnUsername := sliceTo userPass colonIndex,
                          ConnPassword := sliceFrom userPass (colonIndex + 1)\<rparr>
                else info\<lparr>ConnUsername := userPass\<rparr>)
             else info);
          tcpStart = Index dsn ''@tcp('';
          info =
            (if tcpStart \<ge> 0 then
               (let tcpEnd = Index (sliceFrom dsn tcpStart) '')'' in
                if tcpEnd > 0 then
                  (let hostPort = sliceFrom (sliceTo dsn (tcpStart + tcpEnd)) (tcpStart + 5);
                       colonIndex = Index hostPort '':'' in
                   if colonIndex > 0
                   then info\<lparr>Host := sliceTo hostPort colonIndex, Port := sliceFrom hostPort (colonIndex + 1)\<rparr>
                   else info\<lparr>Host := hostPort, Port := ''3306''\<rparr>)
                else info)
             else info);
          slashIndex = Index dsn '')/'';
          info =
            (if slashIndex > 0 then
               (let remaining = sliceFrom dsn (slashIndex + 2); questionIndex = Index remaining ''?'' in
                if questionIndex > 0 then info\<lparr>Database := sliceTo remaining questionIndex\<rparr>
                else info\<lparr>Database := remaining\<rparr>)
             else info)
      in info)"

definition ParseMySQLConnectionString :: "golib \<Rightarrow> string \<Rightarrow> err + ConnInfo" where
  "ParseMySQLConnectionString L connectionString =
     (if HasPrefix connectionString ''mysql://'' then
        (case url_Parse L connectionString of
           None \<Rightarrow> Inl (Wrap ''failed to parse connection URL'' (Errorf ''parse''))
         | Some u \<Rightarrow>
             (let info = \<lparr>Host = Hostname u, Port = UPort u, Database = TrimPrefix (Path u) ''/'',
                          ConnUsername = [], ConnPassword = [], SSLMode = []\<rparr>;
                  info = (case User u of
                            None \<Rightarrow> info
                          | Some (name, pw) \<Rightarrow> info\<lparr>ConnUsername := name, ConnPassword := pw\<rparr>);
                  info = (if Port info = [] then info\<lparr>Port := ''3306''\<rparr> else info)
              in Inr info))
      else if Contains connectionString ''@tcp('' then Inr (parseMySQLDSN connectionString)
      else Inl (Errorf ''unsupported MySQL connection string format''))"

definition convertMySQLURLToDSN :: "golib \<Rightarrow> string \<Rightarrow> err + string" where
  "convertMySQLURLToDSN L connectionString =
     (case ParseMySQLConnectionString L connectionString of
        Inl e \<Rightarrow> Inl e
      | Inr info \<Rightarrow>
          Inr (ConnUsername info @ '':'' @ ConnPassword info @ ''@tcp('' @ Host info @ '':''
               @ Port info @ '')/'' @ Database info @ ''?parseTime=true''))"

text \<open>The text of each statement and query, as \<^verbatim>\<open>fmt.Sprintf\<close> builds it.\<close>

definition managed_comment :: string where
  "managed_comment = ''Managed by database-user-operator''"

fun Join :: "string list \<Rightarrow> string \<Rightarrow> string" where
  "Join [] sep = []"
| "Join [x] sep = x"
| "Join (x # y # xs) sep = x @ sep @ Join (y # xs) sep"

definition any_host :: string where
  "any_host = [CHR ''@'', CHR 0x27, CHR ''%'', CHR 0x27]"

fun sql_text :: "stmt \<Rightarrow> string" where
  "sql_text (PgCreateDatabase d owner) =
     ''CREATE DATABASE '' @ quoteIdentifier d @ '' OWNER '' @ quoteIdentifier owner"
| "sql_text (PgCommentOnDatabase d) =
     ''COMMENT ON DATABASE '' @ quoteIdentifier d @ '' IS '' @ quoteLiteral managed_comment"
| "sql_text (PgAlterUserPassword u p) =
     ''ALTER USER '' @ quoteIdentifier u @ '' WITH PASSWORD '' @ quoteLiteral p"
| "sql_text (PgCreateUser u p) =
     ''CREATE USER '' @ quoteIdentifier u @ '' WITH PASSWORD '' @ quoteLiteral p"
| "sql_text (PgCommentOnRole u) =
     ''COMMENT ON ROLE '' @ quoteIdentifier u @ '' IS '' @ quoteLiteral managed_comment"
| "sql_text (PgGrantOnDatabase privs d u) =
     ''GRANT '' @ Join privs '', '' @ '' ON DATABASE '' @ quoteIdentifier d @ '' TO ''
       @ quoteIdentifier u"
| "sql_text (PgGrantSchema u) = ''GRANT ALL ON SCHEMA public TO '' @ quoteIdentifier u"
| "sql_text (PgGrantTables u) =
     ''GRANT ALL ON ALL TABLES IN SCHEMA public TO '' @ quoteIdentifier u"
| "sql_text (PgAlterDefaultPrivileges u) =
     ''ALTER DEFAULT PRIVILEGES IN SCHEMA public GRANT ALL ON TABLES TO '' @ quoteIdentifier u"
| "sql_text (MyCreateUser u p) =
     ''CREATE USER IF NOT EXISTS '' @ quoteMySQLIdentifier u @ any_host @ '' IDENTIFIED BY ''
       @ quoteMySQLLiteral p"
| "sql_text (MyCreateDatabase d) =
     ''CREATE DATABASE IF NOT EXISTS '' @ quoteMySQLIdentifier d
       @ '' CHARACTER SET utf8mb4 COLLATE utf8mb4_unicode_ci''"
| "sql_text (MyGrantAll d u) =
     ''GRANT ALL PRIVILEGES ON '' @ quoteMySQLIdentifier d @ ''.* TO '' @ quoteMySQLIdentifier u
       @ any_host"
| "sql_text MyFlushPrivileges = ''FLUSH PRIVILEGES''"
| "sql_text (PgTerminateBackends d) =
     ''SELECT pg_terminate_backend(pid) FROM pg_stat_activity WHERE datname = $1 AND pid <> pg_backend_pid()''"
| "sql_text (PgDropDatabase d) = ''DROP DATABASE IF EXISTS '' @ quoteIdentifier d"
| "sql_text (PgRevokeAll u) =
     ''REVOKE ALL PRIVILEGES ON ALL TABLES IN SCHEMA public FROM '' @ quoteIdentifier u"
| "sql_text (PgDropUser u) = ''DROP USER IF EXISTS '' @ quoteIdentifier u"
| "sql_text (PgSetPassword u p) =
     ''ALTER USER '' @ quoteIdentifier u @ '' WITH PASSWORD '' @ quoteLiteral p"
| "sql_text (MyDropUser u) = ''DROP USER IF EXISTS '' @ quoteMySQLIdentifier u @ any_host"
| "sql_text (MyDropDatabase d) = ''DROP DATABASE IF EXISTS '' @ quoteMySQLIdentifier d"
| "sql_text (MyAlterUser u p) =
     ''ALTER USER '' @ quoteMySQLIdentifier u @ any_host @ '' IDENTIFIED BY ''
       @ quoteMySQLLiteral p"

fun query_text :: "query \<Rightarrow> string \<times> string" where
  "query_text (PgDatabaseExists d) =
     (''SELECT EXISTS(SELECT 1 FROM pg_database WHERE datname = $1)'', d)"
| "query_text (PgRoleExists u) =
     (''SELECT EXISTS(SELECT 1 FROM pg_roles WHERE rolname = $1)'', u)"
| "query_text (MyUserCount u) = (''SELECT COUNT(*) FROM mysql.user WHERE user = ?'', u)"
| "query_text (MySchemaCount d) =
     (''SELECT COUNT(*) FROM information_schema.SCHEMATA WHERE SCHEMA_NAME = ?'', d)"

text \<open>
  What the engine does with a statement.  Creating a role or a database that exists is
  an error in PostgreSQL, as is a password change or an ownership for a role that does
  not exist; MySQL's \<^verbatim>\<open>IF NOT EXISTS\<close> forms leave an existing object (and a user's
  password) as it is.  Comments, grants and the privilege flush do not change the part
  of the state modelled here.
\<close>

fun exec_effect :: "stmt \<Rightarrow> world \<Rightarrow> (err + unit) \<times> world" where
  "exec_effect (PgCreateUser u p) w =
     (if roles w u \<noteq> None then (Inl (SQLErr ''pq: role already exists''), w)
      else (Inr (), w\<lparr>roles := (roles w)(u \<mapsto> p)\<rparr>))"
| "exec_effect (PgAlterUserPassword u p) w =
     (if roles w u = None then (Inl (SQLErr ''pq: role does not exist''), w)
      else (Inr (), w\<lparr>roles := (roles w)(u \<mapsto> p)\<rparr>))"
| "exec_effect (PgCreateDatabase d owner) w =
     (if databases w d \<noteq> None then (Inl (SQLErr ''pq: database already exists''), w)
      else if roles w owner = None then (Inl (SQLErr ''pq: role does not exist''), w)
      else (Inr (), w\<lparr>databases := (databases w)(d \<mapsto> owner)\<rparr>))"
| "exec_effect (MyCreateUser u p) w =
     (if roles w u \<noteq> None then (Inr (), w) else (Inr (), w\<lparr>roles := (roles w)(u \<mapsto> p)\<rparr>))"
| "exec_effect (MyCreateDatabase d) w =
     (if databases w d \<noteq> None then (Inr (), w)
      else (Inr (), w\<lparr>databases := (databases w)(d \<mapsto> [])\<rparr>))"
| "exec_effect (PgCommentOnDatabase d) w = (Inr (), w)"
| "exec_effect (PgCommentOnRole u) w = (Inr (), w)"
| "exec_effect (PgGrantOnDatabase privs d u) w = (Inr (), w)"
| "exec_effect (PgGrantSchema u) w = (Inr (), w)"
| "exec_effect (PgGrantTables u) w = (Inr (), w)"
| "exec_effect (PgAlterDefaultPrivileges u) w = (Inr (), w)"
| "exec_effect (MyGrantAll d u) w = (Inr (), w)"
| "exec_effect MyFlushPrivileges w = (Inr (), w)"
| "exec_effect (PgTerminateBackends d) w = (Inr (), w)"
| "exec_effect (PgDropDatabase d) w = (Inr (), w\<lparr>databases := (databases w)(d := None)\<rparr>)"
| "exec_effect (PgRevokeAll u) w = (Inr (), w)"
| "exec_effect (PgDropUser u) w = (Inr (), w\<lparr>roles := (roles w)(u := None)\<rparr>)"
| "exec_effect (PgSetPassword u p) w =
     (if roles w u = None then (Inl (SQLErr ''pq: role does not exist''), w)
      else (Inr (), w\<lparr>roles := (roles w)(u \<mapsto> p)\<rparr>))"
| "exec_effect (MyDropUser u) w = (Inr (), w\<lparr>roles := (roles w)(u := None)\<rparr>)"
| "exec_effect (MyDropDatabase d) w = (Inr (), w\<lparr>databases := (databases w)(d := None)\<rparr>)"
| "exec_effect (MyAlterUser u p) w =
     (if roles w u = None then (Inl (SQLErr ''Error 1396: Operation ALTER USER failed''), w)
      else (Inr (), w\<lparr>roles := (roles w)(u \<mapsto> p)\<rparr>))"

fun query_answer :: "query \<Rightarrow> world \<Rightarrow> bool" where
  "query_answer (PgDatabaseExists d) w = (databases w d \<noteq> None)"
| "query_answer (PgRoleExists u) w = (roles w u \<noteq> None)"
| "query_answer (MyUserCount u) w = (roles w u \<noteq> None)"
| "query_answer (MySchemaCount d) w = (databases w d \<noteq> None)"

definition ExecContext :: "stmt \<Rightarrow> unit io" where
  "ExecContext s = perform (SQLExec s) (exec_effect s)"

definition QueryRowContext :: "query \<Rightarrow> bool io" where
  "QueryRowContext q = perform (SQLQueryRow q) (\<lambda>w. (Inr (query_answer q w), w))"

text \<open>\<^verbatim>\<open>sql.Open\<close> followed by \<^verbatim>\<open>Ping\<close>.\<close>

definition OpenAndPing :: "string \<Rightarrow> unit io" where
  "OpenAndPing connectionString = perform (SQLOpen connectionString) (\<lambda>w. (Inr (), w))"

definition NewPostgresClient :: "golib \<Rightarrow> string \<Rightarrow> Client io" where
  "NewPostgresClient L connectionString =
     (case ParseConnectionString L connectionString of
        Inl e \<Rightarrow> fail e
      | Inr connInfo \<Rightarrow>
          bindIO (wrapErr ''failed to ping database'' (OpenAndPing connectionString))
            (\<lambda>u. ret (PostgresClient connInfo)))"

definition NewMySQLClient :: "golib \<Rightarrow> string \<Rightarrow> Client io" where
  "NewMySQLClient L connectionString =
     (case ParseMySQLConnectionString L connectionString of
        Inl e \<Rightarrow> fail e
      | Inr connInfo \<Rightarrow>
          (case (if HasPrefix connectionString ''mysql://''
                 then convertMySQLURLToDSN L connectionString else Inr connectionString) of
             Inl e \<Rightarrow> fail e
           | Inr dsn \<Rightarrow>
               bindIO (wrapErr ''failed to ping database'' (OpenAndPing dsn))
                 (\<lambda>u. ret (MySQLClient connInfo))))"

definition NewClient :: "golib \<Rightarrow> string \<Rightarrow> string \<Rightarrow> Client io" where
  "NewClient L engine connectionString =
     (let normalizedEngine = ToLower engine in
      if normalizedEngine = ''postgres'' \<or> normalizedEngine = ''postgresql''
      then NewPostgresClient L connectionString
      else if normalizedEngine = ''mysql'' \<or> normalizedEngine = ''mariadb''
      then NewMySQLClient L connectionString
      else fail (Errorf (''unsupported database engine: '' @ engine)))"

definition PostgresClient_DatabaseExists :: "string \<Rightarrow> bool io" where
  "PostgresClient_DatabaseExists dbName =
     wrapErr ''failed to check if database exists'' (QueryRowContext (PgDatabaseExists dbName))"

definition PostgresClient_CreateDatabase :: "string \<Rightarrow> string \<Rightarrow> unit io" where
  "PostgresClient_CreateDatabase dbName owner =
     bindIO (PostgresClient_DatabaseExists dbName) (\<lambda>exists.
       if exists then ret ()
       else
         bindIO (wrapErr ''failed to create database'' (ExecContext (PgCreateDatabase dbName owner)))
           (\<lambda>u. wrapErr ''failed to add comment to database''
                  (ExecContext (PgCommentOnDatabase dbName))))"

definition PostgresClient_UserExists :: "string \<Rightarrow> bool io" where
  "PostgresClient_UserExists username =
     wrapErr ''failed to check if user exists'' (QueryRowContext (PgRoleExists username))"

definition PostgresClient_CreateUser :: "string \<Rightarrow> string \<Rightarrow> unit io" where
  "PostgresClient_CreateUser username password =
     bindIO (PostgresClient_UserExists username) (\<lambda>exists.
       bindIO
         (if exists
          then wrapErr ''failed to update user password''
                 (ExecContext (PgAlterUserPassword username password))
          else wrapErr ''failed to create user'' (ExecContext (PgCreateUser username password)))
         (\<lambda>u. wrapErr ''failed to add comment to role'' (ExecContext (PgCommentOnRole username))))"

definition PostgresClient_GrantPrivileges ::
  "golib \<Rightarrow> ConnInfo \<Rightarrow> string \<Rightarrow> string \<Rightarrow> string list \<Rightarrow> unit io" where
  "PostgresClient_GrantPrivileges L connInfo username dbName privileges =
     (let targetConnStr =
            ''postgres://'' @ url_QueryEscape L (ConnUsername connInfo) @ '':''
              @ url_QueryEscape L (ConnPassword connInfo) @ ''@'' @ Host connInfo @ '':''
              @ Port connInfo @ ''/'' @ dbName @ ''?sslmode='' @ SSLMode connInfo
      in
      bindIO (wrapErr ''failed to ping target database''
                (perform (SQLOpen targetConnStr)
                   (\<lambda>w. if databases w dbName = None
                         then (Inl (SQLErr ''pq: database does not exist''), w)
                         else (Inr (), w)))) (\<lambda>u1.
      bindIO (wrapErr ''failed to grant database privileges''
                (ExecContext (PgGrantOnDatabase privileges dbName username))) (\<lambda>u2.
      bindIO (wrapErr ''failed to grant schema privileges''
                (ExecContext (PgGrantSchema username))) (\<lambda>u3.
      bindIO (wrapErr ''failed to grant table privileges''
                (ExecContext (PgGrantTables username))) (\<lambda>u4.
      wrapErr ''failed to grant default privileges''
        (ExecContext (PgAlterDefaultPrivileges username)))))))"

definition PostgresClient_GrantAllPrivileges ::
  "golib \<Rightarrow> ConnInfo \<Rightarrow> string \<Rightarrow> string \<Rightarrow> unit io" where
  "PostgresClient_GrantAllPrivileges L connInfo databaseName username =
     PostgresClient_GrantPrivileges L connInfo username databaseName [''ALL'']"

definition MySQLClient_CreateUser :: "string \<Rightarrow> string \<Rightarrow> unit io" where
  "MySQLClient_CreateUser username password =
     wrapErr ''failed to create user'' (ExecContext (MyCreateUser username password))"

definition MySQLClient_UserExists :: "string \<Rightarrow> bool io" where
  "MySQLClient_UserExists username =
     wrapErr ''failed to check if user exists'' (QueryRowContext (MyUserCount username))"

definition MySQLClient_CreateDatabase :: "string \<Rightarrow> string \<Rightarrow> unit io" where
  "MySQLClient_CreateDatabase databaseName owner =
     wrapErr ''failed to create database'' (ExecContext (MyCreateDatabase databaseName))"

definition MySQLClient_DatabaseExists :: "string \<Rightarrow> bool io" where
  "MySQLClient_DatabaseExists databaseName =
     wrapErr ''failed to check if database exists'' (QueryRowContext (MySchemaCount databaseName))"

definition MySQLClient_GrantAllPrivileges :: "string \<Rightarrow> string \<Rightarrow> unit io" where
  "MySQLClient_GrantAllPrivileges databaseName username =
     bindIO (wrapErr ''failed to grant privileges'' (ExecContext (MyGrantAll databaseName username)))
       (\<lambda>u. wrapErr ''failed to flush privileges'' (ExecContext MyFlushPrivileges))"

definition PostgresClient_DropDatabase :: "string \<Rightarrow> unit io" where
  "PostgresClient_DropDatabase dbName =
     bindIO (wrapErr ''failed to terminate connections'' (ExecContext (PgTerminateBackends dbName)))
       (\<lambda>u. wrapErr ''failed to drop database'' (ExecContext (PgDropDatabase dbName)))"

definition PostgresClient_DropUser :: "string \<Rightarrow> unit io" where
  "PostgresClient_DropUser username =
     bindIO (catchIO (ExecContext (PgRevokeAll username)) (\<lambda>e. ret ()))
       (\<lambda>u. wrapErr ''failed to drop user'' (ExecContext (PgDropUser username)))"

definition PostgresClient_SetPassword :: "string \<Rightarrow> string \<Rightarrow> unit io" where
  "PostgresClient_SetPassword username password =
     wrapErr ''failed to set password'' (ExecContext (PgSetPassword username password))"

definition MySQLClient_DropUser :: "string \<Rightarrow> unit io" where
  "MySQLClient_DropUser username =
     wrapErr ''failed to drop user'' (ExecContext (MyDropUser username))"

definition MySQLClient_DropDatabase :: "string \<Rightarrow> unit io" where
  "MySQLClient_DropDatabase databaseName =
     wrapErr ''failed to drop database'' (ExecContext (MyDropDatabase databaseName))"

definition MySQLClient_SetPassword :: "string \<Rightarrow> string \<Rightarrow> unit io" where
  "MySQLClient_SetPassword username password =
     bindIO (wrapErr ''failed to set password'' (ExecContext (MyAlterUser username password)))
       (\<lambda>u. wrapErr ''failed to flush privileges'' (ExecContext MyFlushPrivileges))"

text \<open>The methods of the \<^verbatim>\<open>Client\<close> interface, dispatched on the variant.\<close>

definition DropUser :: "Client \<Rightarrow> string \<Rightarrow> unit io" where
  "DropUser c username =
     (case c of PostgresClient ci \<Rightarrow> PostgresClient_DropUser username
              | MySQLClient ci \<Rightarrow> MySQLClient_DropUser username)"

definition DropDatabase :: "Client \<Rightarrow> string \<Rightarrow> unit io" where
  "DropDatabase c databaseName =
     (case c of PostgresClient ci \<Rightarrow> PostgresClient_DropDatabase databaseName
              | MySQLClient ci \<Rightarrow> MySQLClient_DropDatabase databaseName)"

definition SetPassword :: "Client \<Rightarrow> string \<Rightarrow> string \<Rightarrow> unit io" where
  "SetPassword c username password =
     (case c of PostgresClient ci \<Rightarrow> PostgresClient_SetPassword username password
              | MySQLClient ci \<Rightarrow> MySQLClient_SetPassword username password)"


definition UserExists :: "Client \<Rightarrow> string \<Rightarrow> bool io" where
  "UserExists c username =
     (case c of PostgresClient ci \<Rightarrow> PostgresClient_UserExists username
              | MySQLClient ci \<Rightarrow> MySQLClient_UserExists username)"

definition DatabaseExists :: "Client \<Rightarrow> string \<Rightarrow> bool io" where
  "DatabaseExists c databaseName =
     (case c of PostgresClient ci \<Rightarrow> PostgresClient_DatabaseExists databaseName
              | MySQLClient ci \<Rightarrow> MySQLClient_DatabaseExists databaseName)"

definition CreateUser :: "Client \<Rightarrow> string \<Rightarrow> string \<Rightarrow> unit io" where
  "CreateUser c username password =
     (case c of PostgresClient ci \<Rightarrow> PostgresClient_CreateUser username password
              | MySQLClient ci \<Rightarrow> MySQLClient_CreateUser username password)"

definition CreateDatabase :: "Client \<Rightarrow> string \<Rightarrow> string \<Rightarrow> unit io" where
  "CreateDatabase c databaseName owner =
     (case c of PostgresClient ci \<Rightarrow> PostgresClient_CreateDatabase databaseName owner
              | MySQLClient ci \<Rightarrow> MySQLClient_CreateDatabase databaseName owner)"

definition GrantAllPrivileges :: "golib \<Rightarrow> Client \<Rightarrow> string \<Rightarrow> string \<Rightarrow> unit io" where
  "GrantAllPrivileges L c databaseName username =
     (case c of PostgresClient ci \<Rightarrow> PostgresClient_GrantAllPrivileges L ci databaseName username
              | MySQLClient ci \<Rightarrow> MySQLClient_GrantAllPrivileges databaseName username)"

text \<open>
  \<open>GeneratePassword\<close> on the world's random source; the bytes it reads are used up.
\<close>

definition generatePassword :: "int \<Rightarrow> string io" where
  "generatePassword length0 w =
     (let n = nat (if length0 < 16 then 32 else length0);
          r = GeneratePassword (entropy w) length0
      in (r, w\<lparr>entropy := map_option (\<lambda>f i. f (i + n)) (entropy w),
               trace := trace w @ [(RandRead n, isOK r)]\<rparr>))"

section \<open>The controller (internal/controller/database_controller.go)\<close>

definition getDB :: "Database io" where
  "getDB w = (Inr (db w), w)"

definition validateConnectionSource :: "Database \<Rightarrow> err option" where
  "validateConnectionSource d =
     (if ConnectionStringSecretRef (Spec d) \<noteq> None \<and> ConnectionStringAWSSecretRef (Spec d) \<noteq> None
      then Some (Errorf ''both ConnectionStringSecretRef and ConnectionStringAWSSecretRef are specified, only one is allowed'')
      else if ConnectionStringSecretRef (Spec d) = None \<and> ConnectionStringAWSSecretRef (Spec d) = None
      then Some (Errorf ''neither ConnectionStringSecretRef nor ConnectionStringAWSSecretRef is specified'')
      else None)"

definition getSecretKeyOrDefault :: "SecretKeyReference option \<Rightarrow> string" where
  "getSecretKeyOrDefault ref =
     (case ref of None \<Rightarrow> ''connectionString''
      | Some r \<Rightarrow> if RefKey r = [] then ''connectionString'' else RefKey r)"

definition getUsernameOrDefault :: "Database \<Rightarrow> string" where
  "getUsernameOrDefault d =
     (if Username (Spec d) \<noteq> [] then Username (Spec d) else DatabaseName (Spec d))"

definition currentSecretFormatVersion :: string where
  "currentSecretFormatVersion = ''v2''"

definition needsReconciliation :: "Database \<Rightarrow> bool" where
  "needsReconciliation d =
     (if \<not> UserCreated (Status d) \<or> \<not> DatabaseCreated (Status d) \<or> \<not> SecretCreated (Status d)
      then True
      else if ObservedGeneration (Status d) \<noteq> Generation d then True
      else if SecretFormatVersion (Status d) \<noteq> currentSecretFormatVersion then True
      else False)"

definition getSecretNameOrDefault :: "Database \<Rightarrow> string" where
  "getSecretNameOrDefault d =
     (if SecretName (Spec d) \<noteq> [] then SecretName (Spec d)
      else ''rds/'' @ Engine (Spec d) @ ''/'' @ DatabaseName (Spec d))"

definition tagsEqual :: "tags \<Rightarrow> tags \<Rightarrow> bool" where
  "tagsEqual a b =
     (if length a \<noteq> length b then False
      else list_all (\<lambda>kv. (case map_of b (fst kv) of None \<Rightarrow> [] | Some v \<Rightarrow> v) = snd kv) a)"

definition getTagsToRemove :: "tags \<Rightarrow> tags \<Rightarrow> string list" where
  "getTagsToRemove current desired =
     map fst (filter (\<lambda>kv. map_of desired (fst kv) = None) current)"

definition getTagsToAdd :: "tags \<Rightarrow> tags \<Rightarrow> tags" where
  "getTagsToAdd current desired =
     filter (\<lambda>kv. map_of current (fst kv) = None \<or> map_of current (fst kv) \<noteq> Some (snd kv)) desired"

definition getRegion :: "Database \<Rightarrow> string" where
  "getRegion d =
     (if AWSSecretsManager (Spec d) \<noteq> None \<and> Region (the (AWSSecretsManager (Spec d))) \<noteq> []
      then Region (the (AWSSecretsManager (Spec d)))
      else if ConnectionStringAWSSecretRef (Spec d) \<noteq> None
              \<and> AWSRefRegion (the (ConnectionStringAWSSecretRef (Spec d))) \<noteq> []
      then AWSRefRegion (the (ConnectionStringAWSSecretRef (Spec d)))
      else [])"

definition isAWSPermissionError :: "err option \<Rightarrow> bool" where
  "isAWSPermissionError e =
     (case e of
        None \<Rightarrow> False
      | Some x \<Rightarrow>
          (let errMsg = ToLower (Error x) in
           Contains errMsg ''accessdeniedexception'' \<or> Contains errMsg ''accessdenied''
           \<or> Contains errMsg ''access denied'' \<or> Contains errMsg ''not authorized''
           \<or> Contains errMsg ''insufficient permissions'' \<or> Contains errMsg ''forbidden''
           \<or> Contains errMsg ''unauthorizedoperation''))"

definition isAWSResourceNotFoundError :: "err option \<Rightarrow> bool" where
  "isAWSResourceNotFoundError e =
     (case e of
        None \<Rightarrow> False
      | Some x \<Rightarrow>
          (let errMsg = ToLower (Error x) in
           Contains errMsg ''resourcenotfoundexception'' \<or> Contains errMsg ''resource not found''
           \<or> Contains errMsg (''can'' @ [CHR 0x27] @ ''t find the specified secret'')))"

definition getConnectionStringFromK8sSecret :: "Database \<Rightarrow> string io" where
  "getConnectionStringFromK8sSecret d =
     (case ConnectionStringSecretRef (Spec d) of
        None \<Rightarrow> fail (Errorf ''nil pointer dereference'')
      | Some ref \<Rightarrow>
          bindIO (perform (K8sGetSecret (Namespace d) (RefName ref))
                    (\<lambda>w. case k8s_secrets w (Namespace d, RefName ref) of
                            None \<Rightarrow> (Inl (K8sErr True (''secrets '' @ RefName ref @ '' not found'')), w)
                          | Some secretData \<Rightarrow> (Inr secretData, w))) (\<lambda>secretData.
            (let key = getSecretKeyOrDefault (Some ref);
                 connectionString = (case secretData key of None \<Rightarrow> [] | Some v \<Rightarrow> v)
             in if connectionString = []
                then fail (Errorf (''connection string is empty in secret '' @ RefName ref
                                   @ '' key '' @ key))
                else ret connectionString)))"

definition getConnectionStringFromAWSSecret :: "golib \<Rightarrow> Database \<Rightarrow> string io" where
  "getConnectionStringFromAWSSecret L d =
     (case ConnectionStringAWSSecretRef (Spec d) of
        None \<Rightarrow> fail (Errorf ''nil pointer dereference'')
      | Some awsRef \<Rightarrow>
          (case ValidateRegion (AWSRefRegion awsRef) of
             Some e \<Rightarrow> fail (Wrap ''invalid AWS region for admin connection string'' e)
           | None \<Rightarrow>
               bindIO (wrapErr ''failed to create AWS Secrets Manager client (ensure pod has AWS permissions)''
                         (NewAWSSecretsManagerClient (AWSRefRegion awsRef))) (\<lambda>awsClient.
               bindIO (wrapErr (''failed to get secret '' @ [CHR 0x27] @ AWSRefSecretName awsRef
                                @ [CHR 0x27]
                                @ '' from AWS Secrets Manager (check IAM permissions and secret exists)'')
                         (GetSecretString awsClient (AWSRefSecretName awsRef))) (\<lambda>secretValue.
                 (let key = (if AWSRefKey awsRef = [] then ''connectionString'' else AWSRefKey awsRef)
                  in if Contains secretValue ''{'' then
                       (case json_Unmarshal L secretValue of
                          None \<Rightarrow> fail (Wrap ''failed to parse AWS secret as JSON''
                                          (Errorf ''invalid character''))
                        | Some (JObject secretData) \<Rightarrow>
                            (case map_of (rev secretData) key of
                               None \<Rightarrow> fail (Errorf (''key '' @ key @ '' not found in AWS secret''))
                             | Some (JString connectionString) \<Rightarrow> ret connectionString
                             | Some other \<Rightarrow>
                                 fail (Errorf (''value for key '' @ key
                                               @ '' in AWS secret is not a string'')))
                        | Some JNull \<Rightarrow> fail (Errorf (''key '' @ key @ '' not found in AWS secret''))
                        | Some other \<Rightarrow> fail (Wrap ''failed to parse AWS secret as JSON''
                                                (Errorf ''cannot unmarshal'')))
                     else ret secretValue)))))"

definition getConnectionString :: "golib \<Rightarrow> Database \<Rightarrow> string io" where
  "getConnectionString L d =
     (case validateConnectionSource d of
        Some e \<Rightarrow> fail e
      | None \<Rightarrow>
          if ConnectionStringSecretRef (Spec d) \<noteq> None then getConnectionStringFromK8sSecret d
          else getConnectionStringFromAWSSecret L d)"

text \<open>
  The tags the controller wants on the secret, and the block that brings the secret's
  tags in line with them.  The block stands twice in the source, in the same words: in
  \<^verbatim>\<open>reconcileDatabase\<close> where all three resources exist, and in
  \<^verbatim>\<open>storeCredentialsInAWS\<close> after the secret is written.
\<close>

definition desiredTagsOf :: "Database \<Rightarrow> tags" where
  "desiredTagsOf d =
     (let desiredTags = [(''ManagedBy'', ''database-user-operator'')] in
      case AWSSecretsManager (Spec d) of
        None \<Rightarrow> desiredTags
      | Some cfg \<Rightarrow> putTags (Tags cfg) desiredTags)"

definition syncTags :: "string \<Rightarrow> string \<Rightarrow> tags \<Rightarrow> unit io" where
  "syncTags awsClient secretName desiredTags =
     bindIO (catchIO (GetSecretTags awsClient secretName) (\<lambda>e. ret [])) (\<lambda>existingTags.
       (let tagsToRemove = map fst (filter (\<lambda>kv. map_of desiredTags (fst kv) = None) existingTags)
        in
        bindIO (if length tagsToRemove > 0
                then wrapErr ''failed to remove secret tags''
                       (UntagSecret awsClient secretName tagsToRemove)
                else ret ()) (\<lambda>u.
          wrapErr ''failed to update secret tags'' (TagSecret awsClient secretName desiredTags))))"

definition secretValueOf ::
  "golib \<Rightarrow> Database \<Rightarrow> string \<Rightarrow> string \<Rightarrow> ConnInfo \<Rightarrow> int \<Rightarrow> DatabaseSecret" where
  "secretValueOf L d username password connInfo port =
     (let engine = Engine (Spec d);
          urlScheme = (if HasPrefix (ToLower engine) ''postgres'' then ''postgresql''
                       else if ToLower engine = ''mariadb'' then ''mysql''
                       else engine);
          databaseURL = urlScheme @ ''://'' @ url_QueryEscape L username @ '':''
                          @ url_QueryEscape L password @ ''@'' @ Host connInfo @ '':''
                          @ Itoa port @ ''/'' @ DatabaseName (Spec d)
      in \<lparr>DBHost = Host connInfo, DBPort = port, DBName = DatabaseName (Spec d),
          DBUsername = username, DBPassword = password, DatabaseURL = databaseURL,
          SecretEngine = engine\<rparr>)"

text \<open>
  \<^verbatim>\<open>storeCredentialsInAWS\<close>, lines 1354 to 1377: with a region change and no secret in the
  new region, the old region is looked at; the outcome is only logged.
\<close>

definition lookInOldRegion :: "string \<Rightarrow> string \<Rightarrow> unit io" where
  "lookInOldRegion oldRegion secretName =
     catchIO (bindIO (NewAWSSecretsManagerClient oldRegion) (\<lambda>oldRegionClient.
              bindIO (SecretExists oldRegionClient secretName) (\<lambda>oldExists. ret ())))
       (\<lambda>e. ret ())"

text \<open>
  Lines 1379 to 1459: the secret is updated where it exists and created otherwise, also
  when the update finds it gone or marked for deletion.  The result is \<^verbatim>\<open>secretARN\<close> and
  \<^verbatim>\<open>versionID\<close>; the error of \<^verbatim>\<open>GetSecretARN\<close> is dropped and leaves the ARN empty.
\<close>

definition writeSecret ::
  "golib \<Rightarrow> Database \<Rightarrow> string \<Rightarrow> string \<Rightarrow> DatabaseSecret \<Rightarrow> bool \<Rightarrow> (string \<times> string) io" where
  "writeSecret L d awsClient secretName secretValue exists =
     bindIO
       (if exists then
          catchIO
            (bindIO (UpdateSecretWithTemplate L awsClient secretName secretValue
                       (SecretTemplate (Spec d)))
               (\<lambda>versionID. ret (False, versionID)))
            (\<lambda>e. if as_SecretNotFoundError e then ret (True, [])
                 else if as_SecretMarkedForDeletionError e then ret (True, [])
                 else fail e)
        else ret (True, []))
       (\<lambda>(createSecret, versionID).
          bindIO (if exists \<and> \<not> createSecret
                  then catchIO (GetSecretARN awsClient secretName) (\<lambda>e. ret [])
                  else ret []) (\<lambda>secretARN.
            if createSecret then
              (let description0 = ''Database credentials for '' @ DatabaseName (Spec d);
                   description =
                     (case AWSSecretsManager (Spec d) of
                        None \<Rightarrow> description0
                      | Some cfg \<Rightarrow> if Description cfg \<noteq> [] then Description cfg else description0)
               in CreateSecretWithTemplate L awsClient secretName description secretValue
                    (desiredTagsOf d) (SecretTemplate (Spec d)))
            else ret (secretARN, versionID)))"

text \<open>Lines 1503 to 1535: the secret of the old region is purged; a failure is only logged.\<close>

definition deleteFromOldRegion :: "string \<Rightarrow> string \<Rightarrow> unit io" where
  "deleteFromOldRegion oldRegion secretName =
     catchIO (bindIO (NewAWSSecretsManagerClient oldRegion) (\<lambda>oldRegionClient.
              DeleteSecret oldRegionClient secretName True))
       (\<lambda>e. ret ())"

definition storeCredentialsInAWS ::
  "golib \<Rightarrow> string \<Rightarrow> string \<Rightarrow> ConnInfo \<Rightarrow> int \<Rightarrow> bool \<Rightarrow> unit io" where
  "storeCredentialsInAWS L username password connInfo port isMigration =
     bindIO getDB (\<lambda>d.
       (let secretValue = secretValueOf L d username password connInfo port;
            secretName = getSecretNameOrDefault d
        in
        bindIO (setStatus (\<lambda>s. s\<lparr>ActualSecretName := secretName\<rparr>)) (\<lambda>u0.
          (let region = getRegion d in
           case ValidateRegion region of
             Some e \<Rightarrow> fail (Wrap ''invalid AWS region'' e)
           | None \<Rightarrow>
               (let oldRegion = SecretRegion (Status d);
                    regionChanged = (oldRegion \<noteq> [] \<and> oldRegion \<noteq> region)
                in
                bindIO (wrapErr ''failed to create AWS Secrets Manager client for storing credentials (ensure pod has AWS permissions via IRSA, instance profile, or credentials)''
                          (NewAWSSecretsManagerClient region)) (\<lambda>awsClient.
                bindIO (SecretExists awsClient secretName) (\<lambda>exists.
                bindIO (if regionChanged \<and> \<not> exists \<and> oldRegion \<noteq> []
                        then lookInOldRegion oldRegion secretName else ret ()) (\<lambda>u1.
                bindIO (writeSecret L d awsClient secretName secretValue exists)
                  (\<lambda>(secretARN, versionID).
                bindIO (syncTags awsClient secretName (desiredTagsOf d)) (\<lambda>u2.
                bindIO (if regionChanged \<and> oldRegion \<noteq> [] \<and> secretARN \<noteq> []
                        then deleteFromOldRegion oldRegion secretName else ret ()) (\<lambda>u3.
                setStatus (\<lambda>s. s\<lparr>SecretCreated := True, SecretARN := secretARN,
                                  SecretVersion := versionID, SecretFormatVersion := ''v2'',
                                  SecretRegion := awsClient,
                                  ConnectionInfo :=
                                    \<lparr>StHost = Host connInfo, StPort = port,
                                     StDatabase = DatabaseName (Spec d), StUsername = username,
                                     StEngine = Engine (Spec d)\<rparr>\<rparr>))))))))))))"

text \<open>
  \<^verbatim>\<open>reconcileDatabase\<close>, lines 985 to 1012: the secret format is stale and all three
  resources are marked created; the password is read from the secret.
\<close>

definition fetchPasswordForMigration :: "golib \<Rightarrow> Database \<Rightarrow> string io" where
  "fetchPasswordForMigration L d =
     (let region = getRegion d in
      case ValidateRegion region of
        Some e \<Rightarrow> fail (Wrap ''invalid AWS region for password retrieval'' e)
      | None \<Rightarrow>
          bindIO (wrapErr ''failed to create AWS client for password retrieval''
                    (NewAWSSecretsManagerClient region)) (\<lambda>awsClient.
          bindIO (wrapErr ''failed to retrieve existing secret for migration''
                    (GetSecret L awsClient (ActualSecretName (Status d)))) (\<lambda>existingSecret.
            if DBPassword existingSecret = []
            then fail (Errorf ''could not extract password from existing secret for migration'')
            else ret (DBPassword existingSecret))))"

text \<open>
  Lines 1014 to 1049: what exists.  The result is \<^verbatim>\<open>userExists\<close>, \<^verbatim>\<open>dbExists\<close>,
  \<^verbatim>\<open>secretExists\<close> and the secret store client, which is its resolved region.
\<close>

definition observe :: "Client \<Rightarrow> Database \<Rightarrow> (bool \<times> bool \<times> bool \<times> string) io" where
  "observe dbClient d =
     bindIO (wrapErr ''failed to check if user exists''
               (UserExists dbClient (getUsernameOrDefault d))) (\<lambda>userExists.
     bindIO (wrapErr ''failed to check if database exists''
               (DatabaseExists dbClient (DatabaseName (Spec d)))) (\<lambda>dbExists.
       case ValidateRegion (getRegion d) of
         Some e \<Rightarrow> fail (Wrap ''invalid AWS region'' e)
       | None \<Rightarrow>
           bindIO (wrapErr ''failed to create AWS client''
                     (NewAWSSecretsManagerClient (getRegion d))) (\<lambda>awsClient.
           bindIO (wrapErr ''failed to check if secret exists''
                     (SecretExists awsClient (getSecretNameOrDefault d))) (\<lambda>secretExists.
             ret (userExists, dbExists, secretExists, awsClient)))))"

definition unrecoverablePassword :: "bool \<Rightarrow> bool \<Rightarrow> bool \<Rightarrow> err" where
  "unrecoverablePassword dbExists userExists secretExists =
     Errorf (''database and/or user exist but secret is missing - cannot recover password (database exists: ''
             @ fmt_bool dbExists @ '', user exists: '' @ fmt_bool userExists
             @ '', secret exists: '' @ fmt_bool secretExists
             @ ''). Please delete the Database CR and recreate it, or manually create the secret with the correct password'')"

text \<open>Lines 1057 to 1226: the decision on what exists.  The result is the password.\<close>

definition decide ::
  "golib \<Rightarrow> Client \<Rightarrow> Database \<Rightarrow> bool \<times> bool \<times> bool \<times> string \<Rightarrow> string io" where
  "decide L dbClient d obs =
     (case obs of (userExists, dbExists, secretExists, awsClient) \<Rightarrow>
      (let username = getUsernameOrDefault d;
           secretName = getSecretNameOrDefault d;
           region = awsClient
       in
       if dbExists \<and> userExists \<and> secretExists then
         bindIO (wrapErr ''failed to retrieve existing secret''
                   (GetSecret L awsClient secretName)) (\<lambda>existingSecret.
           if DBPassword existingSecret = []
           then fail (Errorf ''could not extract password from existing secret'')
           else
             bindIO (syncTags awsClient secretName (desiredTagsOf d)) (\<lambda>u1.
             bindIO (setStatus (\<lambda>s. s\<lparr>UserCreated := True, DatabaseCreated := True,
                                        SecretCreated := True, ActualUsername := username,
                                        ActualSecretName := secretName\<rparr>)) (\<lambda>u2.
             ret (DBPassword existingSecret))))
       else if (dbExists \<or> userExists) \<and> \<not> secretExists then
         (let oldRegion = SecretRegion (Status d);
              oldName = ActualSecretName (Status d);
              regionChanged = (oldRegion \<noteq> [] \<and> oldRegion \<noteq> region)
          in
          if regionChanged \<and> oldName \<noteq> [] then
            bindIO (wrapErr (''failed to create AWS client for old region ('' @ oldRegion @ '')'')
                      (NewAWSSecretsManagerClient oldRegion)) (\<lambda>oldRegionClient.
            bindIO (wrapErr ''failed to check if secret exists in old region''
                      (SecretExists oldRegionClient oldName)) (\<lambda>oldSecretExists.
              if oldSecretExists then
                bindIO (wrapErr (''failed to retrieve secret from old region ('' @ oldRegion @ '')'')
                          (GetSecret L oldRegionClient oldName)) (\<lambda>oldSecret.
                  if DBPassword oldSecret = []
                  then fail (Errorf ''could not extract password from secret in old region'')
                  else
                    bindIO (setStatus (\<lambda>s. s\<lparr>UserCreated := True, DatabaseCreated := True,
                                               ActualUsername := username,
                                               ActualSecretName := secretName\<rparr>)) (\<lambda>u1.
                    ret (DBPassword oldSecret)))
              else fail (Errorf (''region changed from '' @ oldRegion @ '' to '' @ region
                     @ '' but secret not found in old region - cannot recover password. Please delete the Database CR and recreate it, or manually create the secret with the correct password''))))
          else fail (unrecoverablePassword dbExists userExists secretExists))
       else
         bindIO (generatePassword 32) (\<lambda>password.
         bindIO (if \<not> userExists then CreateUser dbClient username password else ret ()) (\<lambda>u1.
         bindIO (setStatus (\<lambda>s. s\<lparr>UserCreated := True, ActualUsername := username\<rparr>)) (\<lambda>u2.
         bindIO (if \<not> dbExists then CreateDatabase dbClient (DatabaseName (Spec d)) username
                 else ret ()) (\<lambda>u3.
         bindIO (setStatus (\<lambda>s. s\<lparr>DatabaseCreated := True\<rparr>)) (\<lambda>u4.
         ret password)))))))"

definition migrating :: "Database \<Rightarrow> bool" where
  "migrating d =
     (SecretFormatVersion (Status d) \<noteq> currentSecretFormatVersion
      \<and> UserCreated (Status d) \<and> DatabaseCreated (Status d) \<and> SecretCreated (Status d))"

text \<open>
  Lines 1229 to 1256: the privileges are granted and the credentials stored, whichever
  way the password was found.
\<close>

definition finish :: "golib \<Rightarrow> Database \<Rightarrow> Client \<Rightarrow> string \<Rightarrow> unit io" where
  "finish L d dbClient password =
     (let connInfo = GetConnectionInfo dbClient;
          username = getUsernameOrDefault d;
          needsSecretUpdate = (SecretFormatVersion (Status d) \<noteq> currentSecretFormatVersion)
      in
      bindIO (setStatus (\<lambda>s. if ActualUsername s = [] then s\<lparr>ActualUsername := username\<rparr>
                               else s)) (\<lambda>u1.
      bindIO (GrantAllPrivileges L dbClient (DatabaseName (Spec d)) username) (\<lambda>u2.
        (let port = Atoi (Port connInfo) in
         storeCredentialsInAWS L username password connInfo port needsSecretUpdate))))"

text \<open>Lines 961 to 978: the admin connection string and the engine client.\<close>

definition connect :: "golib \<Rightarrow> Database \<Rightarrow> Client io" where
  "connect L d =
     bindIO (getConnectionString L d) (\<lambda>connectionString.
       NewClient L (Engine (Spec d)) connectionString)"

definition reconcileDatabase :: "golib \<Rightarrow> unit io" where
  "reconcileDatabase L =
     bindIO getDB (\<lambda>d.
       if \<not> needsReconciliation d then ret ()
       else
         bindIO (connect L d) (\<lambda>dbClient.
         bindIO (if migrating d then fetchPasswordForMigration L d
                 else bindIO (observe dbClient d) (decide L dbClient d)) (\<lambda>password.
           finish L d dbClient password)))"

text \<open>
  What a pass observes: the calls of \<^verbatim>\<open>reconcileDatabase\<close> up to the three existence
  checks, with their result.
\<close>

definition observation :: "golib \<Rightarrow> (Client \<times> bool \<times> bool \<times> bool \<times> string) io" where
  "observation L =
     bindIO getDB (\<lambda>d.
     bindIO (connect L d) (\<lambda>dbClient.
     bindIO (observe dbClient d) (\<lambda>obs. ret (dbClient, obs))))"

text \<open>
  \<^verbatim>\<open>normalizeErrorMessage\<close>: every match of \<^verbatim>\<open>RequestID: [a-f0-9-]+,?\s?\<close> is removed,
  then trailing commas and spaces.  \<open>match_len\<close> is the length of the match that starts at
  the head of the text, if there is one; \<open>removeMatches k\<close> skips the next \<open>k\<close> bytes.
\<close>

definition is_reqid_char :: "char \<Rightarrow> bool" where
  "is_reqid_char c = (c \<in> set ''abcdef0123456789-'')"

definition is_space :: "char \<Rightarrow> bool" where
  "is_space c = (c \<in> set [CHR 0x09, CHR 0x0A, CHR 0x0C, CHR 0x0D, CHR 0x20])"

definition match_len :: "string \<Rightarrow> nat option" where
  "match_len s =
     (if HasPrefix s ''RequestID: '' then
        (let r = drop 11 s; n1 = length (takeWhile is_reqid_char r) in
         if n1 = 0 then None
         else (let r1 = drop n1 r;
                   n2 = (if r1 \<noteq> [] \<and> hd r1 = CHR '','' then 1 else 0);
                   r2 = drop n2 r1;
                   n3 = (if r2 \<noteq> [] \<and> is_space (hd r2) then 1 else 0)
               in Some (11 + n1 + n2 + n3)))
      else None)"

fun removeMatches :: "nat \<Rightarrow> string \<Rightarrow> string" where
  "removeMatches k [] = []"
| "removeMatches (Suc k) (c # cs) = removeMatches k cs"
| "removeMatches 0 (c # cs) =
     (case match_len (c # cs) of
        Some n \<Rightarrow> removeMatches (n - 1) cs
      | None \<Rightarrow> c # removeMatches 0 cs)"

definition normalizeErrorMessage :: "string \<Rightarrow> string" where
  "normalizeErrorMessage errMsg = TrimRight (removeMatches 0 errMsg) '', ''"

text \<open>\<^verbatim>\<open>apierrors.IsNotFound\<close>, which looks through wrapped errors.\<close>

fun IsNotFound :: "err \<Rightarrow> bool" where
  "IsNotFound (K8sErr nf m) = nf"
| "IsNotFound (Wrap p e) = IsNotFound e"
| "IsNotFound (SecretNotFoundError n e) = IsNotFound e"
| "IsNotFound (SecretMarkedForDeletionError n e) = IsNotFound e"
| "IsNotFound (Errorf m) = False"
| "IsNotFound (AWSErr k m) = False"
| "IsNotFound (SQLErr m) = False"

definition DatabaseFinalizer :: string where
  "DatabaseFinalizer = ''database.opzkit.io/database-finalizer''"

text \<open>\<^verbatim>\<open>ctrl.Result\<close>; the delay is in seconds.\<close>

record Result =
  Requeue :: bool
  RequeueAfter :: nat

definition noResult :: Result where
  "noResult = \<lparr>Requeue = False, RequeueAfter = 0\<rparr>"

definition requeueAfterSuccess :: nat where
  "requeueAfterSuccess = 10 * 60"

definition Event :: "string \<Rightarrow> string \<Rightarrow> string \<Rightarrow> world \<Rightarrow> world" where
  "Event eventtype reason message w = w\<lparr>recorded := recorded w @ [(eventtype, reason, message)]\<rparr>"

text \<open>\<^verbatim>\<open>r.Update\<close> and \<^verbatim>\<open>r.Status().Update\<close> write the object back to the cluster.\<close>

definition Update :: "unit io" where
  "Update = perform K8sUpdate
     (\<lambda>w. case apiserver w of
             None \<Rightarrow> (Inl (K8sErr True ''not found''), w)
           | Some stored \<Rightarrow> (Inr (), w\<lparr>apiserver := Some ((db w)\<lparr>Status := Status stored\<rparr>)\<rparr>))"

definition StatusUpdate :: "unit io" where
  "StatusUpdate = perform K8sStatusUpdate
     (\<lambda>w. case apiserver w of
             None \<Rightarrow> (Inl (K8sErr True ''not found''), w)
           | Some stored \<Rightarrow> (Inr (), w\<lparr>apiserver := Some (stored\<lparr>Status := Status (db w)\<rparr>)\<rparr>))"

definition reconcileDelete :: "golib \<Rightarrow> world \<Rightarrow> (Result \<times> err option) \<times> world" where
  "reconcileDelete L w =
     (let d = db w in
      if DatabaseFinalizer \<notin> set (Finalizers d) then ((noResult, None), w)
      else
        (let retainOnDelete = (case RetainOnDelete (Spec d) of None \<Rightarrow> True | Some b \<Rightarrow> b);
             cleanup =
               (if \<not> retainOnDelete then
                  bindIO (catchIO
                            (bindIO (getConnectionString L d) (\<lambda>connectionString.
                               if connectionString \<noteq> [] then
                                 bindIO (NewClient L (Engine (Spec d)) connectionString) (\<lambda>dbClient.
                                 bindIO (if DatabaseCreated (Status d)
                                         then catchIO (DropDatabase dbClient (DatabaseName (Spec d)))
                                                (\<lambda>e. ret ())
                                         else ret ()) (\<lambda>u1.
                                   if UserCreated (Status d)
                                   then catchIO (DropUser dbClient (ActualUsername (Status d)))
                                          (\<lambda>e. ret ())
                                   else ret ()))
                               else ret ()))
                            (\<lambda>e. ret ())) (\<lambda>u2.
                    if SecretCreated (Status d) then
                      (case ValidateRegion (getRegion d) of
                         Some e \<Rightarrow> ret ()
                       | None \<Rightarrow>
                           catchIO (bindIO (NewAWSSecretsManagerClient (getRegion d)) (\<lambda>awsClient.
                                      DeleteSecret awsClient (ActualSecretName (Status d)) True))
                             (\<lambda>e. ret ()))
                    else ret ())
                else ret ())
         in
         case cleanup w of
           (r, w1) \<Rightarrow>
             (let w2 = w1\<lparr>db := (db w1)\<lparr>Finalizers := removeAll DatabaseFinalizer (Finalizers (db w1))\<rparr>\<rparr>
              in case Update w2 of
                   (Inl e, w3) \<Rightarrow> ((noResult, Some e), w3)
                 | (Inr u, w3) \<Rightarrow> ((noResult, None), w3))))"

definition Reconcile :: "golib \<Rightarrow> world \<Rightarrow> (Result \<times> err option) \<times> world" where
  "Reconcile L w0 =
     (case perform K8sGet
             (\<lambda>w. case apiserver w of
                     None \<Rightarrow> (Inl (K8sErr True ''not found''), w)
                   | Some stored \<Rightarrow> (Inr (), w\<lparr>db := stored\<rparr>)) w0 of
        (Inl e, w1) \<Rightarrow> if IsNotFound e then ((noResult, None), w1) else ((noResult, Some e), w1)
      | (Inr u, w1) \<Rightarrow>
          (let w2 = (if ObservedGeneration (Status (db w1)) = 0
                     then Event ''Normal'' ''Created'' ''Database created'' w1 else w1)
           in
           if Deleting (db w2) then reconcileDelete L w2
           else if DatabaseFinalizer \<notin> set (Finalizers (db w2)) then
             (case Update (w2\<lparr>db := (db w2)\<lparr>Finalizers := Finalizers (db w2) @ [DatabaseFinalizer]\<rparr>\<rparr>) of
                (Inl e, w3) \<Rightarrow> ((noResult, Some e), w3)
              | (Inr u, w3) \<Rightarrow> ((\<lparr>Requeue = True, RequeueAfter = 0\<rparr>, None), w3))
           else
             (case reconcileDatabase L w2 of
                (Inl e, w3) \<Rightarrow>
                  (let normalizedErrMsg = normalizeErrorMessage (Error e);
                       statusChanged = (Phase (Status (db w3)) \<noteq> ''Error''
                                        \<or> Message (Status (db w3)) \<noteq> normalizedErrMsg);
                       w4 = (if statusChanged
                             then w3\<lparr>db := (db w3)\<lparr>Status := (Status (db w3))
                                     \<lparr>Phase := ''Error'', Message := normalizedErrMsg,
                                      ObservedGeneration := Generation (db w3)\<rparr>\<rparr>\<rparr>
                             else w3);
                       w5 = (if statusChanged then snd (StatusUpdate w4) else w4);
                       w6 = (if statusChanged then
                               (if IsNotFound e
                                then Event ''Warning'' ''ConfigurationError'' (Error e) w5
                                else if isAWSPermissionError (Some e)
                                then Event ''Warning'' ''PermissionError''
                                       ''AWS permission denied. Ensure the operator has IAM permissions for Secrets Manager. Grant secretsmanager:* on the secret ARN, or configure IRSA/instance profile.'' w5
                                else if isAWSResourceNotFoundError (Some e)
                                then Event ''Warning'' ''ResourceNotFound''
                                       ''AWS resource not found. Verify the secret exists in AWS Secrets Manager and the name/region are correct in the Database spec.'' w5
                                else Event ''Warning'' ''ReconciliationError'' (Error e) w5)
                             else w5)
                   in
                   if isAWSPermissionError (Some e)
                   then ((\<lparr>Requeue = False, RequeueAfter = 5 * 60\<rparr>, None), w6)
                   else if isAWSResourceNotFoundError (Some e)
                   then ((\<lparr>Requeue = False, RequeueAfter = 5 * 60\<rparr>, None), w6)
                   else ((noResult, Some e), w6))
              | (Inr u, w3) \<Rightarrow>
                  (let w4 = w3\<lparr>db := (db w3)\<lparr>Status := (Status (db w3))
                                 \<lparr>Phase := ''Ready'',
                                  Message := ''Database, user, and secret are ready'',
                                  ObservedGeneration := Generation (db w3)\<rparr>\<rparr>\<rparr>
                   in case StatusUpdate w4 of
                        (Inl e, w5) \<Rightarrow> ((noResult, Some e), w5)
                      | (Inr u, w5) \<Rightarrow>
                          ((\<lparr>Requeue = False, RequeueAfter = requeueAfterSuccess\<rparr>, None), w5)))))"

text \<open>
  The world once \<^verbatim>\<open>Reconcile\<close> has fetched the object \<open>obj\<close> (lines 823 to 834).
\<close>

definition loaded :: "Database \<Rightarrow> world \<Rightarrow> world" where
  "loaded obj w =
     (let w1 = w\<lparr>db := obj, trace := trace w @ [(K8sGet, True)]\<rparr>
      in if ObservedGeneration (Status obj) = 0
         then Event ''Normal'' ''Created'' ''Database created'' w1 else w1)"

text \<open>
  What the substrate does with the value \<^verbatim>\<open>Reconcile\<close> returns, and the rate limiter
  \<^verbatim>\<open>SetupWithManager\<close> configures (base delay 15 seconds, at most 60): an error puts the
  object back on the queue through the rate limiter, whose delay grows with the number
  of failures in a row; a \<^verbatim>\<open>RequeueAfter\<close> puts it back after that fixed delay.
\<close>

datatype requeue = Forget | RateLimited | After nat

definition requeue_of :: "Result \<times> err option \<Rightarrow> requeue" where
  "requeue_of r =
     (case r of
        (res, Some e) \<Rightarrow> RateLimited
      | (res, None) \<Rightarrow>
          if RequeueAfter res > 0 then After (RequeueAfter res)
          else if Requeue res then RateLimited
          else Forget)"

definition rateLimiterDelay :: "nat \<Rightarrow> nat" where
  "rateLimiterDelay failures = min (15 * 2 ^ failures) 60"

section \<open>Reading the trace\<close>

text \<open>
  The calls by what they do: reads of the three backends, writes of the secret's
  value, other changes of a secret, the purge of a secret, statements executed on the
  database engine, random bytes, and writes of the Database object.
\<close>

datatype kind = KRead | KLocal | KExec | KRand | KStoreWrite | KStoreMeta | KStoreDelete | KCluster

fun kind_of :: "call \<Rightarrow> kind" where
  "kind_of K8sGet = KRead"
| "kind_of K8sUpdate = KCluster"
| "kind_of K8sStatusUpdate = KCluster"
| "kind_of (K8sGetSecret ns n) = KRead"
| "kind_of (SQLOpen cs) = KRead"
| "kind_of (SQLQueryRow q) = KRead"
| "kind_of (SQLExec s) = KExec"
| "kind_of (RandRead n) = KRand"
| "kind_of (LoadDefaultConfig r) = KLocal"
| "kind_of (SMDescribeSecret r n) = KRead"
| "kind_of (SMGetSecretValue r n) = KRead"
| "kind_of (SMCreateSecret r n d s t) = KStoreWrite"
| "kind_of (SMUpdateSecret r n s) = KStoreWrite"
| "kind_of (SMUpdateDescription r n d) = KStoreMeta"
| "kind_of (SMDeleteSecret r n f) = KStoreDelete"
| "kind_of (SMRestoreSecret r n) = KStoreMeta"
| "kind_of (SMTagResource r n t) = KStoreMeta"
| "kind_of (SMUntagResource r n ks) = KStoreMeta"

definition is_remote :: "event \<Rightarrow> bool" where
  "is_remote e = (kind_of (fst e) \<noteq> KLocal \<and> kind_of (fst e) \<noteq> KRand)"

text \<open>
  A successful write of the value of the secret \<open>name\<close> in \<open>region\<close>, and the order the
  claim on region changes asks for: no purge of a secret before such a write.
\<close>

fun written :: "string \<Rightarrow> string \<Rightarrow> event \<Rightarrow> bool" where
  "written region name (SMCreateSecret r n d s t, ok) = (ok \<and> r = region \<and> n = name)"
| "written region name (SMUpdateSecret r n s, ok) = (ok \<and> r = region \<and> n = name)"
| "written region name (c, ok) = False"

fun purge_after_write :: "string \<Rightarrow> string \<Rightarrow> bool \<Rightarrow> event list \<Rightarrow> bool" where
  "purge_after_write region name seen [] = True"
| "purge_after_write region name seen (e # es) =
     (if kind_of (fst e) = KStoreDelete then seen \<and> purge_after_write region name seen es
      else purge_after_write region name (seen \<or> written region name e) es)"

text \<open>
  \<open>emits S f\<close>: whatever the world, \<open>f\<close> only adds calls to the trace, and each call it
  adds is of a kind in \<open>S\<close>.  \<open>only_trace f\<close>: \<open>f\<close> changes nothing but the trace.
\<close>

definition emits :: "kind set \<Rightarrow> 'a io \<Rightarrow> bool" where
  "emits S f = (\<forall>w. \<exists>es. trace (snd (f w)) = trace w @ es \<and> list_all (\<lambda>e. kind_of (fst e) \<in> S) es)"

definition only_trace :: "'a io \<Rightarrow> bool" where
  "only_trace f = (\<forall>w. snd (f w) = w\<lparr>trace := trace (snd (f w))\<rparr>)"

text \<open>
  \<open>ordered region name seen f Q\<close>: whatever the world, the calls \<open>f\<close> adds to the trace
  keep the order of \<open>purge_after_write\<close>, and when \<open>f\<close> returns a result that satisfies
  \<open>Q\<close> the value of the secret has been written, by \<open>f\<close> or before.
  \<open>keeps_config f\<close>: \<open>f\<close> changes neither the spec of the object nor the region the SDK
  resolves.
\<close>

definition ordered :: "string \<Rightarrow> string \<Rightarrow> bool \<Rightarrow> 'a io \<Rightarrow> ('a \<Rightarrow> bool) \<Rightarrow> bool" where
  "ordered region name seen f Q =
     (\<forall>w. \<exists>es. trace (snd (f w)) = trace w @ es
             \<and> purge_after_write region name seen es
             \<and> (\<forall>x. fst (f w) = Inr x \<longrightarrow> Q x \<longrightarrow> seen \<or> list_ex (written region name) es))"

definition keeps_config :: "'a io \<Rightarrow> bool" where
  "keeps_config f =
     (\<forall>w. sdk_region (snd (f w)) = sdk_region w \<and> Spec (db (snd (f w))) = Spec (db w))"

section \<open>Example inputs\<close>

text \<open>
  A small library instance and worlds to run the definitions on: a PostgreSQL server
  with an admin connection string in a cluster secret, the AWS SDK resolving
  \<^verbatim>\<open>us-east-1\<close>, and a Database \<^verbatim>\<open>appdb\<close> whose spec names no region.  The JSON codec
  of the example reads and writes the one field the examples look at.
\<close>

definition example_lib :: golib where
  "example_lib = \<lparr>
     url_Parse = (\<lambda>s. if s = ''postgres://admin:pw@db.local/postgres''
                       then Some \<lparr>Hostname = ''db.local'', UPort = [], Path = ''/postgres'',
                                  User = Some (''admin'', ''pw''), QuerySSLMode = []\<rparr>
                       else None),
     url_QueryEscape = (\<lambda>s. s),
     json_Marshal = (\<lambda>j. case j of
                         JObject kvs \<Rightarrow> (case map_of kvs ''DB_PASSWORD'' of
                                          Some (JString p) \<Rightarrow> ''{DB_PASSWORD:'' @ p @ ''}''
                                        | _ \<Rightarrow> ''{}'')
                       | _ \<Rightarrow> ''null''),
     json_Unmarshal = (\<lambda>s. if HasPrefix s ''{DB_PASSWORD:'' \<and> s \<noteq> [] \<and> last s = CHR ''}''
                            then Some (JObject [(''DB_PASSWORD'', JString (butlast (drop 13 s)))])
                            else None),
     template_Execute = (\<lambda>t s. if t = ''{{'' then ParseFailed ''unclosed action''
                                else if t = ''{{.Nope}}'' then ExecFailed ''no such field''
                                else Rendered t)\<rparr>"

definition example_spec :: DatabaseSpec where
  "example_spec = \<lparr>Engine = ''postgres'', DatabaseName = ''appdb'',
     ConnectionStringSecretRef = Some \<lparr>RefName = ''pg-admin'', RefKey = []\<rparr>,
     ConnectionStringAWSSecretRef = None, Username = [], SecretName = [], Privileges = [],
     RetainOnDelete = None, AWSSecretsManager = None, SecretTemplate = []\<rparr>"

definition new_status :: DatabaseStatus where
  "new_status = \<lparr>Phase = [], ObservedGeneration = 0, Message = [],
     DatabaseCreated = False, UserCreated = False, SecretCreated = False,
     SecretARN = [], SecretVersion = [], SecretFormatVersion = [], ActualUsername = [],
     ActualSecretName = [], SecretRegion = [],
     ConnectionInfo = \<lparr>StHost = [], StPort = 0, StDatabase = [], StUsername = [],
                        StEngine = []\<rparr>\<rparr>"

definition ready_status :: DatabaseStatus where
  "ready_status = \<lparr>Phase = ''Ready'', ObservedGeneration = 1,
     Message = ''Database, user, and secret are ready'',
     DatabaseCreated = True, UserCreated = True, SecretCreated = True,
     SecretARN = ''arn:aws:secretsmanager:us-east-1:secret:rds/postgres/appdb'',
     SecretVersion = ''v-1'', SecretFormatVersion = ''v2'', ActualUsername = ''appdb'',
     ActualSecretName = ''rds/postgres/appdb'', SecretRegion = ''us-east-1'',
     ConnectionInfo = \<lparr>StHost = ''db.local'', StPort = 5432, StDatabase = ''appdb'',
                        StUsername = ''appdb'', StEngine = ''postgres''\<rparr>\<rparr>"

definition example_entry :: "tags \<Rightarrow> secret_entry" where
  "example_entry ts = \<lparr>SecretString = ''{DB_PASSWORD:s3cret}'',
     EntryDescription = ''Database credentials for appdb'', EntryTags = ts,
     ARN = ''arn:aws:secretsmanager:us-east-1:secret:rds/postgres/appdb'', VersionId = ''v-1'',
     DeletedDate = False\<rparr>"

definition example_object :: "int \<Rightarrow> DatabaseSpec \<Rightarrow> DatabaseStatus \<Rightarrow> Database" where
  "example_object g sp st = \<lparr>Namespace = ''default'', Generation = g, Deleting = False,
     Finalizers = [DatabaseFinalizer], Spec = sp, Status = st\<rparr>"

text \<open>
  \<open>example_world rs ds sm obj\<close>: the engine has the roles \<open>rs\<close> and the databases \<open>ds\<close>,
  the secret store holds \<open>sm\<close>, the Database object is \<open>obj\<close>, and no call fails for
  reasons of its own.
\<close>

definition example_world ::
  "(string \<rightharpoonup> string) \<Rightarrow> (string \<rightharpoonup> string) \<Rightarrow> (string \<Rightarrow> string \<rightharpoonup> secret_entry) \<Rightarrow> Database
     \<Rightarrow> world" where
  "example_world rs ds sm obj = \<lparr>roles = rs, databases = ds, secretsmanager = sm,
     k8s_secrets = [(''default'', ''pg-admin'')
                      \<mapsto> [''connectionString'' \<mapsto> ''postgres://admin:pw@db.local/postgres'']],
     sdk_region = ''us-east-1'', entropy = Some (\<lambda>n. 7), faults = (\<lambda>n. None),
     version_ids = (\<lambda>n. ''v-2''), trace = [], apiserver = Some obj, recorded = [], db = obj\<rparr>"

definition no_secrets :: "string \<Rightarrow> string \<rightharpoonup> secret_entry" where
  "no_secrets = (\<lambda>r. Map.empty)"

text \<open>
  User, database and secret exist and the status is that of a finished pass; the
  generation says whether the spec was edited since.
\<close>

definition settled_world :: "int \<Rightarrow> world" where
  "settled_world g =
     example_world [''admin'' \<mapsto> ''pw'', ''appdb'' \<mapsto> ''s3cret'']
       [''postgres'' \<mapsto> ''admin'', ''appdb'' \<mapsto> ''appdb'']
       (no_secrets(''us-east-1'' := [''rds/postgres/appdb''
           \<mapsto> example_entry [(''ManagedBy'', ''database-user-operator'')]]))
       (example_object g example_spec ready_status)"

text \<open>User and database exist, the secret does not, and no pass has run yet.\<close>

definition orphaned_world :: world where
  "orphaned_world =
     example_world [''admin'' \<mapsto> ''pw'', ''appdb'' \<mapsto> ''s3cret'']
       [''postgres'' \<mapsto> ''admin'', ''appdb'' \<mapsto> ''appdb'']
       no_secrets (example_object 1 example_spec new_status)"

text \<open>Nothing exists yet.\<close>

definition fresh_world :: world where
  "fresh_world =
     example_world [''admin'' \<mapsto> ''pw''] [''postgres'' \<mapsto> ''admin'']
       no_secrets (example_object 1 example_spec new_status)"

text \<open>The engine client of the examples, and the calls with which their passes begin.\<close>

definition example_client :: Client where
  "example_client = PostgresClient \<lparr>Host = ''db.local'', Port = ''5432'', Database = ''postgres'',
             ConnUsername = ''admin'', ConnPassword = ''pw'', SSLMode = ''require''\<rparr>"

definition observing :: "event list" where
  "observing =
        [(K8sGetSecret ''default'' ''pg-admin'', True),
         (SQLOpen ''postgres://admin:pw@db.local/postgres'', True),
         (SQLQueryRow (PgRoleExists ''appdb''), True),
         (SQLQueryRow (PgDatabaseExists ''appdb''), True),
         (LoadDefaultConfig [], True)]"

text \<open>
  All three resources exist, the spec asks for the tags \<^verbatim>\<open>a=1\<close> and \<^verbatim>\<open>b=2\<close>, and the
  secret carries \<^verbatim>\<open>a=1\<close> and \<^verbatim>\<open>c=3\<close>.
\<close>

definition tagged_spec :: DatabaseSpec where
  "tagged_spec = example_spec\<lparr>AWSSecretsManager :=
     Some \<lparr>Region = ''us-east-1'', Description = [], Tags = [(''a'', ''1''), (''b'', ''2'')]\<rparr>\<rparr>"

definition tagged_world :: world where
  "tagged_world =
     example_world [''admin'' \<mapsto> ''pw'', ''appdb'' \<mapsto> ''s3cret'']
       [''postgres'' \<mapsto> ''admin'', ''appdb'' \<mapsto> ''appdb'']
       (no_secrets(''us-east-1'' := [''rds/postgres/appdb''
           \<mapsto> example_entry [(''a'', ''1''), (''c'', ''3'')]]))
       (example_object 2 tagged_spec ready_status)"

text \<open>
  The calls of a pass in \<open>settled_world\<close>, up to the second update of the tags in
  \<^verbatim>\<open>storeCredentialsInAWS\<close>.
\<close>

definition settled_trace :: "event list" where
  "settled_trace = observing @
     [(SMDescribeSecret ''us-east-1'' ''rds/postgres/appdb'', True),
      (SMGetSecretValue ''us-east-1'' ''rds/postgres/appdb'', True),
      (SMDescribeSecret ''us-east-1'' ''rds/postgres/appdb'', True),
      (SMTagResource ''us-east-1'' ''rds/postgres/appdb''
         [(''ManagedBy'', ''database-user-operator'')], True),
      (SQLOpen ''postgres://admin:pw@db.local:5432/appdb?sslmode=require'', True),
      (SQLExec (PgGrantOnDatabase [''ALL''] ''appdb'' ''appdb''), True),
      (SQLExec (PgGrantSchema ''appdb''), True),
      (SQLExec (PgGrantTables ''appdb''), True),
      (SQLExec (PgAlterDefaultPrivileges ''appdb''), True),
      (LoadDefaultConfig [], True),
      (SMDescribeSecret ''us-east-1'' ''rds/postgres/appdb'', True),
      (SMUpdateSecret ''us-east-1'' ''rds/postgres/appdb'' ''{DB_PASSWORD:s3cret}'', True),
      (SMDescribeSecret ''us-east-1'' ''rds/postgres/appdb'', True),
      (SMDescribeSecret ''us-east-1'' ''rds/postgres/appdb'', True),
      (SMTagResource ''us-east-1'' ''rds/postgres/appdb''
         [(''ManagedBy'', ''database-user-operator'')], True)]"

text \<open>
  The spec names another region than the one the status holds, and the secret is in the
  region of the status; in \<open>unwritten_world\<close> the call that creates the secret in the new
  region fails.
\<close>

definition moved_spec :: DatabaseSpec where
  "moved_spec = example_spec\<lparr>AWSSecretsManager :=
     Some \<lparr>Region = ''eu-west-1'', Description = [], Tags = []\<rparr>\<rparr>"

definition moved_world :: world where
  "moved_world =
     example_world [''admin'' \<mapsto> ''pw'', ''appdb'' \<mapsto> ''s3cret'']
       [''postgres'' \<mapsto> ''admin'', ''appdb'' \<mapsto> ''appdb'']
       (no_secrets(''us-east-1'' := [''rds/postgres/appdb''
           \<mapsto> example_entry [(''ManagedBy'', ''database-user-operator'')]]))
       (example_object 2 moved_spec ready_status)"

definition unwritten_world :: world where
  "unwritten_world =
     moved_world\<lparr>faults := (\<lambda>i. if i = 18 then Some (AWSErr OtherAWSException ''InternalServiceError'')
                                 else None)\<rparr>"

definition moving :: "event list" where
  "moving =
     [(K8sGetSecret ''default'' ''pg-admin'', True),
      (SQLOpen ''postgres://admin:pw@db.local/postgres'', True),
      (SQLQueryRow (PgRoleExists ''appdb''), True),
      (SQLQueryRow (PgDatabaseExists ''appdb''), True),
      (LoadDefaultConfig ''eu-west-1'', True),
      (SMDescribeSecret ''eu-west-1'' ''rds/postgres/appdb'', False),
      (LoadDefaultConfig ''us-east-1'', True),
      (SMDescribeSecret ''us-east-1'' ''rds/postgres/appdb'', True),
      (SMGetSecretValue ''us-east-1'' ''rds/postgres/appdb'', True),
      (SQLOpen ''postgres://admin:pw@db.local:5432/appdb?sslmode=require'', True),
      (SQLExec (PgGrantOnDatabase [''ALL''] ''appdb'' ''appdb''), True),
      (SQLExec (PgGrantSchema ''appdb''), True),
      (SQLExec (PgGrantTables ''appdb''), True),
      (SQLExec (PgAlterDefaultPrivileges ''appdb''), True),
      (LoadDefaultConfig ''eu-west-1'', True),
      (SMDescribeSecret ''eu-west-1'' ''rds/postgres/appdb'', False),
      (LoadDefaultConfig ''us-east-1'', True),
      (SMDescribeSecret ''us-east-1'' ''rds/postgres/appdb'', True)]"

section \<open>Verification: password generation\<close>

lemma length_EncodeToString: "length (EncodeToString bs) = 4 * ((length bs + 2) div 3)"
proof (induction bs rule: EncodeToString.induct)
  case (4 a b c rest)
  have "(length (a # b # c # rest) + 2) div 3 = Suc ((length rest + 2) div 3)" by simp
  with 4 show ?case by simp
qed simp_all

lemma EncodeToString_covers: "length bs \<le> length (EncodeToString bs)"
  unfolding length_EncodeToString by presburger

text \<open>
  Claim C10.  When the random source succeeds, \<open>GeneratePassword\<close> returns a password
  of exactly the requested length if the request is at least 16, and one of 32
  characters for every smaller (also negative) request; the result is never shorter than
  16 characters.
\<close>

theorem GeneratePassword_exact_length:
  "\<exists>p. GeneratePassword (Some f) n = Inr p
        \<and> length p = (if 16 \<le> n then nat n else 32) \<and> 16 \<le> length p"
  using EncodeToString_covers [of "map f [0..<(if n < 16 then 32 else nat n)]"]
  by (auto simp: GeneratePassword_def rand_Read_def Let_def)

theorem GeneratePassword_exact_length_witness:
  "\<exists>p. GeneratePassword (Some (\<lambda>n. 7)) 16 = Inr p \<and> length p = 16 \<and> 16 \<le> length p"
  using GeneratePassword_exact_length [of "\<lambda>n. 7" 16] by simp

section \<open>Verification: quoting\<close>

lemma scan_body_plain:
  "follows q rest \<Longrightarrow> scan_body q False (ReplaceAll s q [q, q] @ q # rest) = Some (s, rest)"
proof (induction s)
  case Nil
  then show ?case by (cases rest) (auto simp: ReplaceAll_def follows_def)
next
  case (Cons c s)
  show ?case
  proof (cases "c = q")
    case True
    then show ?thesis using Cons by (simp add: ReplaceAll_def)
  next
    case False
    obtain d tl where "ReplaceAll s q [q, q] @ q # rest = d # tl"
      by (cases "ReplaceAll s q [q, q] @ q # rest") auto
    then show ?thesis using False Cons by (simp add: ReplaceAll_def)
  qed
qed

lemma scan_body_mysql:
  "follows (CHR 0x27) rest \<Longrightarrow>
   scan_body (CHR 0x27) True
     (ReplaceAll (ReplaceAll s (CHR 0x5C) [CHR 0x5C, CHR 0x5C]) (CHR 0x27) [CHR 0x27, CHR 0x27]
        @ CHR 0x27 # rest) = Some (s, rest)"
proof (induction s)
  case Nil
  then show ?case by (cases rest) (auto simp: ReplaceAll_def follows_def)
next
  case (Cons c s)
  let ?t = "ReplaceAll (ReplaceAll s (CHR 0x5C) [CHR 0x5C, CHR 0x5C]) (CHR 0x27)
              [CHR 0x27, CHR 0x27] @ CHR 0x27 # rest"
  obtain d tl where dt: "?t = d # tl" by (cases ?t) auto
  consider "c = CHR 0x27" | "c = CHR 0x5C" | "c \<noteq> CHR 0x27" "c \<noteq> CHR 0x5C" by blast
  then show ?case
  proof cases
    case 1
    then show ?thesis using Cons by (simp add: ReplaceAll_def)
  next
    case 2
    then show ?thesis using Cons by (simp add: ReplaceAll_def mysql_unescape_def)
  next
    case 3
    then show ?thesis using Cons dt by (simp add: ReplaceAll_def)
  qed
qed

text \<open>
  Claim C8.  For every input, also one with statement terminators, quotes, backslashes
  and comment sequences, the output of each of the four quoting functions is read back
  by the engine's lexer as one token whose value is exactly the input, and nothing of the
  output is left over after the token.
\<close>

theorem quoting_roundtrip:
  "scan_token (CHR 0x22) False (quoteIdentifier s) = Some (s, [])
   \<and> scan_token (CHR 0x27) False (quoteLiteral s) = Some (s, [])
   \<and> scan_token (CHR 0x60) False (quoteMySQLIdentifier s) = Some (s, [])
   \<and> scan_token (CHR 0x27) True (quoteMySQLLiteral s) = Some (s, [])"
  using scan_body_plain [of "CHR 0x22" "[]" s] scan_body_plain [of "CHR 0x27" "[]" s]
    scan_body_plain [of "CHR 0x60" "[]" s] scan_body_mysql [of "[]" s]
  by (simp add: scan_token_def quoteIdentifier_def quoteLiteral_def quoteMySQLIdentifier_def
      quoteMySQLLiteral_def follows_def)

theorem quoting_roundtrip_witness:
  "scan_token (CHR 0x27) True
     (quoteMySQLLiteral [CHR 0x5C, CHR 0x27, CHR '';'', CHR '' '', CHR ''-'', CHR ''-''])
   = Some ([CHR 0x5C, CHR 0x27, CHR '';'', CHR '' '', CHR ''-'', CHR ''-''], [])"
  using quoting_roundtrip [of "[CHR 0x5C, CHR 0x27, CHR '';'', CHR '' '', CHR ''-'', CHR ''-'']"]
  by simp

section \<open>Verification: calls and their kinds\<close>

named_theorems emits_intros

lemma emits_ret [emits_intros]: "emits S (ret x)"
  by (simp add: emits_def ret_def)

lemma emits_fail [emits_intros]: "emits S (fail e)"
  by (simp add: emits_def fail_def)

lemma emits_getDB [emits_intros]: "emits S getDB"
  by (simp add: emits_def getDB_def)

lemma emits_setStatus [emits_intros]: "emits S (setStatus u)"
  by (simp add: emits_def setStatus_def modify_def)

lemma emits_bindIO [emits_intros]:
  assumes "emits S f" and "\<And>x. emits S (g x)"
  shows "emits S (bindIO f g)"
proof (unfold emits_def, intro allI)
  fix w
  obtain es where f: "trace (snd (f w)) = trace w @ es" "list_all (\<lambda>e. kind_of (fst e) \<in> S) es"
    using assms(1) unfolding emits_def by blast
  show "\<exists>es. trace (snd (bindIO f g w)) = trace w @ es \<and> list_all (\<lambda>e. kind_of (fst e) \<in> S) es"
  proof (cases "f w")
    case (Pair r w1)
    show ?thesis
    proof (cases r)
      case (Inl e)
      then show ?thesis using Pair f by (auto simp: bindIO_def)
    next
      case (Inr x)
      obtain es' where g: "trace (snd (g x w1)) = trace w1 @ es'"
        "list_all (\<lambda>e. kind_of (fst e) \<in> S) es'"
        using assms(2) unfolding emits_def by blast
      then show ?thesis using Pair Inr f by (auto simp: bindIO_def)
    qed
  qed
qed

lemma emits_catchIO [emits_intros]:
  assumes "emits S f" and "\<And>e. emits S (h e)"
  shows "emits S (catchIO f h)"
proof (unfold emits_def, intro allI)
  fix w
  obtain es where f: "trace (snd (f w)) = trace w @ es" "list_all (\<lambda>e. kind_of (fst e) \<in> S) es"
    using assms(1) unfolding emits_def by blast
  show "\<exists>es. trace (snd (catchIO f h w)) = trace w @ es \<and> list_all (\<lambda>e. kind_of (fst e) \<in> S) es"
  proof (cases "f w")
    case (Pair r w1)
    show ?thesis
    proof (cases r)
      case (Inr x)
      then show ?thesis using Pair f by (auto simp: catchIO_def)
    next
      case (Inl e)
      obtain es' where g: "trace (snd (h e w1)) = trace w1 @ es'"
        "list_all (\<lambda>e. kind_of (fst e) \<in> S) es'"
        using assms(2) unfolding emits_def by blast
      then show ?thesis using Pair Inl f by (auto simp: catchIO_def)
    qed
  qed
qed

lemma emits_wrapErr [emits_intros]: "emits S f \<Longrightarrow> emits S (wrapErr p f)"
proof -
  have "snd (wrapErr p f w) = snd (f w)" for w
    by (cases "f w") (auto simp: wrapErr_def split: sum.splits)
  then show "emits S f \<Longrightarrow> emits S (wrapErr p f)"
    by (simp add: emits_def)
qed

lemma emits_perform [emits_intros]: "kind_of c \<in> S \<Longrightarrow> emits S (perform c body)"
  by (auto simp: emits_def perform_def split: option.splits prod.splits)

lemma emits_generatePassword [emits_intros]: "KRand \<in> S \<Longrightarrow> emits S (generatePassword n)"
  by (simp add: emits_def generatePassword_def Let_def)

lemma emits_client [emits_intros]:
  "KLocal \<in> S \<Longrightarrow> emits S (NewAWSSecretsManagerClient region)"
  "KRead \<in> S \<Longrightarrow> emits S (SecretExists c n)"
  "KRead \<in> S \<Longrightarrow> emits S (GetSecret L c n)"
  "KRead \<in> S \<Longrightarrow> emits S (GetSecretString c n)"
  "KRead \<in> S \<Longrightarrow> emits S (GetSecretTags c n)"
  "KRead \<in> S \<Longrightarrow> emits S (GetSecretARN c n)"
  "KStoreMeta \<in> S \<Longrightarrow> emits S (TagSecret c n ts)"
  "KStoreMeta \<in> S \<Longrightarrow> emits S (UntagSecret c n ks)"
  "KStoreMeta \<in> S \<Longrightarrow> emits S (RestoreSecret c n)"
  "KStoreMeta \<in> S \<Longrightarrow> emits S (UpdateSecretMetadata c n dsc)"
  "KStoreWrite \<in> S \<Longrightarrow> emits S (UpdateSecretWithTemplate L c n sv tmpl)"
  "KStoreDelete \<in> S \<Longrightarrow> emits S (DeleteSecret c n force)"
  unfolding NewAWSSecretsManagerClient_def SecretExists_def GetSecret_def GetSecretString_def
    GetSecretTags_def GetSecretARN_def TagSecret_def UntagSecret_def RestoreSecret_def
    UpdateSecretMetadata_def UpdateSecretWithTemplate_def DeleteSecret_def
    sm_DescribeSecret_def sm_GetSecretValue_def sm_TagResource_def sm_UntagResource_def
    sm_RestoreSecret_def sm_UpdateDescription_def sm_UpdateSecret_def sm_DeleteSecret_def
  by (auto intro!: emits_intros split: sum.split)

lemma emits_CreateSecretWithTemplate [emits_intros]:
  "{KStoreWrite, KStoreMeta, KRead} \<subseteq> S \<Longrightarrow> emits S (CreateSecretWithTemplate L c n dsc sv ts tmpl)"
  unfolding CreateSecretWithTemplate_def sm_CreateSecret_def
  by (auto intro!: emits_intros split: sum.split)

lemma emits_engine [emits_intros]:
  "KRead \<in> S \<Longrightarrow> emits S (NewClient L engine cs)"
  "KRead \<in> S \<Longrightarrow> emits S (UserExists c u)"
  "KRead \<in> S \<Longrightarrow> emits S (DatabaseExists c dn)"
  "{KRead, KExec} \<subseteq> S \<Longrightarrow> emits S (CreateUser c u p)"
  "{KRead, KExec} \<subseteq> S \<Longrightarrow> emits S (CreateDatabase c dn u)"
  "{KRead, KExec} \<subseteq> S \<Longrightarrow> emits S (GrantAllPrivileges L c dn u)"
  "KExec \<in> S \<Longrightarrow> emits S (DropUser c u)"
  "KExec \<in> S \<Longrightarrow> emits S (DropDatabase c dn)"
  unfolding NewClient_def NewPostgresClient_def NewMySQLClient_def OpenAndPing_def
    UserExists_def DatabaseExists_def CreateUser_def CreateDatabase_def GrantAllPrivileges_def
    DropUser_def DropDatabase_def
    PostgresClient_UserExists_def MySQLClient_UserExists_def PostgresClient_DatabaseExists_def
    MySQLClient_DatabaseExists_def PostgresClient_CreateUser_def MySQLClient_CreateUser_def
    PostgresClient_CreateDatabase_def MySQLClient_CreateDatabase_def
    PostgresClient_GrantAllPrivileges_def PostgresClient_GrantPrivileges_def
    MySQLClient_GrantAllPrivileges_def PostgresClient_DropUser_def MySQLClient_DropUser_def
    PostgresClient_DropDatabase_def MySQLClient_DropDatabase_def
    ExecContext_def QueryRowContext_def
  by (auto intro!: emits_intros simp: Let_def split: sum.split Client.split)

lemma emits_getConnectionString [emits_intros]:
  "{KRead, KLocal} \<subseteq> S \<Longrightarrow> emits S (getConnectionString L d)"
  unfolding getConnectionString_def getConnectionStringFromK8sSecret_def
    getConnectionStringFromAWSSecret_def
  by (auto intro!: emits_intros simp: Let_def split: option.split json.split)

lemma emits_connect [emits_intros]: "{KRead, KLocal} \<subseteq> S \<Longrightarrow> emits S (connect L d)"
  unfolding connect_def by (auto intro!: emits_intros)

lemma emits_observe [emits_intros]: "{KRead, KLocal} \<subseteq> S \<Longrightarrow> emits S (observe c d)"
  unfolding observe_def by (auto intro!: emits_intros split: option.split)

lemma emits_observation [emits_intros]: "{KRead, KLocal} \<subseteq> S \<Longrightarrow> emits S (observation L)"
  unfolding observation_def by (auto intro!: emits_intros)

lemma emits_syncTags [emits_intros]:
  "{KRead, KStoreMeta} \<subseteq> S \<Longrightarrow> emits S (syncTags c n ts)"
  unfolding syncTags_def by (auto intro!: emits_intros simp: Let_def)

lemma emits_lookInOldRegion [emits_intros]:
  "{KRead, KLocal} \<subseteq> S \<Longrightarrow> emits S (lookInOldRegion r n)"
  unfolding lookInOldRegion_def by (auto intro!: emits_intros)

lemma emits_deleteFromOldRegion [emits_intros]:
  "{KLocal, KStoreDelete} \<subseteq> S \<Longrightarrow> emits S (deleteFromOldRegion r n)"
  unfolding deleteFromOldRegion_def by (auto intro!: emits_intros)

lemma emits_writeSecret [emits_intros]:
  "{KRead, KStoreWrite, KStoreMeta} \<subseteq> S \<Longrightarrow> emits S (writeSecret L d c n sv ex)"
  unfolding writeSecret_def by (auto intro!: emits_intros simp: Let_def split: option.split)

lemma emits_storeCredentialsInAWS [emits_intros]:
  "{KRead, KLocal, KStoreWrite, KStoreMeta, KStoreDelete} \<subseteq> S
   \<Longrightarrow> emits S (storeCredentialsInAWS L u p ci port mig)"
  unfolding storeCredentialsInAWS_def
  by (auto intro!: emits_intros simp: Let_def split: option.split)

lemma emits_fetchPasswordForMigration [emits_intros]:
  "{KRead, KLocal} \<subseteq> S \<Longrightarrow> emits S (fetchPasswordForMigration L d)"
  unfolding fetchPasswordForMigration_def
  by (auto intro!: emits_intros simp: Let_def split: option.split)

lemma emits_decide [emits_intros]:
  "{KRead, KLocal, KStoreMeta, KRand, KExec} \<subseteq> S \<Longrightarrow> emits S (decide L c d obs)"
  unfolding decide_def
  by (auto intro!: emits_intros simp: Let_def split: option.split prod.split)

lemma emits_finish [emits_intros]:
  "{KRead, KLocal, KExec, KStoreWrite, KStoreMeta, KStoreDelete} \<subseteq> S
   \<Longrightarrow> emits S (finish L d c p)"
  unfolding finish_def by (auto intro!: emits_intros simp: Let_def)

lemma emits_reconcileDatabase:
  "emits {KRead, KLocal, KExec, KRand, KStoreWrite, KStoreMeta, KStoreDelete} (reconcileDatabase L)"
  unfolding reconcileDatabase_def by (auto intro!: emits_intros)



section \<open>Verification: a pass that succeeds\<close>

lemma bindIO_Inr:
  "bindIO f g w = (Inr y, w') \<Longrightarrow> \<exists>x w1. f w = (Inr x, w1) \<and> g x w1 = (Inr y, w')"
  by (auto simp: bindIO_def split: prod.splits sum.splits)

lemma bindIO_getDB: "bindIO getDB g w = g (db w) w"
  by (simp add: bindIO_def getDB_def)

lemma wrapErr_Inr: "wrapErr p f w = (Inr x, w') \<longleftrightarrow> f w = (Inr x, w')"
  by (auto simp: wrapErr_def split: prod.splits sum.splits)

lemma perform_Inr:
  "perform c body w = (Inr x, w')
   \<Longrightarrow> faults w (length (trace w)) = None
       \<and> (\<exists>w''. body w = (Inr x, w'') \<and> w' = w''\<lparr>trace := trace w @ [(c, True)]\<rparr>)"
  by (auto simp: perform_def isOK_def split: option.splits prod.splits sum.splits)

lemma emitsD: "emits S f \<Longrightarrow> \<exists>es. trace (snd (f w)) = trace w @ es \<and> list_all (\<lambda>e. kind_of (fst e) \<in> S) es"
  by (simp add: emits_def)

lemma getConnectionString_remote:
  assumes "getConnectionString L d w = (Inr cs, w1)"
  shows "\<exists>es. trace w1 = trace w @ es \<and> filter is_remote es \<noteq> []"
proof (cases "ConnectionStringSecretRef (Spec d)")
  case (Some ref)
  with assms obtain sd w2 where
    p: "perform (K8sGetSecret (Namespace d) (RefName ref))
          (\<lambda>w. case k8s_secrets w (Namespace d, RefName ref) of
                  None \<Rightarrow> (Inl (K8sErr True (''secrets '' @ RefName ref @ '' not found'')), w)
                | Some secretData \<Rightarrow> (Inr secretData, w)) w = (Inr sd, w2)"
    and r: "trace w1 = trace w2"
    by (auto simp: getConnectionString_def getConnectionStringFromK8sSecret_def Let_def ret_def fail_def
        split: option.splits if_splits dest!: bindIO_Inr)
  from perform_Inr [OF p] have "trace w2 = trace w @ [(K8sGetSecret (Namespace d) (RefName ref), True)]"
    by (auto split: option.splits)
  with r show ?thesis by (simp add: is_remote_def)
next
  case None
  with assms obtain awsRef where a: "ConnectionStringAWSSecretRef (Spec d) = Some awsRef"
    by (auto simp: getConnectionString_def validateConnectionSource_def fail_def split: option.splits if_splits)
  with assms None obtain c w2 sv w3 where
    n: "NewAWSSecretsManagerClient (AWSRefRegion awsRef) w = (Inr c, w2)"
    and g: "sm_GetSecretValue c (AWSRefSecretName awsRef) w2 = (Inr sv, w3)"
    and r: "trace w1 = trace w3"
    by (auto simp: getConnectionString_def validateConnectionSource_def getConnectionStringFromAWSSecret_def
        GetSecretString_def Let_def ret_def fail_def wrapErr_Inr
        split: option.splits if_splits json.splits dest!: bindIO_Inr)
  from n have "trace w2 = trace w @ [(LoadDefaultConfig (AWSRefRegion awsRef), True)]"
    by (auto simp: NewAWSSecretsManagerClient_def wrapErr_Inr dest!: perform_Inr)
  moreover from g have "trace w3 = trace w2 @ [(SMGetSecretValue c (AWSRefSecretName awsRef), True)]"
    by (auto simp: sm_GetSecretValue_def dest!: perform_Inr split: option.splits if_splits)
  ultimately show ?thesis using r by (simp add: is_remote_def)
qed

lemma reconcileDatabase_remote:
  assumes "needsReconciliation (db w)" and "reconcileDatabase L w = (Inr (), w')"
  shows "filter is_remote (trace w') \<noteq> filter is_remote (trace w)"
proof -
  let ?d = "db w"
  let ?rest = "\<lambda>dbClient. bindIO (if migrating ?d then fetchPasswordForMigration L ?d
                 else bindIO (observe dbClient ?d) (decide L dbClient ?d)) (\<lambda>password.
           finish L ?d dbClient password)"
  have 1: "bindIO (connect L ?d) ?rest w = (Inr (), w')"
    using assms by (simp add: reconcileDatabase_def bindIO_getDB)
  from bindIO_Inr [OF 1] obtain c w2 where
    c: "connect L ?d w = (Inr c, w2)" and f: "?rest c w2 = (Inr (), w')" by blast
  from bindIO_Inr [OF c [unfolded connect_def]] obtain cs w1 where
    g: "getConnectionString L ?d w = (Inr cs, w1)"
    and n: "NewClient L (Engine (Spec ?d)) cs w1 = (Inr c, w2)" by blast
  obtain es where es: "trace w1 = trace w @ es" "filter is_remote es \<noteq> []"
    using getConnectionString_remote [OF g] by blast
  have "emits UNIV (NewClient L (Engine (Spec ?d)) cs)" by (intro emits_intros) simp
  from emitsD [OF this, of w1] n obtain es1 where es1: "trace w2 = trace w1 @ es1" by auto
  have "emits UNIV (?rest c)" by (auto intro!: emits_intros)
  from emitsD [OF this, of w2] f obtain es2 where es2: "trace w' = trace w2 @ es2" by auto
  have "length (filter is_remote (trace w')) > length (filter is_remote (trace w))"
    using es es1 es2 by (cases "filter is_remote es") auto
  then show ?thesis by auto
qed

text \<open>
  Claim C7.  A pass is a no-op, that is it succeeds without any remote call, exactly
  when the status marks all three resources created, the observed generation is the
  current one and the secret format version is the current one; in that case the pass
  changes nothing at all.
\<close>

theorem noop_iff_nothing_to_do:
  "((fst (reconcileDatabase L w) = Inr ()
      \<and> filter is_remote (trace (snd (reconcileDatabase L w))) = filter is_remote (trace w))
     \<longleftrightarrow> (UserCreated (Status (db w)) \<and> DatabaseCreated (Status (db w))
          \<and> SecretCreated (Status (db w))
          \<and> ObservedGeneration (Status (db w)) = Generation (db w)
          \<and> SecretFormatVersion (Status (db w)) = ''v2''))
   \<and> (needsReconciliation (db w)
        \<longleftrightarrow> \<not> (UserCreated (Status (db w)) \<and> DatabaseCreated (Status (db w))
               \<and> SecretCreated (Status (db w))
               \<and> ObservedGeneration (Status (db w)) = Generation (db w)
               \<and> SecretFormatVersion (Status (db w)) = ''v2''))
   \<and> (\<not> needsReconciliation (db w) \<longrightarrow> reconcileDatabase L w = (Inr (), w))"
proof -
  have n: "needsReconciliation (db w)
        \<longleftrightarrow> \<not> (UserCreated (Status (db w)) \<and> DatabaseCreated (Status (db w))
               \<and> SecretCreated (Status (db w))
               \<and> ObservedGeneration (Status (db w)) = Generation (db w)
               \<and> SecretFormatVersion (Status (db w)) = ''v2'')"
    by (auto simp: needsReconciliation_def currentSecretFormatVersion_def)
  have s: "reconcileDatabase L w = (Inr (), w)" if "\<not> needsReconciliation (db w)"
    using that by (simp add: reconcileDatabase_def bindIO_def getDB_def ret_def)
  have r: "\<not> (fst (reconcileDatabase L w) = Inr ()
      \<and> filter is_remote (trace (snd (reconcileDatabase L w))) = filter is_remote (trace w))"
    if "needsReconciliation (db w)"
    using reconcileDatabase_remote [OF that, of L "snd (reconcileDatabase L w)"]
    by (cases "reconcileDatabase L w") auto
  show ?thesis using n s r by (cases "needsReconciliation (db w)") auto
qed

theorem noop_iff_nothing_to_do_witness:
  "\<not> needsReconciliation (db (settled_world 1))
   \<and> reconcileDatabase example_lib (settled_world 1) = (Inr (), settled_world 1)"
  using noop_iff_nothing_to_do [of example_lib "settled_world 1"]
  by (simp add: settled_world_def example_world_def example_object_def ready_status_def)

section \<open>Verification: output templates\<close>

text \<open>
  Claim C6.  When the output template does not parse, or its execution fails (as it
  does on a field the secret does not have), or the text it renders is not JSON, the
  serialization returns an error, and creating, updating and writing the secret return
  an error without any call: the world, and with it the secret store, is as before.
\<close>

theorem malformed_template_rejected:
  assumes "tmpl \<noteq> []"
    and "case template_Execute L tmpl sv of
           ParseFailed m \<Rightarrow> True | ExecFailed m \<Rightarrow> True
         | Rendered buf \<Rightarrow> json_Unmarshal L buf = None"
  shows "(\<exists>e. ToJSONWithTemplate L sv tmpl = Inl e)
       \<and> (\<exists>e. CreateSecretWithTemplate L c n dsc sv ts tmpl w = (Inl e, w))
       \<and> (\<exists>e. UpdateSecretWithTemplate L c n sv tmpl w = (Inl e, w))
       \<and> (SecretTemplate (Spec d) = tmpl \<longrightarrow> (\<exists>e. writeSecret L d c n sv ex w = (Inl e, w)))"
proof -
  obtain e where e: "ToJSONWithTemplate L sv tmpl = Inl (Wrap e (Errorf (case template_Execute L tmpl sv of ParseFailed m \<Rightarrow> m | ExecFailed m \<Rightarrow> m | Rendered buf \<Rightarrow> ''invalid character'')))"
    using assms by (auto simp: ToJSONWithTemplate_def split: tmpl_result.splits)
  have c: "CreateSecretWithTemplate L c n dsc' sv ts' tmpl w = (Inl (Wrap ''failed to marshal secret value'' (Wrap e (Errorf (case template_Execute L tmpl sv of ParseFailed m \<Rightarrow> m | ExecFailed m \<Rightarrow> m | Rendered buf \<Rightarrow> ''invalid character'')))), w)"
    for dsc' ts' using e by (simp add: CreateSecretWithTemplate_def fail_def)
  have u: "UpdateSecretWithTemplate L c n sv tmpl w = (Inl (Wrap ''failed to marshal secret value'' (Wrap e (Errorf (case template_Execute L tmpl sv of ParseFailed m \<Rightarrow> m | ExecFailed m \<Rightarrow> m | Rendered buf \<Rightarrow> ''invalid character'')))), w)"
    using e by (simp add: UpdateSecretWithTemplate_def fail_def)
  have "\<exists>e. writeSecret L d c n sv ex w = (Inl e, w)" if "SecretTemplate (Spec d) = tmpl"
    using that c u by (simp add: writeSecret_def bindIO_def catchIO_def ret_def fail_def Let_def)
  then show ?thesis using e c u by blast
qed

theorem malformed_template_rejected_witness:
  "(\<exists>e. ToJSONWithTemplate example_lib zeroSecret ''{{.Nope}}'' = Inl e)
   \<and> (\<exists>e. CreateSecretWithTemplate example_lib ''us-east-1'' ''rds/postgres/appdb'' ''d'' zeroSecret []
            ''{{.Nope}}'' fresh_world = (Inl e, fresh_world))
   \<and> (\<exists>e. UpdateSecretWithTemplate example_lib ''us-east-1'' ''rds/postgres/appdb'' zeroSecret
            ''{{.Nope}}'' (settled_world 2) = (Inl e, settled_world 2))"
proof -
  have "case template_Execute example_lib ''{{.Nope}}'' zeroSecret of
           ParseFailed m \<Rightarrow> True | ExecFailed m \<Rightarrow> True
         | Rendered buf \<Rightarrow> json_Unmarshal example_lib buf = None"
    by (simp add: example_lib_def)
  then show ?thesis
    using malformed_template_rejected [of "''{{.Nope}}''" example_lib zeroSecret]
    by simp
qed



section \<open>Verification: calls that change nothing\<close>

named_theorems only_trace_intros

lemma only_trace_ret [only_trace_intros]: "only_trace (ret x)"
  by (simp add: only_trace_def ret_def)

lemma only_trace_fail [only_trace_intros]: "only_trace (fail e)"
  by (simp add: only_trace_def fail_def)

lemma only_trace_getDB [only_trace_intros]: "only_trace getDB"
  by (simp add: only_trace_def getDB_def)

lemma trace_upd_eq: "w1 = w\<lparr>trace := t\<rparr> \<Longrightarrow> w1\<lparr>trace := T\<rparr> = w\<lparr>trace := T\<rparr>"
  by simp

lemma only_trace_bindIO [only_trace_intros]:
  assumes "only_trace f" and "\<And>x. only_trace (g x)"
  shows "only_trace (bindIO f g)"
proof (unfold only_trace_def, intro allI)
  fix w
  have f: "snd (f w) = w\<lparr>trace := trace (snd (f w))\<rparr>"
    using assms(1) by (simp add: only_trace_def)
  show "snd (bindIO f g w) = w\<lparr>trace := trace (snd (bindIO f g w))\<rparr>"
  proof (cases "f w")
    case (Pair r w1)
    show ?thesis
    proof (cases r)
      case (Inl e)
      then show ?thesis using Pair f by (simp add: bindIO_def)
    next
      case (Inr x)
      have a: "w1 = w\<lparr>trace := trace w1\<rparr>" using f Pair by simp
      have "snd (g x w1) = w1\<lparr>trace := trace (snd (g x w1))\<rparr>"
        using assms(2) by (simp add: only_trace_def)
      also have "\<dots> = w\<lparr>trace := trace (snd (g x w1))\<rparr>"
        by (rule trace_upd_eq [OF a])
      finally have "snd (g x w1) = w\<lparr>trace := trace (snd (g x w1))\<rparr>" .
      then show ?thesis using Pair Inr by (simp add: bindIO_def)
    qed
  qed
qed


lemma only_trace_snd: "(\<And>w. snd (f w) = snd (g w)) \<Longrightarrow> only_trace g \<Longrightarrow> only_trace f"
  by (simp add: only_trace_def)

lemma only_trace_wrapErr [only_trace_intros]: "only_trace f \<Longrightarrow> only_trace (wrapErr p f)"
proof -
  have "snd (wrapErr p f w) = snd (f w)" for w
    by (cases "f w") (auto simp: wrapErr_def split: sum.splits)
  then show "only_trace f \<Longrightarrow> only_trace (wrapErr p f)"
    by (simp add: only_trace_def)
qed

lemma only_trace_catchIO [only_trace_intros]:
  assumes "only_trace f" and "\<And>e. only_trace (h e)"
  shows "only_trace (catchIO f h)"
proof (unfold only_trace_def, intro allI)
  fix w
  have f: "snd (f w) = w\<lparr>trace := trace (snd (f w))\<rparr>"
    using assms(1) by (simp add: only_trace_def)
  show "snd (catchIO f h w) = w\<lparr>trace := trace (snd (catchIO f h w))\<rparr>"
  proof (cases "f w")
    case (Pair r w1)
    show ?thesis
    proof (cases r)
      case (Inr x)
      then show ?thesis using Pair f by (simp add: catchIO_def)
    next
      case (Inl e)
      have a: "w1 = w\<lparr>trace := trace w1\<rparr>" using f Pair by simp
      have "snd (h e w1) = w1\<lparr>trace := trace (snd (h e w1))\<rparr>"
        using assms(2) by (simp add: only_trace_def)
      also have "\<dots> = w\<lparr>trace := trace (snd (h e w1))\<rparr>"
        by (rule trace_upd_eq [OF a])
      finally have "snd (h e w1) = w\<lparr>trace := trace (snd (h e w1))\<rparr>" .
      then show ?thesis using Pair Inl by (simp add: catchIO_def)
    qed
  qed
qed

lemma only_trace_perform [only_trace_intros]:
  assumes "\<And>w. snd (body w) = w"
  shows "only_trace (perform c body)"
proof (unfold only_trace_def, intro allI)
  fix w
  show "snd (perform c body w) = w\<lparr>trace := trace (snd (perform c body w))\<rparr>"
  proof (cases "faults w (length (trace w))")
    case None
    obtain r w' where b: "body w = (r, w')" by (cases "body w")
    with assms [of w] have "w' = w" by simp
    with b None show ?thesis by (simp add: perform_def)
  next
    case (Some e)
    then show ?thesis by (simp add: perform_def)
  qed
qed

lemma only_trace_reads [only_trace_intros]:
  "only_trace (NewAWSSecretsManagerClient region)"
  "only_trace (SecretExists c n)"
  "only_trace (GetSecret L c n)"
  "only_trace (GetSecretString c n)"
  "only_trace (GetSecretTags c n)"
  "only_trace (GetSecretARN c n)"
  "only_trace (NewClient L engine cs)"
  "only_trace (UserExists dc u)"
  "only_trace (DatabaseExists dc dn)"
  unfolding NewAWSSecretsManagerClient_def SecretExists_def GetSecret_def GetSecretString_def
    GetSecretTags_def GetSecretARN_def sm_DescribeSecret_def sm_GetSecretValue_def
    NewClient_def NewPostgresClient_def NewMySQLClient_def OpenAndPing_def
    UserExists_def DatabaseExists_def
    PostgresClient_UserExists_def MySQLClient_UserExists_def PostgresClient_DatabaseExists_def
    MySQLClient_DatabaseExists_def QueryRowContext_def
  by (auto intro!: only_trace_intros simp: Let_def split: sum.split Client.split option.split)

lemma only_trace_getConnectionString [only_trace_intros]: "only_trace (getConnectionString L d)"
  unfolding getConnectionString_def getConnectionStringFromK8sSecret_def
    getConnectionStringFromAWSSecret_def
  by (auto intro!: only_trace_intros simp: Let_def split: option.split json.split)

lemma only_trace_observation: "only_trace (observation L)"
  unfolding observation_def connect_def observe_def
  by (auto intro!: only_trace_intros split: option.split)

lemma only_trace_GrantAllPrivileges [only_trace_intros]: "only_trace (GrantAllPrivileges L c dn u)"
  unfolding GrantAllPrivileges_def PostgresClient_GrantAllPrivileges_def
    PostgresClient_GrantPrivileges_def MySQLClient_GrantAllPrivileges_def ExecContext_def
  by (auto intro!: only_trace_intros simp: Let_def split: Client.split)

lemma only_trace_lookInOldRegion [only_trace_intros]: "only_trace (lookInOldRegion r n)"
  unfolding lookInOldRegion_def by (auto intro!: only_trace_intros)

lemma observation_reads:
  assumes "observation L w = (r, w1)"
  shows "\<exists>es. w1 = w\<lparr>trace := trace w @ es\<rparr> \<and> list_all (\<lambda>e. kind_of (fst e) \<in> {KRead, KLocal}) es"
proof -
  have "emits {KRead, KLocal} (observation L)" by (intro emits_intros) simp
  from emitsD [OF this, of w] assms obtain es where
    es: "trace w1 = trace w @ es" "list_all (\<lambda>e. kind_of (fst e) \<in> {KRead, KLocal}) es" by auto
  have "w1 = w\<lparr>trace := trace w1\<rparr>"
    using only_trace_observation [of L] assms by (auto simp: only_trace_def dest: spec [of _ w])
  with es show ?thesis by auto
qed

section \<open>Verification: the unrecoverable password\<close>

lemma bindIO_step: "f w = (Inr x, w1) \<Longrightarrow> bindIO f g w = g x w1"
  by (simp add: bindIO_def)

lemma reconcileDatabase_observed:
  assumes "needsReconciliation (db w)" and "\<not> migrating (db w)"
    and "observation L w = (Inr (c, obs), w1)"
  shows "reconcileDatabase L w = bindIO (decide L c (db w) obs) (finish L (db w) c) w1"
proof -
  from assms(3) obtain w0 where
    c: "connect L (db w) w = (Inr c, w0)" and o: "observe c (db w) w0 = (Inr obs, w1)"
    by (auto simp: observation_def bindIO_getDB ret_def dest!: bindIO_Inr)
  have "reconcileDatabase L w
          = bindIO (bindIO (observe c (db w)) (decide L c (db w))) (finish L (db w) c) w0"
    using assms(1,2) by (simp add: reconcileDatabase_def bindIO_getDB bindIO_step [of "connect L (db w)" w c w0, OF c])
  also have "\<dots> = bindIO (decide L c (db w) obs) (finish L (db w) c) w1"
    by (simp add: bindIO_def o)
  finally show ?thesis .
qed

text \<open>
  Claim C3.  A pass that observes the user and the database but no secret, with no
  region change to recover from, returns the unrecoverable-password error, whose message
  says which of the three exist.  Up to then the pass has only read: it made no call
  that executes a statement on the engine, generated no password and wrote no secret, and
  it leaves the world as it found it but for the record of its calls.
\<close>

theorem unrecoverable_password:
  assumes "needsReconciliation (db w)" and "\<not> migrating (db w)"
    and "observation L w = (Inr (c, True, True, False, region), w1)"
    and "\<not> (SecretRegion (Status (db w)) \<noteq> [] \<and> SecretRegion (Status (db w)) \<noteq> region
            \<and> ActualSecretName (Status (db w)) \<noteq> [])"
  shows "reconcileDatabase L w = (Inl (unrecoverablePassword True True False), w1)
       \<and> Error (unrecoverablePassword True True False) =
           ''database and/or user exist but secret is missing - cannot recover password (database exists: true, user exists: true, secret exists: false). Please delete the Database CR and recreate it, or manually create the secret with the correct password''
       \<and> (\<exists>es. w1 = w\<lparr>trace := trace w @ es\<rparr>
                \<and> list_all (\<lambda>e. kind_of (fst e) \<in> {KRead, KLocal}) es)"
proof -
  have "decide L c (db w) (True, True, False, region) w1
          = (Inl (unrecoverablePassword True True False), w1)"
    using assms(4) by (auto simp: decide_def Let_def fail_def)
  then have "reconcileDatabase L w = (Inl (unrecoverablePassword True True False), w1)"
    using reconcileDatabase_observed [OF assms(1-3)] by (simp add: bindIO_def)
  moreover have "Error (unrecoverablePassword True True False) =
           ''database and/or user exist but secret is missing - cannot recover password (database exists: true, user exists: true, secret exists: false). Please delete the Database CR and recreate it, or manually create the secret with the correct password''"
    by (simp add: unrecoverablePassword_def fmt_bool_def)
  ultimately show ?thesis using observation_reads [OF assms(3)] by blast
qed



section \<open>Verification: how the unrecoverable password is retried\<close>

lemma HasPrefix_iff: "HasPrefix s p \<longleftrightarrow> (\<exists>b. s = p @ b)"
proof
  assume "HasPrefix s p"
  then have "s = p @ drop (length p) s"
    unfolding HasPrefix_def by (metis append_take_drop_id)
  then show "\<exists>b. s = p @ b" ..
next
  assume "\<exists>b. s = p @ b"
  then show "HasPrefix s p" by (auto simp: HasPrefix_def)
qed

lemma Contains_iff: "Contains s p \<longleftrightarrow> (\<exists>a b. s = a @ p @ b)"
proof (induction s)
  case Nil
  then show ?case by auto
next
  case (Cons c cs)
  show ?case
  proof
    assume "Contains (c # cs) p"
    then consider "HasPrefix (c # cs) p" | "Contains cs p" by auto
    then show "\<exists>a b. c # cs = a @ p @ b"
    proof cases
      case 1
      then obtain b where "c # cs = p @ b" by (auto simp: HasPrefix_iff)
      then have "c # cs = [] @ p @ b" by simp
      then show ?thesis by blast
    next
      case 2
      then obtain a b where "cs = a @ p @ b" using Cons.IH by auto
      then have "c # cs = (c # a) @ p @ b" by simp
      then show ?thesis by blast
    qed
  next
    assume "\<exists>a b. c # cs = a @ p @ b"
    then obtain a b where ab: "c # cs = a @ p @ b" by blast
    show "Contains (c # cs) p"
    proof (cases a)
      case Nil
      with ab have "HasPrefix (c # cs) p" by (auto simp: HasPrefix_iff)
      then show ?thesis by simp
    next
      case (Cons x a')
      with ab have "cs = a' @ p @ b" by simp
      then have "Contains cs p" using Cons.IH by blast
      then show ?thesis by simp
    qed
  qed
qed

lemma Contains_trans: "Contains s p \<Longrightarrow> Contains p q \<Longrightarrow> Contains s q"
proof -
  assume "Contains s p" and "Contains p q"
  then obtain a b a' b' where "s = a @ p @ b" and "p = a' @ q @ b'"
    by (auto simp: Contains_iff)
  then have "s = (a @ a') @ q @ (b' @ b)" by simp
  then show "Contains s q" unfolding Contains_iff by blast
qed

lemma not_Contains: "Contains p q \<Longrightarrow> \<not> Contains s q \<Longrightarrow> \<not> Contains s p"
  using Contains_trans by blast

lemma ToLower_append: "ToLower (a @ b) = ToLower a @ ToLower b"
  by (simp add: ToLower_def)

lemma ToLower_fmt_bool: "ToLower (fmt_bool b) = fmt_bool b"
  by (cases b) (simp_all add: fmt_bool_def ToLower_def lower_char_def upper_letters_def lower_letters_def)

lemma unrecoverable_lower:
  "ToLower (Error (unrecoverablePassword de ue se)) =
     ''database and/or user exist but secret is missing - cannot recover password (database exists: ''
     @ fmt_bool de @ '', user exists: '' @ fmt_bool ue @ '', secret exists: '' @ fmt_bool se
     @ ''). please delete the database cr and recreate it, or manually create the secret with the correct password''"
proof -
  have 1: "ToLower ''database and/or user exist but secret is missing - cannot recover password (database exists: ''
         = ''database and/or user exist but secret is missing - cannot recover password (database exists: ''"
    and 2: "ToLower '', user exists: '' = '', user exists: ''"
    and 3: "ToLower '', secret exists: '' = '', secret exists: ''"
    and 4: "ToLower ''). Please delete the Database CR and recreate it, or manually create the secret with the correct password''
         = ''). please delete the database cr and recreate it, or manually create the secret with the correct password''"
    by (simp_all add: ToLower_def lower_char_def upper_letters_def lower_letters_def)
  show ?thesis
    unfolding unrecoverablePassword_def Error.simps ToLower_append ToLower_fmt_bool 1 2 3 4 ..
qed

lemma unrecoverable_absent:
  "\<not> Contains (ToLower (Error (unrecoverablePassword de ue se))) ''cc''"
  "\<not> Contains (ToLower (Error (unrecoverablePassword de ue se))) ''z''"
  "\<not> Contains (ToLower (Error (unrecoverablePassword de ue se))) ''ff''"
  "\<not> Contains (ToLower (Error (unrecoverablePassword de ue se))) ''dd''"
  "\<not> Contains (ToLower (Error (unrecoverablePassword de ue se))) ''ou''"
  "\<not> Contains (ToLower (Error (unrecoverablePassword de ue se))) [CHR 0x27]"
  unfolding unrecoverable_lower
  by (cases de; cases ue; cases se; simp add: fmt_bool_def HasPrefix_def)+

lemma unrecoverable_not_classified:
  "\<not> isAWSPermissionError (Some (unrecoverablePassword de ue se))
   \<and> \<not> isAWSResourceNotFoundError (Some (unrecoverablePassword de ue se))"
proof -
  let ?m = "ToLower (Error (unrecoverablePassword de ue se))"
  have "\<not> Contains ?m ''accessdeniedexception''" "\<not> Contains ?m ''accessdenied''"
    "\<not> Contains ?m ''access denied''"
    by (rule not_Contains [OF _ unrecoverable_absent(1)], simp add: HasPrefix_def)+
  moreover have "\<not> Contains ?m ''not authorized''" "\<not> Contains ?m ''unauthorizedoperation''"
    by (rule not_Contains [OF _ unrecoverable_absent(2)], simp add: HasPrefix_def)+
  moreover have "\<not> Contains ?m ''insufficient permissions''"
    by (rule not_Contains [OF _ unrecoverable_absent(3)], simp add: HasPrefix_def)
  moreover have "\<not> Contains ?m ''forbidden''"
    by (rule not_Contains [OF _ unrecoverable_absent(4)], simp add: HasPrefix_def)
  moreover have "\<not> Contains ?m ''resourcenotfoundexception''" "\<not> Contains ?m ''resource not found''"
    by (rule not_Contains [OF _ unrecoverable_absent(5)], simp add: HasPrefix_def)+
  moreover have "\<not> Contains ?m (''can'' @ [CHR 0x27] @ ''t find the specified secret'')"
    by (rule not_Contains [OF _ unrecoverable_absent(6)], simp add: HasPrefix_def)
  ultimately show ?thesis
    by (simp add: isAWSPermissionError_def isAWSResourceNotFoundError_def Let_def)
qed


lemma decide_unrecoverable:
  assumes "ue \<or> de"
    and "\<not> (SecretRegion (Status d) \<noteq> [] \<and> SecretRegion (Status d) \<noteq> region
            \<and> ActualSecretName (Status d) \<noteq> [])"
  shows "decide L c d (ue, de, False, region) w = (Inl (unrecoverablePassword de ue False), w)"
  using assms by (auto simp: decide_def Let_def fail_def)

lemma StatusUpdate_db: "db (snd (StatusUpdate w)) = db w"
  by (auto simp: StatusUpdate_def perform_def split: option.splits)

lemma Reconcile_unrecoverable:
  assumes "apiserver w = Some obj" and "faults w (length (trace w)) = None"
    and "\<not> Deleting obj" and "DatabaseFinalizer \<in> set (Finalizers obj)"
    and "needsReconciliation obj" and "\<not> migrating obj"
    and "observation L (loaded obj w) = (Inr (c, ue, de, False, region), w3)"
    and "ue \<or> de"
    and "\<not> (SecretRegion (Status obj) \<noteq> [] \<and> SecretRegion (Status obj) \<noteq> region
            \<and> ActualSecretName (Status obj) \<noteq> [])"
  shows "fst (Reconcile L w) = (noResult, Some (unrecoverablePassword de ue False))
       \<and> requeue_of (fst (Reconcile L w)) = RateLimited
       \<and> Phase (Status (db (snd (Reconcile L w)))) = ''Error''
       \<and> rateLimiterDelay n \<le> 60"
proof -
  let ?e = "unrecoverablePassword de ue False"
  have d: "db (loaded obj w) = obj"
    by (simp add: loaded_def Let_def Event_def)
  have g: "perform K8sGet
             (\<lambda>w. case apiserver w of
                     None \<Rightarrow> (Inl (K8sErr True ''not found''), w)
                   | Some stored \<Rightarrow> (Inr (), w\<lparr>db := stored\<rparr>)) w
           = (Inr (), w\<lparr>db := obj, trace := trace w @ [(K8sGet, True)]\<rparr>)"
    using assms(1,2) by (simp add: perform_def isOK_def)
  have r: "reconcileDatabase L (loaded obj w) = (Inl ?e, w3)"
    using reconcileDatabase_observed [of "loaded obj w" L c "(ue, de, False, region)" w3]
      assms(5-7) decide_unrecoverable [OF assms(8), of obj region L c w3] assms(9)
    by (simp add: d bindIO_def)
  have n: "\<not> isAWSPermissionError (Some ?e)" "\<not> isAWSResourceNotFoundError (Some ?e)"
    using unrecoverable_not_classified by blast+
  have R: "Reconcile L w =
     (let normalizedErrMsg = normalizeErrorMessage (Error ?e);
          statusChanged = (Phase (Status (db w3)) \<noteq> ''Error''
                           \<or> Message (Status (db w3)) \<noteq> normalizedErrMsg);
          w4 = (if statusChanged
                then w3\<lparr>db := (db w3)\<lparr>Status := (Status (db w3))
                        \<lparr>Phase := ''Error'', Message := normalizedErrMsg,
                         ObservedGeneration := Generation (db w3)\<rparr>\<rparr>\<rparr>
                else w3);
          w5 = (if statusChanged then snd (StatusUpdate w4) else w4);
          w6 = (if statusChanged then
                  (if IsNotFound ?e then Event ''Warning'' ''ConfigurationError'' (Error ?e) w5
                   else Event ''Warning'' ''ReconciliationError'' (Error ?e) w5)
                else w5)
      in ((noResult, Some ?e), w6))"
    using assms(3,4) n r unfolding Reconcile_def g
    by (simp add: loaded_def Let_def d [unfolded loaded_def Let_def])
  have "fst (Reconcile L w) = (noResult, Some ?e)"
    unfolding R by (simp add: Let_def)
  moreover have "Phase (Status (db (snd (Reconcile L w)))) = ''Error''"
    unfolding R by (simp add: Let_def Event_def StatusUpdate_db)
  moreover have "rateLimiterDelay n \<le> 60" by (simp add: rateLimiterDelay_def)
  ultimately show ?thesis by (simp add: requeue_of_def)
qed

text \<open>
  Claim C4, as the code has it, for one call of \<open>Reconcile\<close>.  When its pass ends in the
  unrecoverable-password condition, the call writes the Error phase and returns the
  error itself: the message is neither a permission nor a not-found condition, so the
  call hands the object back to the queue through the rate limiter, like a call that
  met a transient failure, and the limiter's delay never exceeds 60 seconds.  Nothing is
  said of the calls that follow.
\<close>

theorem unrecoverable_password_is_retried:
  assumes "apiserver w = Some obj" and "faults w (length (trace w)) = None"
    and "\<not> Deleting obj" and "DatabaseFinalizer \<in> set (Finalizers obj)"
    and "needsReconciliation obj" and "\<not> migrating obj"
    and "observation L (loaded obj w) = (Inr (c, ue, de, False, region), w3)"
    and "ue \<or> de"
    and "\<not> (SecretRegion (Status obj) \<noteq> [] \<and> SecretRegion (Status obj) \<noteq> region
            \<and> ActualSecretName (Status obj) \<noteq> [])"
  shows "fst (Reconcile L w) = (noResult, Some (unrecoverablePassword de ue False))
       \<and> requeue_of (fst (Reconcile L w)) = RateLimited
       \<and> Phase (Status (db (snd (Reconcile L w)))) = ''Error''
       \<and> rateLimiterDelay n \<le> 60"
  using assms by (rule Reconcile_unrecoverable)



section \<open>Verification: the examples\<close>

lemmas run_defs =
  observation_def connect_def observe_def getConnectionString_def validateConnectionSource_def
  getConnectionStringFromK8sSecret_def getSecretKeyOrDefault_def NewClient_def
  NewPostgresClient_def ParseConnectionString_def OpenAndPing_def
  UserExists_def DatabaseExists_def PostgresClient_UserExists_def
  PostgresClient_DatabaseExists_def QueryRowContext_def ValidateRegion_def getRegion_def
  NewAWSSecretsManagerClient_def SecretExists_def sm_DescribeSecret_def
  getUsernameOrDefault_def getSecretNameOrDefault_def
  bindIO_def wrapErr_def catchIO_def perform_def ret_def fail_def getDB_def isOK_def
  HasPrefix_def TrimPrefix_def ToLower_def lower_char_def upper_letters_def lower_letters_def
  Let_def not_found_def

lemmas example_defs =
  example_lib_def example_spec_def new_status_def ready_status_def example_entry_def
  example_object_def example_world_def no_secrets_def settled_world_def orphaned_world_def
  fresh_world_def DatabaseFinalizer_def

lemma obs_orphaned:
  "observation example_lib (orphaned_world\<lparr>trace := t, recorded := r\<rparr>) =
     (Inr (example_client, True, True, False, ''us-east-1''),
      orphaned_world\<lparr>trace := t @ observing
         @ [(SMDescribeSecret ''us-east-1'' ''rds/postgres/appdb'', False)], recorded := r\<rparr>)"
  by (simp add: run_defs example_defs example_client_def observing_def)

theorem unrecoverable_password_witness:
  "reconcileDatabase example_lib orphaned_world =
     (Inl (unrecoverablePassword True True False),
      orphaned_world\<lparr>trace := observing
         @ [(SMDescribeSecret ''us-east-1'' ''rds/postgres/appdb'', False)]\<rparr>)"
proof -
  have o: "observation example_lib orphaned_world =
     (Inr (example_client, True, True, False, ''us-east-1''),
      orphaned_world\<lparr>trace := observing
         @ [(SMDescribeSecret ''us-east-1'' ''rds/postgres/appdb'', False)]\<rparr>)"
    using obs_orphaned [of "[]" "[]"] by (simp add: orphaned_world_def example_world_def)
  have n: "needsReconciliation (db orphaned_world)" "\<not> migrating (db orphaned_world)"
    "\<not> (SecretRegion (Status (db orphaned_world)) \<noteq> []
        \<and> SecretRegion (Status (db orphaned_world)) \<noteq> ''us-east-1''
        \<and> ActualSecretName (Status (db orphaned_world)) \<noteq> [])"
    by (simp_all add: needsReconciliation_def migrating_def example_defs)
  show ?thesis using unrecoverable_password [OF n(1,2) o n(3)] by simp
qed

lemma loaded_orphaned:
  "loaded (example_object 1 example_spec new_status) orphaned_world =
     orphaned_world\<lparr>trace := [(K8sGet, True)],
                     recorded := [(''Normal'', ''Created'', ''Database created'')]\<rparr>"
  by (simp add: loaded_def Let_def Event_def example_defs)

lemma Reconcile_orphaned:
  "fst (Reconcile example_lib orphaned_world) = (noResult, Some (unrecoverablePassword True True False))
   \<and> requeue_of (fst (Reconcile example_lib orphaned_world)) = RateLimited
   \<and> Phase (Status (db (snd (Reconcile example_lib orphaned_world)))) = ''Error''
   \<and> rateLimiterDelay n \<le> 60"
proof (rule Reconcile_unrecoverable)
  show "apiserver orphaned_world = Some (example_object 1 example_spec new_status)"
    "faults orphaned_world (length (trace orphaned_world)) = None"
    "\<not> Deleting (example_object 1 example_spec new_status)"
    "DatabaseFinalizer \<in> set (Finalizers (example_object 1 example_spec new_status))"
    "needsReconciliation (example_object 1 example_spec new_status)"
    "\<not> migrating (example_object 1 example_spec new_status)"
    "True \<or> True"
    "\<not> (SecretRegion (Status (example_object 1 example_spec new_status)) \<noteq> []
        \<and> SecretRegion (Status (example_object 1 example_spec new_status)) \<noteq> ''us-east-1''
        \<and> ActualSecretName (Status (example_object 1 example_spec new_status)) \<noteq> [])"
    by (simp_all add: needsReconciliation_def migrating_def orphaned_world_def example_world_def
        example_object_def new_status_def)
  show "observation example_lib (loaded (example_object 1 example_spec new_status) orphaned_world) =
     (Inr (example_client, True, True, False, ''us-east-1''),
      orphaned_world\<lparr>trace := [(K8sGet, True)] @ observing
         @ [(SMDescribeSecret ''us-east-1'' ''rds/postgres/appdb'', False)],
         recorded := [(''Normal'', ''Created'', ''Database created'')]\<rparr>)"
    unfolding loaded_orphaned by (rule obs_orphaned)
qed

theorem unrecoverable_password_is_retried_witness:
  "fst (Reconcile example_lib orphaned_world) = (noResult, Some (unrecoverablePassword True True False))
   \<and> requeue_of (fst (Reconcile example_lib orphaned_world)) = RateLimited
   \<and> Phase (Status (db (snd (Reconcile example_lib orphaned_world)))) = ''Error''
   \<and> rateLimiterDelay 5 \<le> 60"
proof (rule unrecoverable_password_is_retried)
  show "apiserver orphaned_world = Some (example_object 1 example_spec new_status)"
    "faults orphaned_world (length (trace orphaned_world)) = None"
    "\<not> Deleting (example_object 1 example_spec new_status)"
    "DatabaseFinalizer \<in> set (Finalizers (example_object 1 example_spec new_status))"
    "needsReconciliation (example_object 1 example_spec new_status)"
    "\<not> migrating (example_object 1 example_spec new_status)"
    "True \<or> True"
    "\<not> (SecretRegion (Status (example_object 1 example_spec new_status)) \<noteq> []
        \<and> SecretRegion (Status (example_object 1 example_spec new_status)) \<noteq> ''us-east-1''
        \<and> ActualSecretName (Status (example_object 1 example_spec new_status)) \<noteq> [])"
    by (simp_all add: needsReconciliation_def migrating_def orphaned_world_def example_world_def
        example_object_def new_status_def)
  show "observation example_lib (loaded (example_object 1 example_spec new_status) orphaned_world) =
     (Inr (example_client, True, True, False, ''us-east-1''),
      orphaned_world\<lparr>trace := [(K8sGet, True)] @ observing
         @ [(SMDescribeSecret ''us-east-1'' ''rds/postgres/appdb'', False)],
         recorded := [(''Normal'', ''Created'', ''Database created'')]\<rparr>)"
    unfolding loaded_orphaned by (rule obs_orphaned)
qed

text \<open>
  Claim C4 as stated fails: in the example the unrecoverable password is put back on
  the queue through the rate limiter, as a transient SQL failure would be, and the
  limiter's delays are 15, 30 and then 60 seconds.
\<close>

theorem unrecoverable_password_terminal_counterexample:
  "requeue_of (fst (Reconcile example_lib orphaned_world)) = RateLimited
   \<and> requeue_of (noResult, Some (SQLErr ''dial tcp: i/o timeout'')) = RateLimited
   \<and> map rateLimiterDelay [0, 1, 2, 3] = [15, 30, 60, 60]"
  using Reconcile_orphaned [of 0] by (simp add: requeue_of_def rateLimiterDelay_def)

section \<open>Verification: the pass when everything exists\<close>

lemmas pass_defs =
  reconcileDatabase_def needsReconciliation_def migrating_def currentSecretFormatVersion_def
  decide_def GetSecret_def GetSecretString_def sm_GetSecretValue_def parse_secret_def
  unmarshal_DatabaseSecret_def old_format_def set_field_def zeroSecret_def
  syncTags_def GetSecretTags_def TagSecret_def UntagSecret_def sm_TagResource_def
  sm_UntagResource_def put_entry_def putTags_def desiredTagsOf_def getTagsToRemove_def
  setStatus_def modify_def
  finish_def GetConnectionInfo_def GrantAllPrivileges_def PostgresClient_GrantAllPrivileges_def
  PostgresClient_GrantPrivileges_def ExecContext_def Atoi_def digits_value_def digit_value_def
  is_digit_def
  storeCredentialsInAWS_def secretValueOf_def writeSecret_def UpdateSecretWithTemplate_def
  ToJSONWithTemplate_def toJSONDefault_def sm_UpdateSecret_def GetSecretARN_def
  lookInOldRegion_def deleteFromOldRegion_def DeleteSecret_def sm_DeleteSecret_def
  Itoa_def decimal_digits_def marked_for_deletion_def scheduled_for_deletion_def

lemma settled_pass:
  "(case reconcileDatabase example_lib (settled_world 2) of
      (r, w') \<Rightarrow> (r, trace w', secretsmanager w' ''us-east-1'' ''rds/postgres/appdb'',
                   SecretCreated (Status (db w')), SecretRegion (Status (db w'))))
   = (Inr (),
      settled_trace @
        [(LoadDefaultConfig ''us-east-1'', True),
         (SMDeleteSecret ''us-east-1'' ''rds/postgres/appdb'' True, True)],
      None, True, ''us-east-1'')"
  by (simp add: pass_defs run_defs example_defs settled_trace_def observing_def)

text \<open>
  Claim C1, on the code.  In \<open>settled_world 2\<close> user, database and secret exist, the spec
  names no region, and the status holds the region the client resolved in the pass that
  created the secret.  The pass fetches the password and generates none, and it writes
  the secret back with the same password; then \<^verbatim>\<open>storeCredentialsInAWS\<close> compares the
  region of the status with the unresolved region of the spec, the empty string, takes
  this for a change of region, and deletes the secret of the ``old'' region, which is
  the one it has just written.  The pass succeeds, the status says that the secret is
  created, and the stored password is gone.
\<close>

theorem settled_pass_deletes_secret:
  "getRegion (db (settled_world 2)) = []
   \<and> SecretRegion (Status (db (settled_world 2))) = sdk_region (settled_world 2)
   \<and> map_option SecretString
         (secretsmanager (settled_world 2) ''us-east-1'' ''rds/postgres/appdb'')
       = Some ''{DB_PASSWORD:s3cret}''
   \<and> fst (reconcileDatabase example_lib (settled_world 2)) = Inr ()
   \<and> trace (snd (reconcileDatabase example_lib (settled_world 2)))
       = settled_trace @
          [(LoadDefaultConfig ''us-east-1'', True),
           (SMDeleteSecret ''us-east-1'' ''rds/postgres/appdb'' True, True)]
   \<and> secretsmanager (snd (reconcileDatabase example_lib (settled_world 2)))
         ''us-east-1'' ''rds/postgres/appdb'' = None
   \<and> SecretCreated (Status (db (snd (reconcileDatabase example_lib (settled_world 2)))))"
proof -
  have "getRegion (db (settled_world 2)) = []"
    "SecretRegion (Status (db (settled_world 2))) = sdk_region (settled_world 2)"
    "map_option SecretString
         (secretsmanager (settled_world 2) ''us-east-1'' ''rds/postgres/appdb'')
       = Some ''{DB_PASSWORD:s3cret}''"
    by (simp_all add: getRegion_def example_defs)
  then show ?thesis
    using settled_pass by (simp split: prod.splits)
qed

section \<open>Verification: tags\<close>

lemma map_of_putTags:
  "distinct (map fst new) \<Longrightarrow> map_of (putTags new base) = map_of base ++ map_of new"
proof (induction new arbitrary: base)
  case Nil
  then show ?case by (simp add: putTags_def)
next
  case (Cons kv new)
  obtain k v where kv: "kv = (k, v)" by (cases kv)
  have 1: "putTags (kv # new) base = putTags new (AList.update k v base)"
    by (simp add: putTags_def kv)
  have 2: "map_of (putTags new (AList.update k v base)) = (map_of base)(k \<mapsto> v) ++ map_of new"
    using Cons by (simp add: update_conv')
  have 3: "map_of new k = None"
    using Cons.prems by (simp add: kv map_of_eq_None_iff)
  have "((map_of base)(k \<mapsto> v) ++ map_of new) x = (map_of base ++ map_of (kv # new)) x" for x
    using 3 by (cases "x = k") (auto simp: kv map_add_def split: option.splits)
  then show ?case unfolding 1 2 by (rule ext)
qed

lemma kept_tags_desired:
  "map_of (filter (\<lambda>kv. fst kv \<notin> set (getTagsToRemove current desired)) current) k = Some v
   \<Longrightarrow> map_of desired k \<noteq> None"
proof -
  assume "map_of (filter (\<lambda>kv. fst kv \<notin> set (getTagsToRemove current desired)) current) k = Some v"
  then have "(k, v) \<in> set (filter (\<lambda>kv. fst kv \<notin> set (getTagsToRemove current desired)) current)"
    by (rule map_of_SomeD)
  then have "(k, v) \<in> set current" and "k \<notin> set (getTagsToRemove current desired)" by auto
  then show ?thesis by (force simp: getTagsToRemove_def)
qed

lemma synced_map:
  assumes "distinct (map fst desired)"
  shows "map_of (putTags desired
            (filter (\<lambda>kv. fst kv \<notin> set (getTagsToRemove current desired)) current))
         = map_of desired"
proof (rule ext)
  fix k
  let ?kept = "filter (\<lambda>kv. fst kv \<notin> set (getTagsToRemove current desired)) current"
  show "map_of (putTags desired ?kept) k = map_of desired k"
  proof (cases "map_of desired k")
    case (Some v)
    then show ?thesis by (simp add: map_of_putTags [OF assms] map_add_def)
  next
    case None
    have "map_of ?kept k = None"
    proof (cases "map_of ?kept k")
      case (Some v)
      from kept_tags_desired [OF this] None show ?thesis by simp
    qed simp
    with None show ?thesis by (simp add: map_of_putTags [OF assms] map_add_def)
  qed
qed

lemma distinct_putTags:
  "distinct (map fst base) \<Longrightarrow> distinct (map fst (putTags new base))"
  unfolding putTags_def
  by (induction new arbitrary: base) (simp_all add: distinct_update)

lemma distinct_desiredTagsOf: "distinct (map fst (desiredTagsOf d))"
  by (simp add: desiredTagsOf_def Let_def distinct_putTags split: option.split)

lemma GetSecret_Inr:
  assumes "GetSecret L c n w = (Inr s, w')"
  shows "\<exists>e. secretsmanager w c n = Some e \<and> \<not> DeletedDate e
           \<and> w' = w\<lparr>trace := trace w @ [(SMGetSecretValue c n, True)]\<rparr>"
proof -
  from bindIO_Inr [OF assms [unfolded GetSecret_def]] obtain str w1 where
    g: "wrapErr ''failed to get secret value'' (sm_GetSecretValue c n) w = (Inr str, w1)"
    and p: "(case parse_secret L str of Inl e \<Rightarrow> fail e | Inr s \<Rightarrow> ret s) w1 = (Inr s, w')"
    by blast
  from p have w': "w' = w1" by (auto simp: fail_def ret_def split: sum.splits)
  from g have "sm_GetSecretValue c n w = (Inr str, w1)" by (simp add: wrapErr_Inr)
  from perform_Inr [OF this [unfolded sm_GetSecretValue_def]] obtain w'' where
    b: "(case secretsmanager w c n of None \<Rightarrow> (Inl not_found, w)
         | Some e \<Rightarrow> if DeletedDate e then (Inl marked_for_deletion, w)
                     else (Inr (SecretString e), w)) = (Inr str, w'')"
    and t: "w1 = w''\<lparr>trace := trace w @ [(SMGetSecretValue c n, True)]\<rparr>"
    by blast
  from b obtain e where "secretsmanager w c n = Some e" "\<not> DeletedDate e" "w'' = w"
    by (auto split: option.splits if_splits)
  with t w' show ?thesis by simp
qed

lemma syncTags_run:
  assumes "secretsmanager w c n = Some e" and "\<not> DeletedDate e"
    and "distinct (map fst desired)"
    and "faults w (Suc (length (trace w))) = None"
    and "faults w (Suc (Suc (length (trace w)))) = None"
  shows "\<exists>w'. syncTags c n desired w = (Inr (), w') \<and> db w' = db w
       \<and> trace w' = trace w
           @ [(SMDescribeSecret c n, faults w (length (trace w)) = None)]
           @ (if getTagsToRemove
                   (if faults w (length (trace w)) = None then EntryTags e else []) desired = []
              then []
              else [(SMUntagResource c n (getTagsToRemove (EntryTags e) desired), True)])
           @ [(SMTagResource c n desired, True)]
       \<and> (\<exists>e'. secretsmanager w' c n = Some e'
              \<and> map_of (EntryTags e') =
                  (if faults w (length (trace w)) = None then map_of desired
                   else map_of (EntryTags e) ++ map_of desired))"
proof (cases "faults w (length (trace w))")
  case (Some x)
  then show ?thesis
    using assms map_of_putTags [OF assms(3), of "EntryTags e"]
    by (simp add: syncTags_def GetSecretTags_def sm_DescribeSecret_def TagSecret_def
        sm_TagResource_def bindIO_def catchIO_def wrapErr_def perform_def ret_def isOK_def
        put_entry_def Let_def getTagsToRemove_def)
next
  case None
  show ?thesis
  proof (cases "getTagsToRemove (EntryTags e) desired = []")
    case True
    have "filter (\<lambda>kv. map_of desired (fst kv) = None) (EntryTags e) = []"
      using True by (simp add: getTagsToRemove_def)
    then show ?thesis
      using assms None synced_map [OF assms(3), of "EntryTags e"] True
      by (simp add: syncTags_def GetSecretTags_def sm_DescribeSecret_def TagSecret_def
          sm_TagResource_def bindIO_def catchIO_def wrapErr_def perform_def ret_def isOK_def
          put_entry_def Let_def)
  next
    case False
    have "filter (\<lambda>kv. map_of desired (fst kv) = None) (EntryTags e) \<noteq> []"
      using False by (simp add: getTagsToRemove_def)
    then show ?thesis
      using assms None synced_map [OF assms(3), of "EntryTags e"] False
      by (simp add: syncTags_def GetSecretTags_def sm_DescribeSecret_def TagSecret_def
          UntagSecret_def sm_UntagResource_def
          sm_TagResource_def bindIO_def catchIO_def wrapErr_def perform_def ret_def isOK_def
          put_entry_def Let_def getTagsToRemove_def)
  qed
qed




lemma tagged_desired:
  "desiredTagsOf (db tagged_world)
     = [(''ManagedBy'', ''database-user-operator''), (''a'', ''1''), (''b'', ''2'')]"
  by (simp add: desiredTagsOf_def putTags_def tagged_world_def tagged_spec_def example_world_def
      example_object_def example_spec_def)



lemma tagged_pass:
  "(case reconcileDatabase example_lib tagged_world of
      (r, w') \<Rightarrow> (r, trace w',
                   map_option EntryTags (secretsmanager w' ''us-east-1'' ''rds/postgres/appdb'')))
   = (Inr (),
      [(K8sGetSecret ''default'' ''pg-admin'', True),
       (SQLOpen ''postgres://admin:pw@db.local/postgres'', True),
       (SQLQueryRow (PgRoleExists ''appdb''), True),
       (SQLQueryRow (PgDatabaseExists ''appdb''), True),
       (LoadDefaultConfig ''us-east-1'', True),
       (SMDescribeSecret ''us-east-1'' ''rds/postgres/appdb'', True),
       (SMGetSecretValue ''us-east-1'' ''rds/postgres/appdb'', True),
       (SMDescribeSecret ''us-east-1'' ''rds/postgres/appdb'', True),
       (SMUntagResource ''us-east-1'' ''rds/postgres/appdb'' [''c''], True),
       (SMTagResource ''us-east-1'' ''rds/postgres/appdb''
          [(''ManagedBy'', ''database-user-operator''), (''a'', ''1''), (''b'', ''2'')], True),
       (SQLOpen ''postgres://admin:pw@db.local:5432/appdb?sslmode=require'', True),
       (SQLExec (PgGrantOnDatabase [''ALL''] ''appdb'' ''appdb''), True),
       (SQLExec (PgGrantSchema ''appdb''), True),
       (SQLExec (PgGrantTables ''appdb''), True),
       (SQLExec (PgAlterDefaultPrivileges ''appdb''), True),
       (LoadDefaultConfig ''us-east-1'', True),
       (SMDescribeSecret ''us-east-1'' ''rds/postgres/appdb'', True),
       (SMUpdateSecret ''us-east-1'' ''rds/postgres/appdb'' ''{DB_PASSWORD:s3cret}'', True),
       (SMDescribeSecret ''us-east-1'' ''rds/postgres/appdb'', True),
       (SMDescribeSecret ''us-east-1'' ''rds/postgres/appdb'', True),
       (SMTagResource ''us-east-1'' ''rds/postgres/appdb''
          [(''ManagedBy'', ''database-user-operator''), (''a'', ''1''), (''b'', ''2'')], True)],
      Some [(''a'', ''1''), (''ManagedBy'', ''database-user-operator''), (''b'', ''2'')])"
  by (simp add: pass_defs run_defs example_defs tagged_world_def tagged_spec_def
      ValidAWSRegions_def)


section \<open>Verification: the purge of the old region\<close>

lemma purge_not_written: "kind_of (fst e) = KStoreDelete \<Longrightarrow> \<not> written R N e"
proof (cases e)
  case (Pair c ok)
  assume "kind_of (fst e) = KStoreDelete"
  with Pair show ?thesis by (cases c) simp_all
qed

lemma paw_seen: "purge_after_write R N True es"
  by (induction es) simp_all

lemma paw_weaken: "purge_after_write R N s es \<Longrightarrow> (s \<Longrightarrow> s') \<Longrightarrow> purge_after_write R N s' es"
  by (cases s'; cases s) (simp_all add: paw_seen)

lemma paw_quiet:
  "list_all (\<lambda>e. kind_of (fst e) \<noteq> KStoreDelete) es \<Longrightarrow> purge_after_write R N s es"
  by (induction es arbitrary: s) simp_all

lemma paw_append:
  "purge_after_write R N s es \<Longrightarrow> purge_after_write R N (s \<or> list_ex (written R N) es) fs
   \<Longrightarrow> purge_after_write R N s (es @ fs)"
proof (induction es arbitrary: s)
  case Nil
  then show ?case by simp
next
  case (Cons e es)
  show ?case
  proof (cases "kind_of (fst e) = KStoreDelete")
    case True
    with Cons.prems(1) have "s \<and> purge_after_write R N s es" by (cases s) simp_all
    then have s: s and p: "purge_after_write R N s es" by blast+
    have "purge_after_write R N (s \<or> list_ex (written R N) es) fs"
      using s by (simp add: paw_seen)
    from Cons.IH [OF p this] True s show ?thesis by (simp add: paw_seen)
  next
    case False
    with Cons.prems(1) have p: "purge_after_write R N (s \<or> written R N e) es" by simp
    have "purge_after_write R N ((s \<or> written R N e) \<or> list_ex (written R N) es) fs"
      using Cons.prems(2) by (simp add: disj_assoc)
    from Cons.IH [OF p this] False show ?thesis by simp
  qed
qed

lemma paw_no_write:
  "purge_after_write R N False es \<Longrightarrow> \<not> list_ex (written R N) es
   \<Longrightarrow> list_all (\<lambda>e. kind_of (fst e) \<noteq> KStoreDelete) es"
  by (induction es) (auto split: if_splits)

lemma ordered_seen: "emits S f \<Longrightarrow> ordered R N True f Q"
  unfolding ordered_def emits_def by (auto simp: paw_seen)

lemma ordered_quiet:
  assumes "emits S f" and "KStoreDelete \<notin> S"
  shows "ordered R N s f (\<lambda>x. False)"
proof (unfold ordered_def, intro allI)
  fix w
  from emitsD [OF assms(1), of w] obtain es where
    es: "trace (snd (f w)) = trace w @ es" "list_all (\<lambda>e. kind_of (fst e) \<in> S) es" by blast
  from es(2) assms(2) have "list_all (\<lambda>e. kind_of (fst e) \<noteq> KStoreDelete) es"
    by (auto simp: list_all_iff)
  then have "purge_after_write R N s es" by (rule paw_quiet)
  with es(1) show "\<exists>es. trace (snd (f w)) = trace w @ es \<and> purge_after_write R N s es
        \<and> (\<forall>x. fst (f w) = Inr x \<longrightarrow> False \<longrightarrow> s \<or> list_ex (written R N) es)"
    by blast
qed

lemma ordered_post: "ordered R N s f Q \<Longrightarrow> (\<And>x. Q' x \<Longrightarrow> Q x) \<Longrightarrow> ordered R N s f Q'"
  unfolding ordered_def by blast

lemma ordered_fail: "ordered R N s (fail e) Q"
  by (simp add: ordered_def fail_def)

lemma ordered_ret: "(Q x \<Longrightarrow> s) \<Longrightarrow> ordered R N s (ret x) Q"
  by (auto simp: ordered_def ret_def)

lemma ordered_wrapErr: "ordered R N s f Q \<Longrightarrow> ordered R N s (wrapErr p f) Q"
proof (unfold ordered_def, intro allI)
  fix w
  assume a: "\<forall>w. \<exists>es. trace (snd (f w)) = trace w @ es \<and> purge_after_write R N s es
             \<and> (\<forall>x. fst (f w) = Inr x \<longrightarrow> Q x \<longrightarrow> s \<or> list_ex (written R N) es)"
  have "snd (wrapErr p f w) = snd (f w)"
    "\<And>x. fst (wrapErr p f w) = Inr x \<Longrightarrow> fst (f w) = Inr x"
    by (cases "f w"; auto simp: wrapErr_def split: sum.splits)+
  with a [rule_format, of w]
  show "\<exists>es. trace (snd (wrapErr p f w)) = trace w @ es \<and> purge_after_write R N s es
        \<and> (\<forall>x. fst (wrapErr p f w) = Inr x \<longrightarrow> Q x \<longrightarrow> s \<or> list_ex (written R N) es)"
    by auto
qed

lemma ordered_bindIO:
  assumes f: "ordered R N s f P"
    and g1: "\<And>x. P x \<Longrightarrow> ordered R N True (g x) Q"
    and g2: "\<And>x. \<not> P x \<Longrightarrow> ordered R N s (g x) Q"
  shows "ordered R N s (bindIO f g) Q"
proof (unfold ordered_def, intro allI)
  fix w
  obtain r w1 where fw: "f w = (r, w1)" by (cases "f w")
  from f [unfolded ordered_def, rule_format, of w] fw obtain es1 where
    t1: "trace w1 = trace w @ es1" and p1: "purge_after_write R N s es1"
    and q1: "\<And>x. r = Inr x \<Longrightarrow> P x \<Longrightarrow> s \<or> list_ex (written R N) es1" by auto
  show "\<exists>es. trace (snd (bindIO f g w)) = trace w @ es \<and> purge_after_write R N s es
        \<and> (\<forall>x. fst (bindIO f g w) = Inr x \<longrightarrow> Q x \<longrightarrow> s \<or> list_ex (written R N) es)"
  proof (cases r)
    case (Inl e)
    with fw t1 p1 show ?thesis by (auto simp: bindIO_def)
  next
    case (Inr x)
    have b: "bindIO f g w = g x w1" using fw Inr by (simp add: bindIO_def)
    show ?thesis
    proof (cases "P x")
      case True
      from q1 [OF Inr True] have s1: "s \<or> list_ex (written R N) es1" .
      from g1 [OF True, unfolded ordered_def, rule_format, of w1] obtain es2 where
        t2: "trace (snd (g x w1)) = trace w1 @ es2" by blast
      have "purge_after_write R N (s \<or> list_ex (written R N) es1) es2"
        using s1 by (simp add: paw_seen)
      from paw_append [OF p1 this] have "purge_after_write R N s (es1 @ es2)" .
      moreover have "s \<or> list_ex (written R N) (es1 @ es2)" using s1 by auto
      ultimately show ?thesis unfolding b using t1 t2 by auto
    next
      case False
      from g2 [OF False, unfolded ordered_def, rule_format, of w1] obtain es2 where
        t2: "trace (snd (g x w1)) = trace w1 @ es2" and p2: "purge_after_write R N s es2"
        and q2: "\<And>y. fst (g x w1) = Inr y \<Longrightarrow> Q y \<Longrightarrow> s \<or> list_ex (written R N) es2"
        by blast
      have "purge_after_write R N (s \<or> list_ex (written R N) es1) es2"
        using p2 by (rule paw_weaken) simp
      from paw_append [OF p1 this] have "purge_after_write R N s (es1 @ es2)" .
      moreover have "\<And>y. fst (g x w1) = Inr y \<Longrightarrow> Q y
                       \<Longrightarrow> s \<or> list_ex (written R N) (es1 @ es2)"
        using q2 by auto
      ultimately show ?thesis unfolding b using t1 t2 by auto
    qed
  qed
qed

lemma ordered_catchIO:
  assumes f: "ordered R N s f Q" and h: "\<And>e. ordered R N s (h e) Q"
  shows "ordered R N s (catchIO f h) Q"
proof (unfold ordered_def, intro allI)
  fix w
  obtain r w1 where fw: "f w = (r, w1)" by (cases "f w")
  from f [unfolded ordered_def, rule_format, of w] fw obtain es1 where
    t1: "trace w1 = trace w @ es1" and p1: "purge_after_write R N s es1"
    and q1: "\<And>x. r = Inr x \<Longrightarrow> Q x \<Longrightarrow> s \<or> list_ex (written R N) es1" by auto
  show "\<exists>es. trace (snd (catchIO f h w)) = trace w @ es \<and> purge_after_write R N s es
        \<and> (\<forall>x. fst (catchIO f h w) = Inr x \<longrightarrow> Q x \<longrightarrow> s \<or> list_ex (written R N) es)"
  proof (cases r)
    case (Inr x)
    with fw t1 p1 q1 show ?thesis by (auto simp: catchIO_def)
  next
    case (Inl e)
    have b: "catchIO f h w = h e w1" using fw Inl by (simp add: catchIO_def)
    from h [of e, unfolded ordered_def, rule_format, of w1] obtain es2 where
      t2: "trace (snd (h e w1)) = trace w1 @ es2" and p2: "purge_after_write R N s es2"
      and q2: "\<And>y. fst (h e w1) = Inr y \<Longrightarrow> Q y \<Longrightarrow> s \<or> list_ex (written R N) es2"
      by blast
    have "purge_after_write R N (s \<or> list_ex (written R N) es1) es2"
      using p2 by (rule paw_weaken) simp
    from paw_append [OF p1 this] have "purge_after_write R N s (es1 @ es2)" .
    moreover have "\<And>y. fst (h e w1) = Inr y \<Longrightarrow> Q y
                     \<Longrightarrow> s \<or> list_ex (written R N) (es1 @ es2)"
      using q2 by auto
    ultimately show ?thesis unfolding b using t1 t2 by auto
  qed
qed


lemma ordered_write:
  "ordered c n s (sm_UpdateSecret c n str) (\<lambda>x. True)"
  "ordered c n s (sm_CreateSecret c n dsc str ts) (\<lambda>x. True)"
  by (auto simp: ordered_def sm_UpdateSecret_def sm_CreateSecret_def perform_def isOK_def Let_def
      split: option.splits)

lemma ordered_UpdateSecretWithTemplate:
  "ordered c n s (UpdateSecretWithTemplate L c n sv tmpl) (\<lambda>x. True)"
  unfolding UpdateSecretWithTemplate_def
  by (auto intro!: ordered_catchIO ordered_write ordered_fail split: sum.split)

lemma ordered_CreateSecretWithTemplate:
  "ordered c n s (CreateSecretWithTemplate L c n dsc sv ts tmpl) (\<lambda>x. True)"
proof -
  have rest: "ordered c n True
     (bindIO (wrapErr ''failed to update secret description'' (UpdateSecretMetadata c n dsc))
        (\<lambda>u2. bindIO (wrapErr ''failed to update secret tags'' (TagSecret c n ts))
        (\<lambda>u3. bindIO (wrapErr ''failed to get secret ARN after restore'' (GetSecretARN c n))
        (\<lambda>arn. ret (arn, versionId))))) (\<lambda>x. True)" for versionId
  proof (rule ordered_seen)
    show "emits {KRead, KStoreMeta}
     (bindIO (wrapErr ''failed to update secret description'' (UpdateSecretMetadata c n dsc))
        (\<lambda>u2. bindIO (wrapErr ''failed to update secret tags'' (TagSecret c n ts))
        (\<lambda>u3. bindIO (wrapErr ''failed to get secret ARN after restore'' (GetSecretARN c n))
        (\<lambda>arn. ret (arn, versionId)))))"
      by (intro emits_intros) simp_all
  qed
  have restore: "ordered c n s
     (bindIO (wrapErr ''failed to restore secret scheduled for deletion'' (RestoreSecret c n))
        (\<lambda>u1. bindIO (wrapErr ''failed to update restored secret''
                        (UpdateSecretWithTemplate L c n sv tmpl))
        (\<lambda>versionId.
           bindIO (wrapErr ''failed to update secret description'' (UpdateSecretMetadata c n dsc))
        (\<lambda>u2. bindIO (wrapErr ''failed to update secret tags'' (TagSecret c n ts))
        (\<lambda>u3. bindIO (wrapErr ''failed to get secret ARN after restore'' (GetSecretARN c n))
        (\<lambda>arn. ret (arn, versionId))))))) (\<lambda>x. True)"
  proof (rule ordered_bindIO [where P = "\<lambda>x. False"])
    have "emits {KStoreMeta}
            (wrapErr ''failed to restore secret scheduled for deletion'' (RestoreSecret c n))"
      by (intro emits_intros) simp
    then show "ordered c n s
            (wrapErr ''failed to restore secret scheduled for deletion'' (RestoreSecret c n))
            (\<lambda>x. False)"
      by (rule ordered_quiet) simp
  next
    fix u1 :: unit
    show "ordered c n s
       (bindIO (wrapErr ''failed to update restored secret''
                        (UpdateSecretWithTemplate L c n sv tmpl))
        (\<lambda>versionId.
           bindIO (wrapErr ''failed to update secret description'' (UpdateSecretMetadata c n dsc))
        (\<lambda>u2. bindIO (wrapErr ''failed to update secret tags'' (TagSecret c n ts))
        (\<lambda>u3. bindIO (wrapErr ''failed to get secret ARN after restore'' (GetSecretARN c n))
        (\<lambda>arn. ret (arn, versionId)))))) (\<lambda>x. True)"
      by (rule ordered_bindIO [where P = "\<lambda>x. True"])
         (simp_all add: ordered_wrapErr ordered_UpdateSecretWithTemplate rest)
  qed simp
  show ?thesis
    unfolding CreateSecretWithTemplate_def
    by (auto intro!: ordered_catchIO ordered_write ordered_fail restore split: sum.split)
qed


lemma ordered_writeSecret:
  "ordered c n s (writeSecret L d c n sv ex) (\<lambda>x. True)"
  unfolding writeSecret_def
proof (rule ordered_bindIO [where P = "\<lambda>x. \<not> fst x"])
  show "ordered c n s
     (if ex then
        catchIO
          (bindIO (UpdateSecretWithTemplate L c n sv (SecretTemplate (Spec d)))
             (\<lambda>versionID. ret (False, versionID)))
          (\<lambda>e. if as_SecretNotFoundError e then ret (True, [])
               else if as_SecretMarkedForDeletionError e then ret (True, [])
               else fail e)
      else ret (True, [])) (\<lambda>x. \<not> fst x)"
  proof (cases ex)
    case True
    have "ordered c n s
          (bindIO (UpdateSecretWithTemplate L c n sv (SecretTemplate (Spec d)))
             (\<lambda>versionID. ret (False, versionID))) (\<lambda>x. \<not> fst x)"
      by (rule ordered_bindIO [where P = "\<lambda>x. True"])
         (auto intro!: ordered_UpdateSecretWithTemplate ordered_ret)
    then show ?thesis
      using True by (auto intro!: ordered_catchIO ordered_ret ordered_fail)
  next
    case False
    then show ?thesis by (auto intro!: ordered_ret)
  qed
next
  fix x :: "bool \<times> string"
  assume "\<not> fst x"
  then obtain versionID where x: "x = (False, versionID)" by (cases x) auto
  have "emits {KRead}
     (bindIO (if ex \<and> \<not> False then catchIO (GetSecretARN c n) (\<lambda>e. ret []) else ret [])
        (\<lambda>secretARN. ret (secretARN, versionID)))"
    by (intro emits_intros) (auto intro!: emits_intros)
  then have "ordered c n True
     (bindIO (if ex \<and> \<not> False then catchIO (GetSecretARN c n) (\<lambda>e. ret []) else ret [])
        (\<lambda>secretARN. ret (secretARN, versionID))) (\<lambda>x. True)"
    by (rule ordered_seen)
  then show "ordered c n True
     (case x of (createSecret, versionID) \<Rightarrow>
        bindIO (if ex \<and> \<not> createSecret then catchIO (GetSecretARN c n) (\<lambda>e. ret [])
                else ret [])
          (\<lambda>secretARN.
             if createSecret then
               (let description0 = ''Database credentials for '' @ DatabaseName (Spec d);
                    description =
                      (case AWSSecretsManager (Spec d) of
                         None \<Rightarrow> description0
                       | Some cfg \<Rightarrow> if Description cfg \<noteq> [] then Description cfg
                                     else description0)
                in CreateSecretWithTemplate L c n description sv
                     (desiredTagsOf d) (SecretTemplate (Spec d)))
             else ret (secretARN, versionID))) (\<lambda>x. True)"
    by (simp add: x)
next
  fix x :: "bool \<times> string"
  assume "\<not> \<not> fst x"
  then obtain versionID where x: "x = (True, versionID)" by (cases x) auto
  have "ordered c n s
     (bindIO (ret [])
        (\<lambda>secretARN. CreateSecretWithTemplate L c n dsc sv (desiredTagsOf d)
                        (SecretTemplate (Spec d)))) (\<lambda>x. True)" for dsc
    by (rule ordered_bindIO [where P = "\<lambda>x. False"])
       (auto intro!: ordered_ret ordered_CreateSecretWithTemplate)
  then show "ordered c n s
     (case x of (createSecret, versionID) \<Rightarrow>
        bindIO (if ex \<and> \<not> createSecret then catchIO (GetSecretARN c n) (\<lambda>e. ret [])
                else ret [])
          (\<lambda>secretARN.
             if createSecret then
               (let description0 = ''Database credentials for '' @ DatabaseName (Spec d);
                    description =
                      (case AWSSecretsManager (Spec d) of
                         None \<Rightarrow> description0
                       | Some cfg \<Rightarrow> if Description cfg \<noteq> [] then Description cfg
                                     else description0)
                in CreateSecretWithTemplate L c n description sv
                     (desiredTagsOf d) (SecretTemplate (Spec d)))
             else ret (secretARN, versionID))) (\<lambda>x. True)"
    by (simp add: x Let_def)
qed


lemma quiet_then:
  assumes "emits S f" and "KStoreDelete \<notin> S"
    and "\<And>x w1. f w = (Inr x, w1)
           \<Longrightarrow> \<exists>es. trace (snd (g x w1)) = trace w1 @ es \<and> purge_after_write R N False es"
  shows "\<exists>es. trace (snd (bindIO f g w)) = trace w @ es \<and> purge_after_write R N False es"
proof -
  obtain r w1 where fw: "f w = (r, w1)" by (cases "f w")
  from emitsD [OF assms(1), of w] fw obtain es1 where
    t1: "trace w1 = trace w @ es1" and k: "list_all (\<lambda>e. kind_of (fst e) \<in> S) es1" by auto
  from k assms(2) have "list_all (\<lambda>e. kind_of (fst e) \<noteq> KStoreDelete) es1"
    by (auto simp: list_all_iff)
  then have p1: "purge_after_write R N False es1" by (rule paw_quiet)
  show ?thesis
  proof (cases r)
    case (Inl e)
    with fw t1 p1 show ?thesis by (auto simp: bindIO_def)
  next
    case (Inr x)
    from assms(3) [of x w1] fw Inr obtain es2 where
      t2: "trace (snd (g x w1)) = trace w1 @ es2" and p2: "purge_after_write R N False es2"
      by auto
    have "purge_after_write R N (False \<or> list_ex (written R N) es1) es2"
      using p2 by (rule paw_weaken) simp
    from paw_append [OF p1 this] have "purge_after_write R N False (es1 @ es2)" .
    moreover have "bindIO f g w = g x w1" using fw Inr by (simp add: bindIO_def)
    ultimately show ?thesis using t1 t2 by auto
  qed
qed

lemma bindIO_setStatus:
  "bindIO (setStatus u) g w = g () (w\<lparr>db := (db w)\<lparr>Status := u (Status (db w))\<rparr>\<rparr>)"
  by (simp add: bindIO_def setStatus_def modify_def)

lemma client_Inr:
  "NewAWSSecretsManagerClient region w = (Inr c, w1)
   \<Longrightarrow> c = (if region \<noteq> [] then region else sdk_region w)"
  by (auto simp: NewAWSSecretsManagerClient_def wrapErr_Inr dest!: perform_Inr)

lemma orderedD:
  "ordered R N s f Q \<Longrightarrow> \<exists>es. trace (snd (f w)) = trace w @ es \<and> purge_after_write R N s es"
  unfolding ordered_def by blast

lemma storeCredentialsInAWS_ordered:
  "\<exists>es. trace (snd (storeCredentialsInAWS L u p ci port mig w)) = trace w @ es
      \<and> purge_after_write (if getRegion (db w) \<noteq> [] then getRegion (db w) else sdk_region w)
           (getSecretNameOrDefault (db w)) False es"
proof -
  let ?d = "db w" and ?n = "getSecretNameOrDefault (db w)"
  let ?R = "if getRegion (db w) \<noteq> [] then getRegion (db w) else sdk_region w"
  let ?old = "SecretRegion (Status (db w))"
  let ?changed = "?old \<noteq> [] \<and> ?old \<noteq> getRegion ?d"
  let ?sv = "secretValueOf L ?d u p ci port"
  let ?final = "\<lambda>awsClient secretARN versionID.
       setStatus (\<lambda>s. s\<lparr>SecretCreated := True, SecretARN := secretARN,
                         SecretVersion := versionID, SecretFormatVersion := ''v2'',
                         SecretRegion := awsClient,
                         ConnectionInfo :=
                           \<lparr>StHost = Host ci, StPort = port,
                            StDatabase = DatabaseName (Spec ?d), StUsername = u,
                            StEngine = Engine (Spec ?d)\<rparr>\<rparr>)"
  let ?after = "\<lambda>awsClient (x :: string \<times> string).
       bindIO (syncTags awsClient ?n (desiredTagsOf ?d)) (\<lambda>u2.
       bindIO (if ?changed \<and> ?old \<noteq> [] \<and> fst x \<noteq> []
               then deleteFromOldRegion ?old ?n else ret ()) (\<lambda>u3.
       ?final awsClient (fst x) (snd x)))"
  let ?rest = "\<lambda>awsClient.
       bindIO (SecretExists awsClient ?n) (\<lambda>exists.
       bindIO (if ?changed \<and> \<not> exists \<and> ?old \<noteq> []
               then lookInOldRegion ?old ?n else ret ()) (\<lambda>u1.
       bindIO (writeSecret L ?d awsClient ?n ?sv exists) (?after awsClient)))"
  have after: "ordered c ?n True (?after c x) (\<lambda>x. False)" for c x
  proof (rule ordered_seen)
    show "emits {KRead, KLocal, KStoreMeta, KStoreDelete} (?after c x)"
      by (intro emits_intros) (auto intro!: emits_intros)
  qed
  have rest: "ordered c ?n False (?rest c) (\<lambda>x. False)" for c
  proof (rule ordered_bindIO [where P = "\<lambda>x. False"])
    have "emits {KRead} (SecretExists c ?n)" by (intro emits_intros) simp
    then show "ordered c ?n False (SecretExists c ?n) (\<lambda>x. False)"
      by (rule ordered_quiet) simp
  next
    fix ex :: bool
    show "ordered c ?n False
       (bindIO (if ?changed \<and> \<not> ex \<and> ?old \<noteq> []
               then lookInOldRegion ?old ?n else ret ()) (\<lambda>u1.
        bindIO (writeSecret L ?d c ?n ?sv ex) (?after c))) (\<lambda>x. False)"
    proof (rule ordered_bindIO [where P = "\<lambda>x. False"])
      have "emits {KRead, KLocal}
              (if ?changed \<and> \<not> ex \<and> ?old \<noteq> [] then lookInOldRegion ?old ?n else ret ())"
        by (auto intro!: emits_intros)
      then show "ordered c ?n False
              (if ?changed \<and> \<not> ex \<and> ?old \<noteq> [] then lookInOldRegion ?old ?n else ret ())
              (\<lambda>x. False)"
        by (rule ordered_quiet) simp
    next
      fix u1 :: unit
      show "ordered c ?n False (bindIO (writeSecret L ?d c ?n ?sv ex) (?after c)) (\<lambda>x. False)"
      proof (rule ordered_bindIO [where P = "\<lambda>x. True"])
        show "ordered c ?n False (writeSecret L ?d c ?n ?sv ex) (\<lambda>x. True)"
          by (rule ordered_writeSecret)
        show "ordered c ?n True (?after c x) (\<lambda>x. False)" for x
          by (rule after)
      qed simp
    qed simp
  qed simp
  define w0 where "w0 = w\<lparr>db := (db w)\<lparr>Status := (Status (db w))\<lparr>ActualSecretName := ?n\<rparr>\<rparr>\<rparr>"
  have w0: "trace w0 = trace w" "sdk_region w0 = sdk_region w" by (simp_all add: w0_def)
  have run: "storeCredentialsInAWS L u p ci port mig w =
     (case ValidateRegion (getRegion ?d) of
        Some e \<Rightarrow> fail (Wrap ''invalid AWS region'' e)
      | None \<Rightarrow>
          bindIO (wrapErr ''failed to create AWS Secrets Manager client for storing credentials (ensure pod has AWS permissions via IRSA, instance profile, or credentials)''
                    (NewAWSSecretsManagerClient (getRegion ?d))) ?rest) w0"
    unfolding storeCredentialsInAWS_def bindIO_getDB Let_def bindIO_setStatus w0_def split_def
    by (rule refl)
  show ?thesis
  proof (cases "ValidateRegion (getRegion ?d)")
    case (Some e)
    then show ?thesis unfolding run by (simp add: fail_def w0)
  next
    case None
    have "\<exists>es. trace (snd (bindIO (wrapErr ''failed to create AWS Secrets Manager client for storing credentials (ensure pod has AWS permissions via IRSA, instance profile, or credentials)''
                    (NewAWSSecretsManagerClient (getRegion ?d))) ?rest w0)) = trace w0 @ es
            \<and> purge_after_write ?R ?n False es"
    proof (rule quiet_then [where S = "{KLocal}"])
      show "emits {KLocal} (wrapErr ''failed to create AWS Secrets Manager client for storing credentials (ensure pod has AWS permissions via IRSA, instance profile, or credentials)''
                    (NewAWSSecretsManagerClient (getRegion ?d)))"
        by (intro emits_intros) simp
    next
      fix c w1
      assume "wrapErr ''failed to create AWS Secrets Manager client for storing credentials (ensure pod has AWS permissions via IRSA, instance profile, or credentials)''
                    (NewAWSSecretsManagerClient (getRegion ?d)) w0 = (Inr c, w1)"
      then have "NewAWSSecretsManagerClient (getRegion ?d) w0 = (Inr c, w1)"
        by (simp add: wrapErr_Inr)
      from client_Inr [OF this] have "c = ?R" by (simp add: w0)
      with orderedD [OF rest, of c w1]
      show "\<exists>es. trace (snd (?rest c w1)) = trace w1 @ es \<and> purge_after_write ?R ?n False es"
        by simp
    qed simp
    then show ?thesis unfolding run using None by (simp add: w0)
  qed
qed


lemma keepsD:
  "keeps_config f \<Longrightarrow> f w = (r, w1)
   \<Longrightarrow> sdk_region w1 = sdk_region w \<and> Spec (db w1) = Spec (db w)"
  unfolding keeps_config_def by (auto dest: spec [of _ w])

lemma keeps_only_trace: "only_trace f \<Longrightarrow> keeps_config f"
proof (unfold keeps_config_def, intro allI)
  fix w
  assume "only_trace f"
  then have "snd (f w) = w\<lparr>trace := trace (snd (f w))\<rparr>" by (simp add: only_trace_def)
  then have "sdk_region (snd (f w)) = sdk_region (w\<lparr>trace := trace (snd (f w))\<rparr>)"
    "db (snd (f w)) = db (w\<lparr>trace := trace (snd (f w))\<rparr>)" by simp_all
  then show "sdk_region (snd (f w)) = sdk_region w \<and> Spec (db (snd (f w))) = Spec (db w)"
    by simp
qed

lemma keeps_setStatus: "keeps_config (setStatus u)"
  by (simp add: keeps_config_def setStatus_def modify_def)

lemma keeps_generatePassword: "keeps_config (generatePassword n)"
  by (simp add: keeps_config_def generatePassword_def Let_def)

lemma keeps_bindIO:
  assumes "keeps_config f" and "\<And>x. keeps_config (g x)"
  shows "keeps_config (bindIO f g)"
proof (unfold keeps_config_def, intro allI)
  fix w
  obtain r w1 where fw: "f w = (r, w1)" by (cases "f w")
  note k = keepsD [OF assms(1) fw]
  show "sdk_region (snd (bindIO f g w)) = sdk_region w
        \<and> Spec (db (snd (bindIO f g w))) = Spec (db w)"
  proof (cases r)
    case (Inl e)
    with fw k show ?thesis by (simp add: bindIO_def)
  next
    case (Inr x)
    obtain r2 w2 where gw: "g x w1 = (r2, w2)" by (cases "g x w1")
    from keepsD [OF assms(2) gw] k fw Inr gw show ?thesis by (simp add: bindIO_def)
  qed
qed

lemma keeps_catchIO:
  assumes "keeps_config f" and "\<And>e. keeps_config (h e)"
  shows "keeps_config (catchIO f h)"
proof (unfold keeps_config_def, intro allI)
  fix w
  obtain r w1 where fw: "f w = (r, w1)" by (cases "f w")
  note k = keepsD [OF assms(1) fw]
  show "sdk_region (snd (catchIO f h w)) = sdk_region w
        \<and> Spec (db (snd (catchIO f h w))) = Spec (db w)"
  proof (cases r)
    case (Inr x)
    with fw k show ?thesis by (simp add: catchIO_def)
  next
    case (Inl e)
    obtain r2 w2 where hw: "h e w1 = (r2, w2)" by (cases "h e w1")
    from keepsD [OF assms(2) hw] k fw Inl hw show ?thesis by (simp add: catchIO_def)
  qed
qed

lemma keeps_wrapErr: "keeps_config f \<Longrightarrow> keeps_config (wrapErr p f)"
proof -
  have "snd (wrapErr p f w) = snd (f w)" for w
    by (cases "f w") (auto simp: wrapErr_def split: sum.splits)
  then show "keeps_config f \<Longrightarrow> keeps_config (wrapErr p f)"
    by (simp add: keeps_config_def)
qed

lemma keeps_perform:
  assumes "\<And>w. sdk_region (snd (body w)) = sdk_region w \<and> Spec (db (snd (body w))) = Spec (db w)"
  shows "keeps_config (perform c body)"
proof (unfold keeps_config_def, intro allI)
  fix w
  obtain r w' where b: "body w = (r, w')" by (cases "body w")
  with assms [of w] have "sdk_region w' = sdk_region w \<and> Spec (db w') = Spec (db w)" by simp
  with b show "sdk_region (snd (perform c body w)) = sdk_region w
        \<and> Spec (db (snd (perform c body w))) = Spec (db w)"
    by (simp add: perform_def split: option.split)
qed

lemma keeps_exec_effect:
  "sdk_region (snd (exec_effect s w)) = sdk_region w \<and> Spec (db (snd (exec_effect s w))) = Spec (db w)"
  by (cases s) simp_all

lemma keeps_reads:
  "keeps_config (ret x)"
  "keeps_config (fail e)"
  "keeps_config (NewAWSSecretsManagerClient region)"
  "keeps_config (SecretExists c n)"
  "keeps_config (GetSecret L c n)"
  "keeps_config (GetSecretTags c n)"
  "keeps_config (NewClient L engine cs)"
  "keeps_config (UserExists dc u)"
  "keeps_config (DatabaseExists dc dn)"
  "keeps_config (getConnectionString L d)"
  "keeps_config (GrantAllPrivileges L dc dn u)"
  by (rule keeps_only_trace, rule only_trace_intros)+

lemma keeps_tags:
  "keeps_config (TagSecret c n ts)"
  "keeps_config (UntagSecret c n ks)"
  unfolding TagSecret_def UntagSecret_def sm_TagResource_def sm_UntagResource_def
  by (auto intro!: keeps_wrapErr keeps_perform keeps_reads
      simp: put_entry_def split: option.split)

lemma keeps_syncTags: "keeps_config (syncTags c n ts)"
  unfolding syncTags_def Let_def
  by (auto intro!: keeps_bindIO keeps_catchIO keeps_wrapErr keeps_tags keeps_reads)

lemma keeps_create:
  "keeps_config (CreateUser c u p)"
  "keeps_config (CreateDatabase c dn u)"
  unfolding CreateUser_def CreateDatabase_def PostgresClient_CreateUser_def
    MySQLClient_CreateUser_def PostgresClient_CreateDatabase_def MySQLClient_CreateDatabase_def
    PostgresClient_UserExists_def PostgresClient_DatabaseExists_def QueryRowContext_def
    ExecContext_def
  by (auto intro!: keeps_bindIO keeps_wrapErr keeps_perform keeps_exec_effect keeps_reads
      simp: Let_def split: Client.split)

lemma keeps_decide: "keeps_config (decide L c d obs)"
  unfolding decide_def Let_def
  by (auto intro!: keeps_bindIO keeps_wrapErr keeps_syncTags keeps_setStatus keeps_create
      keeps_generatePassword keeps_reads split: prod.split)

lemma keeps_password:
  "keeps_config (if migrating d then fetchPasswordForMigration L d
                 else bindIO (observe c d) (decide L c d))"
  unfolding fetchPasswordForMigration_def observe_def Let_def
  by (auto intro!: keeps_bindIO keeps_wrapErr keeps_decide keeps_reads split: option.split)

lemma keeps_connect: "keeps_config (connect L d)"
  unfolding connect_def by (auto intro!: keeps_bindIO keeps_reads)


lemma same_config:
  assumes "sdk_region w1 = sdk_region w \<and> Spec (db w1) = Spec (db w)"
  shows "(if getRegion (db w1) \<noteq> [] then getRegion (db w1) else sdk_region w1)
           = (if getRegion (db w) \<noteq> [] then getRegion (db w) else sdk_region w)"
    and "getSecretNameOrDefault (db w1) = getSecretNameOrDefault (db w)"
  using assms by (simp_all add: getRegion_def getSecretNameOrDefault_def)

lemma finish_ordered:
  assumes "sdk_region w2 = sdk_region w \<and> Spec (db w2) = Spec (db w)"
  shows "\<exists>es. trace (snd (finish L d c pw w2)) = trace w2 @ es
      \<and> purge_after_write (if getRegion (db w) \<noteq> [] then getRegion (db w) else sdk_region w)
           (getSecretNameOrDefault (db w)) False es"
proof -
  let ?u = "\<lambda>s. if ActualUsername s = [] then s\<lparr>ActualUsername := getUsernameOrDefault d\<rparr> else s"
  define w3 where "w3 = w2\<lparr>db := (db w2)\<lparr>Status := ?u (Status (db w2))\<rparr>\<rparr>"
  have w3: "trace w3 = trace w2" "sdk_region w3 = sdk_region w \<and> Spec (db w3) = Spec (db w)"
    using assms by (simp_all add: w3_def)
  have run: "finish L d c pw w2 =
     bindIO (GrantAllPrivileges L c (DatabaseName (Spec d)) (getUsernameOrDefault d))
       (\<lambda>u2. storeCredentialsInAWS L (getUsernameOrDefault d) pw (GetConnectionInfo c)
                (Atoi (Port (GetConnectionInfo c)))
                (SecretFormatVersion (Status d) \<noteq> currentSecretFormatVersion)) w3"
    unfolding finish_def Let_def bindIO_setStatus w3_def by (rule refl)
  have "\<exists>es. trace (snd (bindIO (GrantAllPrivileges L c (DatabaseName (Spec d)) (getUsernameOrDefault d))
       (\<lambda>u2. storeCredentialsInAWS L (getUsernameOrDefault d) pw (GetConnectionInfo c)
                (Atoi (Port (GetConnectionInfo c)))
                (SecretFormatVersion (Status d) \<noteq> currentSecretFormatVersion)) w3)) = trace w3 @ es
      \<and> purge_after_write (if getRegion (db w) \<noteq> [] then getRegion (db w) else sdk_region w)
           (getSecretNameOrDefault (db w)) False es"
  proof (rule quiet_then [where S = "{KRead, KExec}"])
    show "emits {KRead, KExec}
            (GrantAllPrivileges L c (DatabaseName (Spec d)) (getUsernameOrDefault d))"
      by (intro emits_intros) simp
  next
    fix x :: unit and w4
    assume g: "GrantAllPrivileges L c (DatabaseName (Spec d)) (getUsernameOrDefault d) w3
                 = (Inr x, w4)"
    from keepsD [OF keeps_reads(11) g] w3(2)
    have k: "sdk_region w4 = sdk_region w \<and> Spec (db w4) = Spec (db w)" by simp
    show "\<exists>es. trace (snd (storeCredentialsInAWS L (getUsernameOrDefault d) pw
                (GetConnectionInfo c) (Atoi (Port (GetConnectionInfo c)))
                (SecretFormatVersion (Status d) \<noteq> currentSecretFormatVersion) w4)) = trace w4 @ es
      \<and> purge_after_write (if getRegion (db w) \<noteq> [] then getRegion (db w) else sdk_region w)
           (getSecretNameOrDefault (db w)) False es"
      using storeCredentialsInAWS_ordered [of L "getUsernameOrDefault d" pw "GetConnectionInfo c"
          "Atoi (Port (GetConnectionInfo c))"
          "SecretFormatVersion (Status d) \<noteq> currentSecretFormatVersion" w4]
      unfolding same_config [OF k] .
  qed simp
  then show ?thesis unfolding run w3(1) .
qed



lemma moved_pass:
  "(case reconcileDatabase example_lib moved_world of
      (r, w') \<Rightarrow> (r, trace w',
                   map_option SecretString (secretsmanager w' ''eu-west-1'' ''rds/postgres/appdb''),
                   secretsmanager w' ''us-east-1'' ''rds/postgres/appdb''))
   = (Inr (),
      moving @
      [(SMCreateSecret ''eu-west-1'' ''rds/postgres/appdb'' ''Database credentials for appdb''
          ''{DB_PASSWORD:s3cret}'' [(''ManagedBy'', ''database-user-operator'')], True),
       (SMDescribeSecret ''eu-west-1'' ''rds/postgres/appdb'', True),
       (SMTagResource ''eu-west-1'' ''rds/postgres/appdb''
          [(''ManagedBy'', ''database-user-operator'')], True),
       (LoadDefaultConfig ''us-east-1'', True),
       (SMDeleteSecret ''us-east-1'' ''rds/postgres/appdb'' True, True)],
      Some ''{DB_PASSWORD:s3cret}'', None)"
  by (simp add: pass_defs run_defs example_defs moved_world_def moved_spec_def moving_def
      ValidAWSRegions_def CreateSecretWithTemplate_def sm_CreateSecret_def arn_of_def)

lemma unwritten_pass:
  "(case reconcileDatabase example_lib unwritten_world of
      (r, w') \<Rightarrow> (isOK r, trace w',
                   secretsmanager w' ''eu-west-1'' ''rds/postgres/appdb'',
                   map_option SecretString (secretsmanager w' ''us-east-1'' ''rds/postgres/appdb'')))
   = (False,
      moving @
      [(SMCreateSecret ''eu-west-1'' ''rds/postgres/appdb'' ''Database credentials for appdb''
          ''{DB_PASSWORD:s3cret}'' [(''ManagedBy'', ''database-user-operator'')], False)],
      None, Some ''{DB_PASSWORD:s3cret}'')"
  by (simp add: pass_defs run_defs example_defs unwritten_world_def moved_world_def moved_spec_def
      moving_def ValidAWSRegions_def CreateSecretWithTemplate_def sm_CreateSecret_def arn_of_def)


end
